theory Spec2Isabelle
  imports Complex_Main
begin

section \<open>Errors as values\<close>

text \<open>
  The exceptions that the modelled code can raise. A function that may raise returns
  \<open>error + 'a\<close>, with \<open>Inl\<close> for the exception.
\<close>

datatype error = ZeroDivisionError | TypeError | IndexError | RuntimeError | ValueError

definition bind_err :: "error + 'a \<Rightarrow> ('a \<Rightarrow> error + 'b) \<Rightarrow> error + 'b" where
  "bind_err m f = (case m of Inl e \<Rightarrow> Inl e | Inr x \<Rightarrow> f x)"

section \<open>The ramp-up factor\<close>

text \<open>
  Python's true division of two integers: it raises \<open>ZeroDivisionError\<close> on a zero
  divisor. The quotient is taken as the exact real number (the code computes its nearest
  float).
\<close>

definition py_truediv :: "int \<Rightarrow> int \<Rightarrow> error + real" where
  "py_truediv a b = (if b = 0 then Inl ZeroDivisionError else Inr (real_of_int a / real_of_int b))"

text \<open>
  \<^verbatim>\<open>
  def _rampup_factor(self, epoch, iters, num_iters_per_epoch):
      return min(1, (epoch * num_iters_per_epoch + iters) / (2 * num_iters_per_epoch))
  \<close>
\<close>

definition rampup_factor :: "int \<Rightarrow> int \<Rightarrow> int \<Rightarrow> error + real" where
  "rampup_factor epoch iters num_iters_per_epoch =
     bind_err (py_truediv (epoch * num_iters_per_epoch + iters) (2 * num_iters_per_epoch))
       (\<lambda>q. Inr (min 1 q))"

section \<open>Tensors of token ids and of booleans\<close>

text \<open>
  A two-dimensional tensor (batch \<open>\<times>\<close> sequence) is the list of its rows. Two tensors
  have the same shape when their rows have the same lengths. The tensors that
  \<open>mask\<close> receives are Python objects that it mutates in place, so they live in a
  store: an address names a tensor object, \<open>longs\<close> holds the integer tensors and
  \<open>bools\<close> the boolean ones, and \<open>fresh\<close> is the next unused address.
\<close>

type_synonym 'a tensor = "'a list list"

type_synonym addr = nat

record heap =
  longs :: "addr \<Rightarrow> int tensor"
  bools :: "addr \<Rightarrow> bool tensor"
  fresh :: addr

definition same_shape :: "'a tensor \<Rightarrow> 'b tensor \<Rightarrow> bool" where
  "same_shape x y = (map length x = map length y)"

text \<open>A new integer tensor object, and \<open>x.clone()\<close>: a new object with the entries of \<open>x\<close>.\<close>

definition alloc :: "heap \<Rightarrow> int tensor \<Rightarrow> heap \<times> addr" where
  "alloc h v = (h\<lparr>longs := (longs h)(fresh h := v), fresh := Suc (fresh h)\<rparr>, fresh h)"

definition clone :: "heap \<Rightarrow> addr \<Rightarrow> heap \<times> addr" where
  "clone h a = alloc h (longs h a)"

text \<open>\<open>x == v\<close>, \<open>~m\<close>, \<open>a & b\<close> (on tensors of one shape) and \<open>torch.full(x.shape, v)\<close>.\<close>

definition tensor_eq :: "int tensor \<Rightarrow> int \<Rightarrow> bool tensor" where
  "tensor_eq x v = map (map (\<lambda>e. e = v)) x"

definition tensor_not :: "bool tensor \<Rightarrow> bool tensor" where
  "tensor_not m = map (map Not) m"

definition tensor_and :: "bool tensor \<Rightarrow> bool tensor \<Rightarrow> bool tensor" where
  "tensor_and a b = map2 (map2 (\<and>)) a b"

definition full :: "'a tensor \<Rightarrow> 'b \<Rightarrow> 'b tensor" where
  "full x v = map (map (\<lambda>_. v)) x"

text \<open>
  \<open>x[m] = v\<close> and \<open>x[m] = y[m]\<close> for a boolean tensor \<open>m\<close>: the new value of
  \<open>x\<close>. Indexing with a boolean tensor of another shape raises \<open>IndexError\<close>.
\<close>

definition setitem_mask :: "'a tensor \<Rightarrow> bool tensor \<Rightarrow> 'a \<Rightarrow> error + 'a tensor" where
  "setitem_mask x m v =
     (if same_shape m x then Inr (map2 (map2 (\<lambda>e c. if c then v else e)) x m)
      else Inl IndexError)"

definition setitem_mask_from :: "'a tensor \<Rightarrow> bool tensor \<Rightarrow> 'a tensor \<Rightarrow> error + 'a tensor" where
  "setitem_mask_from x m y =
     (if same_shape m x \<and> same_shape m y
      then Inr (map2 (\<lambda>xr (mr, yr). map2 (\<lambda>e (c, w). if c then w else e) xr (zip mr yr)) x (zip m y))
      else Inl IndexError)"

subsection \<open>Random draws\<close>

text \<open>
  The outcome of a random draw is a parameter of the model. \<open>torch.bernoulli(p)\<close> is
  true at a position when the uniform draw \<open>u\<close> in \<open>[0, 1)\<close> of that position is below
  the probability there; it raises when a probability is outside \<open>[0, 1]\<close>.
  \<open>torch.randint(high, x.shape)\<close> reduces the draw of each position into
  \<open>[0, high)\<close>, and raises when that range is empty.
\<close>

definition bernoulli :: "real tensor \<Rightarrow> (nat \<Rightarrow> nat \<Rightarrow> real) \<Rightarrow> error + bool tensor" where
  "bernoulli p u =
     (if \<forall>row \<in> set p. \<forall>x \<in> set row. 0 \<le> x \<and> x \<le> 1
      then Inr (map (\<lambda>b. map (\<lambda>i. u b i < p ! b ! i) [0..<length (p ! b)]) [0..<length p])
      else Inl RuntimeError)"

definition randint :: "int \<Rightarrow> 'a tensor \<Rightarrow> (nat \<Rightarrow> nat \<Rightarrow> nat) \<Rightarrow> error + int tensor" where
  "randint high x r =
     (if high \<le> 0 then Inl RuntimeError
      else Inr (map (\<lambda>b. map (\<lambda>i. int (r b i) mod high) [0..<length (x ! b)]) [0..<length x]))"

record mask_draws =
  u_mask :: "nat \<Rightarrow> nat \<Rightarrow> real"
  u_replaced :: "nat \<Rightarrow> nat \<Rightarrow> real"
  u_random :: "nat \<Rightarrow> nat \<Rightarrow> real"
  words :: "nat \<Rightarrow> nat \<Rightarrow> nat"

section \<open>The masking routine\<close>

record tokenizer =
  pad_token_id :: int
  cls_token_id :: int
  mask_token_id :: int

text \<open>What \<open>mask\<close> returns: the ids alone, or the pair of ids and labels.\<close>

datatype mask_ret = Ids addr | IdsLabels addr addr

text \<open>
  The local variables of \<open>mask\<close> when it returns: the mask after the forced clearing,
  the two sets of replaced positions, the random words, the store and the returned value.
\<close>

record mask_locals =
  masked_indices :: "bool tensor"
  indices_replaced :: "bool tensor"
  indices_random :: "bool tensor"
  random_words :: "int tensor"
  heap_out :: heap
  returned :: mask_ret

text \<open>
  \<^verbatim>\<open>
  def mask(self, input_ids, vocab_size, device, targets=None, masked_indices=None,
           probability_matrix=None):
      if masked_indices is None:
          masked_indices = torch.bernoulli(probability_matrix).bool()
      masked_indices[input_ids == self.tokenizer.pad_token_id] = False
      masked_indices[input_ids == self.tokenizer.cls_token_id] = False
      if targets is not None:
          targets[~masked_indices] = -100
      indices_replaced = (
          torch.bernoulli(torch.full(input_ids.shape, 0.8)).bool() & masked_indices)
      input_ids[indices_replaced] = self.tokenizer.mask_token_id
      indices_random = (
          torch.bernoulli(torch.full(input_ids.shape, 0.5)).bool()
          & masked_indices & ~indices_replaced)
      random_words = torch.randint(vocab_size, input_ids.shape, dtype=torch.long).to(device)
      input_ids[indices_random] = random_words[indices_random]
      if targets is not None:
          return input_ids, targets
      else:
          return input_ids
  \<close>
  \<open>input_ids\<close>, \<open>targets\<close> and \<open>masked_indices\<close> are addresses; every statement reads
  the store as the statements before it left it, so that a caller who passes one object
  twice gets what the code does then.
\<close>

definition mask_locals_of ::
  "tokenizer \<Rightarrow> heap \<Rightarrow> addr \<Rightarrow> int \<Rightarrow> addr option \<Rightarrow> addr option \<Rightarrow> real tensor option \<Rightarrow>
   mask_draws \<Rightarrow> error + mask_locals" where
  "mask_locals_of tok h input_ids vocab_size targets masked_indices_arg probability_matrix d =
     bind_err (case masked_indices_arg of
                 Some r \<Rightarrow> Inr (bools h r)
               | None \<Rightarrow> (case probability_matrix of
                            None \<Rightarrow> Inl TypeError
                          | Some p \<Rightarrow> bernoulli p (u_mask d))) (\<lambda>m0.
     bind_err (setitem_mask m0 (tensor_eq (longs h input_ids) (pad_token_id tok)) False) (\<lambda>m1.
     bind_err (setitem_mask m1 (tensor_eq (longs h input_ids) (cls_token_id tok)) False) (\<lambda>m2.
     let h1 = (case masked_indices_arg of
                 Some r \<Rightarrow> h\<lparr>bools := (bools h)(r := m2)\<rparr>
               | None \<Rightarrow> h) in
     bind_err (case targets of
                 None \<Rightarrow> Inr h1
               | Some t \<Rightarrow> bind_err (setitem_mask (longs h1 t) (tensor_not m2) (- 100))
                             (\<lambda>v. Inr (h1\<lparr>longs := (longs h1)(t := v)\<rparr>))) (\<lambda>h2.
     bind_err (bernoulli (full (longs h2 input_ids) (4 / 5)) (u_replaced d)) (\<lambda>b80.
     let replaced = tensor_and b80 m2 in
     bind_err (setitem_mask (longs h2 input_ids) replaced (mask_token_id tok)) (\<lambda>ids1.
     let h3 = h2\<lparr>longs := (longs h2)(input_ids := ids1)\<rparr> in
     bind_err (bernoulli (full (longs h3 input_ids) (1 / 2)) (u_random d)) (\<lambda>b50.
     let random = tensor_and (tensor_and b50 m2) (tensor_not replaced) in
     bind_err (randint vocab_size (longs h3 input_ids) (words d)) (\<lambda>rw.
     bind_err (setitem_mask_from (longs h3 input_ids) random rw) (\<lambda>ids2.
     Inr \<lparr>masked_indices = m2, indices_replaced = replaced, indices_random = random,
          random_words = rw,
          heap_out = h3\<lparr>longs := (longs h3)(input_ids := ids2)\<rparr>,
          returned = (case targets of None \<Rightarrow> Ids input_ids
                      | Some t \<Rightarrow> IdsLabels input_ids t)\<rparr>)))))))))"

definition mask_ids ::
  "tokenizer \<Rightarrow> heap \<Rightarrow> addr \<Rightarrow> int \<Rightarrow> addr option \<Rightarrow> addr option \<Rightarrow> real tensor option \<Rightarrow>
   mask_draws \<Rightarrow> error + (heap \<times> mask_ret)" where
  "mask_ids tok h input_ids vocab_size targets masked_indices_arg probability_matrix d =
     bind_err (mask_locals_of tok h input_ids vocab_size targets masked_indices_arg
                 probability_matrix d)
       (\<lambda>l. Inr (heap_out l, returned l))"

section \<open>Real tensors\<close>

text \<open>
  Similarities, weights and losses are real numbers (the code computes them in floating
  point). A matrix is the list of its rows. A matrix that the code only multiplies from
  the right, such as \<open>text_feat_all\<close>, is kept as the list of its columns: for
  feature vectors \<open>x\<close> kept as rows, \<open>x.t()\<close> is the same list read as
  columns, and \<open>torch.cat([a, b], dim=1)\<close> appends the columns of \<open>b\<close>.
\<close>

type_synonym vec = "real list"

type_synonym matrix = "vec list"

text \<open>\<open>x.clamp_(lo, hi)\<close>.\<close>

definition clamp :: "real \<Rightarrow> real \<Rightarrow> real \<Rightarrow> real" where
  "clamp x lo hi = min (max x lo) hi"

text \<open>\<open>F.normalize(x, dim=-1)\<close>: \<open>x\<close> over its Euclidean norm, the norm taken at least \<open>1e-12\<close>.\<close>

definition normalize_l2 :: "vec \<Rightarrow> vec" where
  "normalize_l2 x = map (\<lambda>e. e / max (sqrt (\<Sum>y\<leftarrow>x. y * y)) (1 / 10 ^ 12)) x"

definition dot :: "vec \<Rightarrow> vec \<Rightarrow> real" where
  "dot x y = (\<Sum>(a, b)\<leftarrow>zip x y. a * b)"

text \<open>
  \<open>a @ b\<close> for the rows of \<open>a\<close> and the columns of \<open>b\<close>; the product
  raises when a row and a column differ in length.
\<close>

definition matmul :: "matrix \<Rightarrow> vec list \<Rightarrow> error + matrix" where
  "matmul a cols =
     (if \<forall>x \<in> set a. \<forall>c \<in> set cols. length x = length c
      then Inr (map (\<lambda>x. map (dot x) cols) a)
      else Inl RuntimeError)"

text \<open>\<open>a @ b / t\<close>.\<close>

definition similarity :: "matrix \<Rightarrow> vec list \<Rightarrow> real \<Rightarrow> error + matrix" where
  "similarity a cols t = bind_err (matmul a cols) (\<lambda>m. Inr (map (map (\<lambda>e. e / t)) m))"

text \<open>
  \<open>F.softmax\<close> and \<open>F.log_softmax\<close> (the logarithm of the softmax) of one row,
  over the reals. There every entry of a softmax is positive; in float32 an entry that
  is small enough underflows to 0. No property below rests on a softmax entry being
  positive: the properties of the sampling weights hold for whatever non-negative
  values the softmax gives.
\<close>

definition softmax :: "vec \<Rightarrow> vec" where
  "softmax x = map (\<lambda>e. exp e / (\<Sum>y\<leftarrow>x. exp y)) x"

definition log_softmax :: "vec \<Rightarrow> vec" where
  "log_softmax x = map ln (softmax x)"

text \<open>\<open>torch.zeros(m.size())\<close> and \<open>m.fill_diagonal_(v)\<close>.\<close>

definition zeros_like :: "matrix \<Rightarrow> matrix" where
  "zeros_like m = map (map (\<lambda>_. 0)) m"

definition fill_diagonal :: "matrix \<Rightarrow> real \<Rightarrow> matrix" where
  "fill_diagonal m v = map (\<lambda>b. (m ! b)[b := v]) [0..<length m]"

definition mean :: "real list \<Rightarrow> real" where
  "mean xs = sum_list xs / real (length xs)"

text \<open>
  \<open>alpha * F.softmax(sim_m, dim=1) + (1 - alpha) * sim_targets\<close> and
  \<open>-torch.sum(F.log_softmax(sim, dim=1) * targets, dim=1).mean()\<close>. The elementwise
  operations raise on tensors of different shapes.
\<close>

definition soft_targets :: "real \<Rightarrow> matrix \<Rightarrow> matrix \<Rightarrow> error + matrix" where
  "soft_targets alpha sim_m sim_targets =
     (if same_shape sim_m sim_targets
      then Inr (map2 (map2 (\<lambda>s t. alpha * s + (1 - alpha) * t)) (map softmax sim_m) sim_targets)
      else Inl RuntimeError)"

definition soft_cross_entropy :: "matrix \<Rightarrow> matrix \<Rightarrow> error + real" where
  "soft_cross_entropy sim targets =
     (if same_shape sim targets
      then Inr (- mean (map2 (\<lambda>s t. \<Sum>(l, y)\<leftarrow>zip (log_softmax s) t. l * y) sim targets))
      else Inl RuntimeError)"

text \<open>
  \<open>F.cross_entropy(logits, labels)\<close> for two classes, with class indices as labels
  and the default reduction: the mean over the examples of the negated log-softmax of
  the labelled class.
\<close>

definition cross_entropy :: "(real \<times> real) list \<Rightarrow> nat list \<Rightarrow> error + real" where
  "cross_entropy logits labels =
     (if length logits \<noteq> length labels then Inl ValueError
      else if \<exists>y \<in> set labels. 2 \<le> y then Inl IndexError
      else Inr (mean (map2 (\<lambda>(a, b) y. - (log_softmax [a, b] ! y)) logits labels)))"

text \<open>\<open>xs[i]\<close>, and \<open>torch.stack\<close>, which raises on an empty list.\<close>

definition getitem :: "'a list \<Rightarrow> nat \<Rightarrow> error + 'a" where
  "getitem xs i = (if i < length xs then Inr (xs ! i) else Inl IndexError)"

definition stack :: "'a list \<Rightarrow> error + 'a list" where
  "stack xs = (if xs = [] then Inl RuntimeError else Inr xs)"

text \<open>
  \<open>torch.multinomial(w, 1).item()\<close>: an index drawn with probability proportional to
  its weight. It raises on a negative weight and when no weight is positive; else the
  draw \<open>d\<close> picks one of the indices of positive weight, and every such index is the
  pick of some draw.
\<close>

definition multinomial :: "vec \<Rightarrow> nat \<Rightarrow> error + nat" where
  "multinomial w d =
     (let candidates = filter (\<lambda>k. 0 < w ! k) [0..<length w] in
      if (\<exists>x \<in> set w. x < 0) \<or> candidates = [] then Inl RuntimeError
      else Inr (candidates ! (d mod length candidates)))"

section \<open>The model and its collaborators\<close>

text \<open>
  The hidden states of one sample, a sequence of vectors that is never empty: the vector
  at position 0 and the others. \<open>last_hidden_state[:, 0, :]\<close> takes the first
  component of every sample.
\<close>

type_synonym hidden = "vec \<times> vec list"

text \<open>
  The queue of negatives: the columns of \<open>image_queue\<close> and of \<open>text_queue\<close>,
  and the write pointer.
\<close>

record queue =
  image_queue :: "vec list"
  text_queue :: "vec list"
  queue_ptr :: nat

text \<open>
  The vision transformer, the text and fusion encoder, the tokenizer and the momentum
  and queue mixins are not part of the modelled file: they are parameters. \<open>'p\<close> is
  the parameters of the trainable networks (and of their momentum copies), \<open>'img\<close> an
  image. The encoders map each sample of a batch on its own; the masked-language-model
  calls take the batch. \<open>momentum_update_pairs m online teacher\<close> (the method \<open>_momentum_update\<close>) is the new teacher;
  \<open>dequeue_and_enqueue\<close> gives the new queue, or raises.
\<close>

record ('img, 'p) components =
  visual_encoder :: "'p \<Rightarrow> 'img \<Rightarrow> hidden"
  vision_proj :: "'p \<Rightarrow> vec \<Rightarrow> vec"
  text_proj :: "'p \<Rightarrow> vec \<Rightarrow> vec"
  tokenize :: "string \<Rightarrow> nat \<Rightarrow> int list \<times> int list"
  bert_text :: "'p \<Rightarrow> int list \<Rightarrow> int list \<Rightarrow> hidden"
  bert_fusion :: "'p \<Rightarrow> hidden \<Rightarrow> int list \<Rightarrow> hidden \<Rightarrow> int list \<Rightarrow> hidden"
  itm_head :: "'p \<Rightarrow> vec \<Rightarrow> real \<times> real"
  mlm_logits :: "'p \<Rightarrow> int tensor \<Rightarrow> int tensor \<Rightarrow> hidden list \<Rightarrow> int tensor \<Rightarrow> matrix list"
  mlm_loss :: "'p \<Rightarrow> int tensor \<Rightarrow> int tensor \<Rightarrow> hidden list \<Rightarrow> int tensor \<Rightarrow> int tensor
                \<Rightarrow> matrix list \<Rightarrow> real \<Rightarrow> real"
  momentum_update_pairs :: "real \<Rightarrow> 'p \<Rightarrow> 'p \<Rightarrow> 'p"
  dequeue_and_enqueue :: "queue \<Rightarrow> matrix \<Rightarrow> matrix \<Rightarrow> error + queue"

text \<open>The fields of \<open>self\<close>.\<close>

record 'p model =
  tokenizer_ids :: tokenizer
  online :: 'p
  teacher :: 'p
  queue_state :: queue
  temp :: real
  momentum :: real
  alpha :: real
  max_txt_len :: nat
  mlm_probability :: real
  vocab_size :: int

record 'img samples =
  image_input :: "'img list"
  text_input :: "string list"
  epoch :: int
  iters :: int
  num_iters_per_epoch :: int

text \<open>The outcomes of the random draws of one forward pass.\<close>

record draws =
  neg_image_draw :: "nat \<Rightarrow> nat"
  neg_text_draw :: "nat \<Rightarrow> nat"
  mask_draw :: mask_draws

section \<open>The forward pass\<close>

subsection \<open>Features (lines 100 to 145)\<close>

record features =
  image_embeds :: "hidden list"
  image_atts :: "int tensor"
  text_input_ids :: "int tensor"
  text_attention_mask :: "int tensor"
  image_feat :: matrix
  text_embeds :: "hidden list"
  text_feat :: matrix
  image_embeds_m :: "hidden list"
  image_feat_m :: matrix
  image_feat_all :: "vec list"
  text_feat_m :: matrix
  text_feat_all :: "vec list"

text \<open>
  \<^verbatim>\<open>
  image_embeds = self.visual_encoder(image)
  image_atts = torch.ones(image_embeds.size()[:-1], dtype=torch.long).to(self.device)
  text = self.tokenizer(caption, padding="max_length", truncation=True,
                        max_length=self.max_txt_len, return_tensors="pt").to(self.device)
  image_feat = F.normalize(self.vision_proj(image_embeds[:, 0, :]), dim=-1)
  text_output = self.text_encoder.bert(text.input_ids, attention_mask=text.attention_mask,
                                       return_dict=True, mode="text")
  text_embeds = text_output.last_hidden_state
  text_feat = F.normalize(self.text_proj(text_embeds[:, 0, :]), dim=-1)
  with torch.no_grad():
      self._momentum_update()
      image_embeds_m = self.visual_encoder_m(image)
      image_feat_m = F.normalize(self.vision_proj_m(image_embeds_m[:, 0, :]), dim=-1)
      image_feat_all = torch.cat([image_feat_m.t(), self.image_queue.clone().detach()], dim=1)
      text_output_m = self.text_encoder_m.bert(text.input_ids,
                          attention_mask=text.attention_mask, return_dict=True, mode="text")
      text_feat_m = F.normalize(self.text_proj_m(text_output_m.last_hidden_state[:, 0, :]),
                                dim=-1)
      text_feat_all = torch.cat([text_feat_m.t(), self.text_queue.clone().detach()], dim=1)
  \<close>
\<close>

definition encode ::
  "('img, 'p) components \<Rightarrow> 'p model \<Rightarrow> 'img samples \<Rightarrow> 'p model \<times> features" where
  "encode ext self s =
     (let image_embeds = map (visual_encoder ext (online self)) (image_input s);
          image_atts = map (\<lambda>e. replicate (Suc (length (snd e))) 1) image_embeds;
          tokens = map (\<lambda>c. tokenize ext c (max_txt_len self)) (text_input s);
          image_feat = map (\<lambda>e. normalize_l2 (vision_proj ext (online self) (fst e))) image_embeds;
          text_embeds = map (\<lambda>(ids, att). bert_text ext (online self) ids att) tokens;
          text_feat = map (\<lambda>e. normalize_l2 (text_proj ext (online self) (fst e))) text_embeds;
          self1 = self\<lparr>teacher := momentum_update_pairs ext (momentum self) (online self) (teacher self)\<rparr>;
          image_embeds_m = map (visual_encoder ext (teacher self1)) (image_input s);
          image_feat_m =
            map (\<lambda>e. normalize_l2 (vision_proj ext (teacher self1) (fst e))) image_embeds_m;
          image_feat_all = image_feat_m @ image_queue (queue_state self1);
          text_feat_m =
            map (\<lambda>(ids, att). normalize_l2 (text_proj ext (teacher self1)
                   (fst (bert_text ext (teacher self1) ids att)))) tokens;
          text_feat_all = text_feat_m @ text_queue (queue_state self1)
      in (self1,
          \<lparr>image_embeds = image_embeds, image_atts = image_atts,
           text_input_ids = map fst tokens, text_attention_mask = map snd tokens,
           image_feat = image_feat, text_embeds = text_embeds, text_feat = text_feat,
           image_embeds_m = image_embeds_m, image_feat_m = image_feat_m,
           image_feat_all = image_feat_all, text_feat_m = text_feat_m,
           text_feat_all = text_feat_all\<rparr>))"

subsection \<open>The contrastive loss (lines 147 to 170)\<close>

record ita_locals =
  sim_i2t_m :: matrix
  sim_t2i_m :: matrix
  sim_targets :: matrix
  sim_i2t_targets :: matrix
  sim_t2i_targets :: matrix
  sim_i2t :: matrix
  sim_t2i :: matrix
  loss_i2t :: real
  loss_t2i :: real
  loss_ita :: real

text \<open>
  \<^verbatim>\<open>
      sim_i2t_m = image_feat_m @ text_feat_all / self.temp
      sim_t2i_m = text_feat_m @ image_feat_all / self.temp
      sim_targets = torch.zeros(sim_i2t_m.size()).to(image.device)
      sim_targets.fill_diagonal_(1)
      sim_i2t_targets = alpha * F.softmax(sim_i2t_m, dim=1) + (1 - alpha) * sim_targets
      sim_t2i_targets = alpha * F.softmax(sim_t2i_m, dim=1) + (1 - alpha) * sim_targets
  sim_i2t = image_feat @ text_feat_all / self.temp
  sim_t2i = text_feat @ image_feat_all / self.temp
  loss_i2t = -torch.sum(F.log_softmax(sim_i2t, dim=1) * sim_i2t_targets, dim=1).mean()
  loss_t2i = -torch.sum(F.log_softmax(sim_t2i, dim=1) * sim_t2i_targets, dim=1).mean()
  loss_ita = (loss_i2t + loss_t2i) / 2
  \<close>
\<close>

definition contrastive :: "real \<Rightarrow> real \<Rightarrow> features \<Rightarrow> error + ita_locals" where
  "contrastive a t f =
     bind_err (similarity (image_feat_m f) (text_feat_all f) t) (\<lambda>i2t_m.
     bind_err (similarity (text_feat_m f) (image_feat_all f) t) (\<lambda>t2i_m.
     let targets = fill_diagonal (zeros_like i2t_m) 1 in
     bind_err (soft_targets a i2t_m targets) (\<lambda>i2t_targets.
     bind_err (soft_targets a t2i_m targets) (\<lambda>t2i_targets.
     bind_err (similarity (image_feat f) (text_feat_all f) t) (\<lambda>i2t.
     bind_err (similarity (text_feat f) (image_feat_all f) t) (\<lambda>t2i.
     bind_err (soft_cross_entropy i2t i2t_targets) (\<lambda>l_i2t.
     bind_err (soft_cross_entropy t2i t2i_targets) (\<lambda>l_t2i.
     Inr \<lparr>sim_i2t_m = i2t_m, sim_t2i_m = t2i_m, sim_targets = targets,
          sim_i2t_targets = i2t_targets, sim_t2i_targets = t2i_targets,
          sim_i2t = i2t, sim_t2i = t2i, loss_i2t = l_i2t, loss_t2i = l_t2i,
          loss_ita = (l_i2t + l_t2i) / 2\<rparr>))))))))"

subsection \<open>Hard negatives and the matching loss (lines 175 to 236)\<close>

text \<open>
  \<^verbatim>\<open>
  weights_i2t = F.softmax(sim_i2t[:, :bs], dim=1)
  weights_i2t.fill_diagonal_(0)
  \<close>
\<close>

definition neg_weights :: "matrix \<Rightarrow> nat \<Rightarrow> matrix" where
  "neg_weights sim bs = fill_diagonal (map softmax (map (take bs) sim)) 0"

text \<open>
  \<^verbatim>\<open>
  for b in range(bs):
      neg_idx = torch.multinomial(weights[b], 1).item()
      xs_neg.append(xs[neg_idx])
  \<close>
  The result pairs each drawn index with the element it selects.
\<close>

fun select_negatives ::
  "matrix \<Rightarrow> 'a list \<Rightarrow> (nat \<Rightarrow> nat) \<Rightarrow> nat list \<Rightarrow> error + (nat \<times> 'a) list" where
  "select_negatives w xs d [] = Inr []"
| "select_negatives w xs d (b # rest) =
     bind_err (getitem w b) (\<lambda>row.
     bind_err (multinomial row (d b)) (\<lambda>neg_idx.
     bind_err (getitem xs neg_idx) (\<lambda>x.
     bind_err (select_negatives w xs d rest) (\<lambda>acc.
     Inr ((neg_idx, x) # acc)))))"

text \<open>
  The fusion encoder on a batch of text embeddings and a batch of image embeddings; it
  raises when the two batches differ in size.
\<close>

definition fusion ::
  "('img, 'p) components \<Rightarrow> 'p \<Rightarrow> hidden list \<Rightarrow> int tensor \<Rightarrow> hidden list \<Rightarrow> int tensor
   \<Rightarrow> error + hidden list" where
  "fusion ext p txt txt_atts img img_atts =
     (if length txt = length img \<and> length txt_atts = length txt \<and> length img_atts = length img
      then Inr (map (\<lambda>k. bert_fusion ext p (txt ! k) (txt_atts ! k) (img ! k) (img_atts ! k))
                  [0..<length txt])
      else Inl RuntimeError)"

record itm_locals =
  output_pos :: "hidden list"
  weights_i2t :: matrix
  weights_t2i :: matrix
  image_neg_idx :: "nat list"
  text_neg_idx :: "nat list"
  image_embeds_neg :: "hidden list"
  text_embeds_neg :: "hidden list"
  text_atts_neg :: "int tensor"
  output_neg :: "hidden list"
  vl_embeddings :: matrix
  vl_output :: "(real \<times> real) list"
  itm_labels :: "nat list"
  loss_itm :: real

text \<open>
  \<^verbatim>\<open>
  output_pos = self.text_encoder.bert(encoder_embeds=text_embeds,
      attention_mask=text.attention_mask, encoder_hidden_states=image_embeds,
      encoder_attention_mask=image_atts, return_dict=True, mode="fusion")
  with torch.no_grad():
      bs = image.size(0)
      weights_i2t = F.softmax(sim_i2t[:, :bs], dim=1)
      weights_t2i = F.softmax(sim_t2i[:, :bs], dim=1)
      weights_i2t.fill_diagonal_(0)
      weights_t2i.fill_diagonal_(0)
  image_embeds_neg = []
  for b in range(bs):
      neg_idx = torch.multinomial(weights_t2i[b], 1).item()
      image_embeds_neg.append(image_embeds[neg_idx])
  image_embeds_neg = torch.stack(image_embeds_neg, dim=0)
  text_embeds_neg = []
  text_atts_neg = []
  for b in range(bs):
      neg_idx = torch.multinomial(weights_i2t[b], 1).item()
      text_embeds_neg.append(text_embeds[neg_idx])
      text_atts_neg.append(text.attention_mask[neg_idx])
  text_embeds_neg = torch.stack(text_embeds_neg, dim=0)
  text_atts_neg = torch.stack(text_atts_neg, dim=0)
  text_embeds_all = torch.cat([text_embeds, text_embeds_neg], dim=0)
  text_atts_all = torch.cat([text.attention_mask, text_atts_neg], dim=0)
  image_embeds_all = torch.cat([image_embeds_neg, image_embeds], dim=0)
  image_atts_all = torch.cat([image_atts, image_atts], dim=0)
  output_neg = self.text_encoder.bert(encoder_embeds=text_embeds_all,
      attention_mask=text_atts_all, encoder_hidden_states=image_embeds_all,
      encoder_attention_mask=image_atts_all, return_dict=True, mode="fusion")
  vl_embeddings = torch.cat([output_pos.last_hidden_state[:, 0, :],
                             output_neg.last_hidden_state[:, 0, :]], dim=0)
  vl_output = self.itm_head(vl_embeddings)
  itm_labels = torch.cat([torch.ones(bs, dtype=torch.long),
                          torch.zeros(2 * bs, dtype=torch.long)], dim=0).to(self.device)
  loss_itm = F.cross_entropy(vl_output, itm_labels)
  \<close>
\<close>

definition matching ::
  "('img, 'p) components \<Rightarrow> 'p model \<Rightarrow> features \<Rightarrow> ita_locals \<Rightarrow> nat \<Rightarrow> draws
   \<Rightarrow> error + itm_locals" where
  "matching ext self f c bs d =
     bind_err (fusion ext (online self) (text_embeds f) (text_attention_mask f)
                 (image_embeds f) (image_atts f)) (\<lambda>pos.
     let w_i2t = neg_weights (sim_i2t c) bs;
         w_t2i = neg_weights (sim_t2i c) bs in
     bind_err (select_negatives w_t2i (image_embeds f) (neg_image_draw d) [0..<bs]) (\<lambda>img_sel.
     bind_err (stack (map snd img_sel)) (\<lambda>img_neg.
     bind_err (select_negatives w_i2t (zip (text_embeds f) (text_attention_mask f))
                 (neg_text_draw d) [0..<bs]) (\<lambda>txt_sel.
     bind_err (stack (map (fst \<circ> snd) txt_sel)) (\<lambda>txt_neg.
     bind_err (stack (map (snd \<circ> snd) txt_sel)) (\<lambda>atts_neg.
     bind_err (fusion ext (online self) (text_embeds f @ txt_neg)
                 (text_attention_mask f @ atts_neg)
                 (img_neg @ image_embeds f) (image_atts f @ image_atts f)) (\<lambda>neg.
     let embeddings = map fst pos @ map fst neg;
         output = map (itm_head ext (online self)) embeddings;
         labels = replicate bs 1 @ replicate (2 * bs) 0 in
     bind_err (cross_entropy output labels) (\<lambda>l.
     Inr \<lparr>output_pos = pos, weights_i2t = w_i2t, weights_t2i = w_t2i,
          image_neg_idx = map fst img_sel, text_neg_idx = map fst txt_sel,
          image_embeds_neg = img_neg, text_embeds_neg = txt_neg, text_atts_neg = atts_neg,
          output_neg = neg, vl_embeddings = embeddings, vl_output = output,
          itm_labels = labels, loss_itm = l\<rparr>))))))))"

subsection \<open>Masked language modelling (lines 239 to 270)\<close>

record mlm_locals =
  input_ids_ref :: addr
  labels_ref :: addr
  mlm_input_ids :: "int tensor"
  mlm_labels :: "int tensor"
  loss_mlm :: real
  mlm_heap :: heap

text \<open>
  \<^verbatim>\<open>
  input_ids = text.input_ids.clone()
  labels = input_ids.clone()
  probability_matrix = torch.full(labels.shape, self.mlm_probability)
  input_ids, labels = self.mask(input_ids, self.text_encoder.config.vocab_size,
      self.device, targets=labels, probability_matrix=probability_matrix)
  with torch.no_grad():
      logits_m = self.text_encoder_m(input_ids, attention_mask=text.attention_mask,
          encoder_hidden_states=image_embeds_m, encoder_attention_mask=image_atts,
          return_dict=True, return_logits=True)
  mlm_output = self.text_encoder(input_ids, attention_mask=text.attention_mask,
      encoder_hidden_states=image_embeds, encoder_attention_mask=image_atts,
      return_dict=True, labels=labels, soft_labels=F.softmax(logits_m, dim=-1),
      alpha=alpha)
  loss_mlm = mlm_output.loss
  \<close>
  \<open>text_ref\<close> is the address of \<open>text.input_ids\<close>. Unpacking the value that
  \<open>mask\<close> returns into two names raises unless it is a pair.
\<close>

definition language_modelling ::
  "('img, 'p) components \<Rightarrow> 'p model \<Rightarrow> heap \<Rightarrow> addr \<Rightarrow> features \<Rightarrow> real \<Rightarrow> mask_draws
   \<Rightarrow> error + mlm_locals" where
  "language_modelling ext self h text_ref f a d =
     (let (h1, input_ids) = clone h text_ref;
          (h2, labels) = clone h1 input_ids;
          probability_matrix = full (longs h2 labels) (mlm_probability self) in
      bind_err (mask_ids (tokenizer_ids self) h2 input_ids (vocab_size self) (Some labels) None
                  (Some probability_matrix) d) (\<lambda>(h3, ret).
      case ret of
        Ids _ \<Rightarrow> Inl TypeError
      | IdsLabels input_ids' labels' \<Rightarrow>
          let logits_m = mlm_logits ext (teacher self) (longs h3 input_ids')
                           (text_attention_mask f) (image_embeds_m f) (image_atts f);
              l = mlm_loss ext (online self) (longs h3 input_ids') (text_attention_mask f)
                    (image_embeds f) (image_atts f) (longs h3 labels')
                    (map (map softmax) logits_m) a
          in Inr \<lparr>input_ids_ref = input_ids', labels_ref = labels',
                  mlm_input_ids = longs h3 input_ids', mlm_labels = longs h3 labels',
                  loss_mlm = l, mlm_heap = h3\<rparr>))"

subsection \<open>forward\<close>

record 'p forward_locals =
  alpha_used :: real
  text_ref :: addr
  feats :: features
  ita :: ita_locals
  itm :: itm_locals
  mlm :: mlm_locals
  self_out :: "'p model"

record losses =
  loss :: real
  ita_loss :: real
  itm_loss :: real
  mlm_loss_out :: real

text \<open>
  \<^verbatim>\<open>
  def forward(self, samples):
      image = samples["image"]
      caption = samples["text_input"]
      alpha = self.alpha * self._rampup_factor(epoch=samples["epoch"],
          iters=samples["iters"], num_iters_per_epoch=samples["num_iters_per_epoch"])
      with torch.no_grad():
          self.temp.clamp_(0.001, 0.5)
      ...
      self._dequeue_and_enqueue(image_feat_m, text_feat_m)
      ...
      return {"loss": loss_ita + loss_itm + loss_mlm, "loss_ita": loss_ita,
              "loss_itm": loss_itm, "loss_mlm": loss_mlm}
  \<close>
  \<open>forward_locals_of\<close> gives the local variables and the model when \<open>forward\<close>
  returns; \<open>forward\<close> gives what the caller sees: the model, the store and the losses.
\<close>

definition forward_locals_of ::
  "('img, 'p) components \<Rightarrow> 'p model \<Rightarrow> heap \<Rightarrow> 'img samples \<Rightarrow> draws
   \<Rightarrow> error + 'p forward_locals" where
  "forward_locals_of ext self h s d =
     bind_err (rampup_factor (epoch s) (iters s) (num_iters_per_epoch s)) (\<lambda>r.
     let a = alpha self * r;
         self0 = self\<lparr>temp := clamp (temp self) (1 / 1000) (1 / 2)\<rparr>;
         (self1, f) = encode ext self0 s;
         (h1, txt) = alloc h (text_input_ids f) in
     bind_err (contrastive a (temp self1) f) (\<lambda>c.
     bind_err (dequeue_and_enqueue ext (queue_state self1) (image_feat_m f) (text_feat_m f)) (\<lambda>q.
     let self2 = self1\<lparr>queue_state := q\<rparr> in
     bind_err (matching ext self2 f c (length (image_input s)) d) (\<lambda>m.
     bind_err (language_modelling ext self2 h1 txt f a (mask_draw d)) (\<lambda>l.
     Inr \<lparr>alpha_used = a, text_ref = txt, feats = f, ita = c, itm = m, mlm = l,
          self_out = self2\<rparr>)))))"

definition forward ::
  "('img, 'p) components \<Rightarrow> 'p model \<Rightarrow> heap \<Rightarrow> 'img samples \<Rightarrow> draws
   \<Rightarrow> error + ('p model \<times> heap \<times> losses)" where
  "forward ext self h s d =
     bind_err (forward_locals_of ext self h s d) (\<lambda>L.
     Inr (self_out L, mlm_heap (mlm L),
          \<lparr>loss = loss_ita (ita L) + loss_itm (itm L) + loss_mlm (mlm L),
           ita_loss = loss_ita (ita L), itm_loss = loss_itm (itm L),
           mlm_loss_out = loss_mlm (mlm L)\<rparr>))"

text \<open>
  The stored temperature when a call of \<open>forward\<close> ends, by a return or by an
  exception. Lines 91 to 95 compute the ramp-up factor, and can raise, before line 98
  clamps the temperature in place; no statement after line 98 assigns it, so a call that
  raises later leaves the clamped value.
\<close>

definition temp_after_forward :: "'p model \<Rightarrow> 'img samples \<Rightarrow> real" where
  "temp_after_forward self s =
     (case rampup_factor (epoch s) (iters s) (num_iters_per_epoch s) of
        Inl e \<Rightarrow> temp self
      | Inr r \<Rightarrow> clamp (temp self) (1 / 1000) (1 / 2))"

text \<open>
  The contrastive stage of a call of \<open>forward\<close>, lines 91 to 170, whether or not
  the call returns afterwards: the ramp-up factor, the clamp of line 98, the features
  and the similarities and losses computed from them.
\<close>

definition forward_similarities ::
  "('img, 'p) components \<Rightarrow> 'p model \<Rightarrow> 'img samples \<Rightarrow> error + ita_locals" where
  "forward_similarities ext self s =
     bind_err (rampup_factor (epoch s) (iters s) (num_iters_per_epoch s)) (\<lambda>r.
     let a = alpha self * r;
         self0 = self\<lparr>temp := clamp (temp self) (1 / 1000) (1 / 2)\<rparr>;
         (self1, f) = encode ext self0 s in
     contrastive a (temp self1) f)"

section \<open>Notions used to state the properties\<close>

text \<open>The positions where a boolean tensor is true.\<close>

definition true_positions :: "bool tensor \<Rightarrow> (nat \<times> nat) set" where
  "true_positions m = {(b, i). b < length m \<and> i < length (m ! b) \<and> m ! b ! i}"

text \<open>
  The arguments on which \<open>mask\<close> returns: a mask of the shape of the ids is
  supplied, or else a probability matrix of that shape with entries in \<open>[0, 1]\<close>;
  the targets, when supplied, have the shape of the ids; the vocabulary is not empty.
\<close>

definition mask_args_ok ::
  "heap \<Rightarrow> addr \<Rightarrow> int \<Rightarrow> addr option \<Rightarrow> addr option \<Rightarrow> real tensor option \<Rightarrow> bool" where
  "mask_args_ok h input_ids V targets masked_indices_arg probability_matrix =
     ((case masked_indices_arg of
         Some r \<Rightarrow> same_shape (bools h r) (longs h input_ids)
       | None \<Rightarrow> (case probability_matrix of
                    None \<Rightarrow> False
                  | Some p \<Rightarrow> same_shape p (longs h input_ids)
                             \<and> list_all (list_all (\<lambda>x. 0 \<le> x \<and> x \<le> 1)) p))
      \<and> (case targets of None \<Rightarrow> True
          | Some t \<Rightarrow> same_shape (longs h t) (longs h input_ids))
      \<and> 0 < V)"

text \<open>A concrete run: one sequence \<open>[CLS] 7 8 [PAD]\<close>, labels in a tensor of their own.\<close>

definition ex_tok :: tokenizer where
  "ex_tok = \<lparr>pad_token_id = 0, cls_token_id = 101, mask_token_id = 103\<rparr>"

definition ex_heap :: heap where
  "ex_heap = \<lparr>longs = (\<lambda>_. [])(0 := [[101, 7, 8, 0]], 1 := [[101, 7, 8, 0]]),
              bools = (\<lambda>_. [])(0 := [[True, True, False, True]]), fresh = 2\<rparr>"

definition ex_prob :: "real tensor" where
  "ex_prob = [[3 / 20, 3 / 20, 3 / 20, 3 / 20]]"

definition ex_draws :: mask_draws where
  "ex_draws = \<lparr>u_mask = (\<lambda>b i. 0), u_replaced = (\<lambda>b i. if i = 1 then 0 else 9 / 10),
               u_random = (\<lambda>b i. 0), words = (\<lambda>b i. 1005)\<rparr>"

text \<open>
  Two other calls on the same ids: one with the labels in the very tensor of the ids,
  whose result is \<open>ex_alias_locals\<close>, and one with labels that are not a copy of
  the ids, whose result is \<open>ex_other_locals\<close>.
\<close>

definition ex_heap_other :: heap where
  "ex_heap_other = ex_heap\<lparr>longs := (longs ex_heap)(1 := [[1, 2, 3, 4]])\<rparr>"

definition ex_alias_locals :: mask_locals where
  "ex_alias_locals =
     \<lparr>masked_indices = [[False, True, True, False]],
      indices_replaced = [[False, True, False, False]],
      indices_random = [[False, False, True, False]],
      random_words = [[5, 5, 5, 5]],
      heap_out = ex_heap\<lparr>longs := (longs ex_heap)(0 := [[- 100, 103, 5, - 100]])\<rparr>,
      returned = IdsLabels 0 0\<rparr>"

definition ex_other_locals :: mask_locals where
  "ex_other_locals =
     \<lparr>masked_indices = [[False, True, True, False]],
      indices_replaced = [[False, True, False, False]],
      indices_random = [[False, False, True, False]],
      random_words = [[5, 5, 5, 5]],
      heap_out = ex_heap_other\<lparr>longs := (longs ex_heap_other)
                   (1 := [[- 100, 2, 3, - 100]], 0 := [[101, 103, 5, 0]])\<rparr>,
      returned = IdsLabels 0 1\<rparr>"

text \<open>
  Other outcomes of the draws of \<open>mask\<close>: no position is replaced with the mask
  token, every masked position gets the random word \<open>v\<close>.
\<close>

definition redraw :: "mask_draws \<Rightarrow> int \<Rightarrow> mask_draws" where
  "redraw d v = d\<lparr>u_replaced := (\<lambda>b i. 9 / 10), u_random := (\<lambda>b i. 0),
                 words := (\<lambda>b i. nat v)\<rparr>"

section \<open>A concrete pass and the losses of the specification\<close>

text \<open>
  A concrete forward pass: two images and two captions, encoders that read the image
  number and the second token, a queue of two columns, and a stored temperature of 3,
  outside the interval it is clamped to.
\<close>

definition ex_ext :: "(nat, unit) components" where
  "ex_ext = \<lparr>visual_encoder = (\<lambda>p img. ([real img], [])),
     vision_proj = (\<lambda>p v. v),
     text_proj = (\<lambda>p v. v),
     tokenize = (\<lambda>c n. (take n (101 # map (\<lambda>ch. int (of_char ch)) c @ replicate n 0),
                         take n (replicate (Suc (length c)) 1 @ replicate n 0))),
     bert_text = (\<lambda>p ids att. ([real_of_int (ids ! 1 - 97)], [])),
     bert_fusion = (\<lambda>p t ta i ia. ([hd (fst t) + hd (fst i)], [])),
     itm_head = (\<lambda>p v. (0, hd v)),
     mlm_logits = (\<lambda>p ids att img img_att. map (map (\<lambda>_. [0, 0])) ids),
     mlm_loss = (\<lambda>p ids att img img_att labels soft a. a),
     momentum_update_pairs = (\<lambda>m p q. q),
     dequeue_and_enqueue = (\<lambda>q i t. Inr (q\<lparr>queue_ptr := 0\<rparr>))\<rparr>"

definition ex_model :: "unit model" where
  "ex_model = \<lparr>tokenizer_ids = ex_tok, online = (), teacher = (),
     queue_state = \<lparr>image_queue = [[1], [0]], text_queue = [[0], [1]], queue_ptr = 0\<rparr>,
     temp = 3, momentum = 199 / 200, alpha = 2 / 5, max_txt_len = 4,
     mlm_probability = 3 / 20, vocab_size = 1000\<rparr>"

definition ex_samples :: "nat samples" where
  "ex_samples = \<lparr>image_input = [0, 1], text_input = [''ab'', ''b''], epoch = 0, iters = 5,
     num_iters_per_epoch = 10\<rparr>"

text \<open>
  The same model with the default temperature, inside the interval, and the same batch
  with no iterations per epoch.
\<close>

definition ex_model_default :: "unit model" where
  "ex_model_default = ex_model\<lparr>temp := 7 / 100\<rparr>"

definition ex_samples_zero :: "nat samples" where
  "ex_samples_zero = ex_samples\<lparr>num_iters_per_epoch := 0\<rparr>"

definition ex_fdraws :: draws where
  "ex_fdraws = \<lparr>neg_image_draw = (\<lambda>b. 0), neg_text_draw = (\<lambda>b. 3), mask_draw = ex_draws\<rparr>"

definition ex_feats :: features where
  "ex_feats =
     \<lparr>image_embeds = [([0], []), ([1], [])], image_atts = [[1], [1]],
      text_input_ids = [[101, 97, 98, 0], [101, 98, 0, 0]],
      text_attention_mask = [[1, 1, 1, 0], [1, 1, 0, 0]],
      image_feat = [[0], [1]], text_embeds = [([0], []), ([1], [])], text_feat = [[0], [1]],
      image_embeds_m = [([0], []), ([1], [])], image_feat_m = [[0], [1]],
      image_feat_all = [[0], [1], [1], [0]], text_feat_m = [[0], [1]],
      text_feat_all = [[0], [1], [0], [1]]\<rparr>"

text \<open>
  The matching loss as the specification words it: the standard cross-entropy over
  \<open>3 * bs\<close> examples, the first \<open>bs\<close> labelled 1 and the others labelled 0.
\<close>

definition itm_loss_spec :: "(real \<times> real) list \<Rightarrow> nat \<Rightarrow> real" where
  "itm_loss_spec out bs =
     (\<Sum>k<3 * bs. - ln ((if k < bs then exp (snd (out ! k)) else exp (fst (out ! k)))
                          / (exp (fst (out ! k)) + exp (snd (out ! k)))))
     / real (3 * bs)"

text \<open>
  The contrastive loss as the specification words it. \<open>softmax_at x j\<close> is entry
  \<open>j\<close> of the softmax of \<open>x\<close>; the soft target of row \<open>i\<close> and column
  \<open>j\<close> is the convex combination of the teacher's softmax and the identity matrix;
  the loss of one direction is the mean over the batch of the cross-entropy between the
  targets and the student's softmax; the loss is the mean of the two directions.
\<close>

definition softmax_at :: "vec \<Rightarrow> nat \<Rightarrow> real" where
  "softmax_at x j = exp (x ! j) / (\<Sum>k<length x. exp (x ! k))"

definition soft_target_spec :: "real \<Rightarrow> matrix \<Rightarrow> nat \<Rightarrow> nat \<Rightarrow> real" where
  "soft_target_spec a teacher_sim i j =
     a * softmax_at (teacher_sim ! i) j + (1 - a) * (if i = j then 1 else 0)"

definition ita_direction_spec :: "real \<Rightarrow> matrix \<Rightarrow> matrix \<Rightarrow> real" where
  "ita_direction_spec a student_sim teacher_sim =
     (\<Sum>i<length student_sim.
        - (\<Sum>j<length (student_sim ! i).
             soft_target_spec a teacher_sim i j * ln (softmax_at (student_sim ! i) j)))
     / real (length student_sim)"

definition ita_loss_spec :: "real \<Rightarrow> matrix \<Rightarrow> matrix \<Rightarrow> matrix \<Rightarrow> matrix \<Rightarrow> real" where
  "ita_loss_spec a student_i2t teacher_i2t student_t2i teacher_t2i =
     (ita_direction_spec a student_i2t teacher_i2t
      + ita_direction_spec a student_t2i teacher_t2i) / 2"

section \<open>Properties of the ramp-up factor\<close>

lemma bind_err_Inr [simp]: "bind_err (Inr x) f = f x"
  by (simp add: bind_err_def)

lemma bind_err_Inl [simp]: "bind_err (Inl e) f = Inl e"
  by (simp add: bind_err_def)

lemma bind_err_eq_Inr: "bind_err m f = Inr y \<longleftrightarrow> (\<exists>x. m = Inr x \<and> f x = Inr y)"
  by (cases m) simp_all

lemma rampup_factor_value:
  "N \<noteq> 0 \<Longrightarrow> rampup_factor e i N = Inr (min 1 (real_of_int (e * N + i) / real_of_int (2 * N)))"
  by (simp add: rampup_factor_def py_truediv_def)

lemma rampup_factor_le_1: "rampup_factor e i N = Inr r \<Longrightarrow> r \<le> 1"
  by (auto simp: rampup_factor_def py_truediv_def split: if_splits)

text \<open>
  C1. For epoch \<open>e \<ge> 0\<close>, iteration \<open>i \<ge> 0\<close> and \<open>N > 0\<close> iterations per epoch the
  ramp-up factor is \<open>min(1, (e * N + i) / (2 * N))\<close>; it is 0 at epoch 0, iteration 0,
  it is 1 at epoch 0, iteration \<open>2 * N\<close>, and whatever the inputs, a returned factor
  never exceeds 1.
\<close>

theorem rampup_factor_spec:
  assumes "0 \<le> e" and "0 \<le> i" and "0 < N"
  shows "rampup_factor e i N = Inr (min 1 (real_of_int (e * N + i) / real_of_int (2 * N)))
       \<and> rampup_factor 0 0 N = Inr 0
       \<and> rampup_factor 0 (2 * N) N = Inr 1
       \<and> (\<forall>e' i' N' r. rampup_factor e' i' N' = Inr r \<longrightarrow> r \<le> 1)"
proof -
  from assms have n: "N \<noteq> 0" by simp
  have a: "rampup_factor e i N = Inr (min 1 (real_of_int (e * N + i) / real_of_int (2 * N)))"
    using n by (rule rampup_factor_value)
  have b: "rampup_factor 0 0 N = Inr 0"
    using n by (simp add: rampup_factor_value)
  have c: "rampup_factor 0 (2 * N) N = Inr 1"
    using n by (simp add: rampup_factor_value)
  have d: "\<forall>e' i' N' r. rampup_factor e' i' N' = Inr r \<longrightarrow> r \<le> 1"
    using rampup_factor_le_1 by blast
  from a b c d show ?thesis by blast
qed

theorem rampup_factor_spec_witness:
  "rampup_factor 1 3 10 = Inr (13 / 20) \<and> rampup_factor 0 0 10 = Inr 0
   \<and> rampup_factor 0 20 10 = Inr 1 \<and> rampup_factor 5 0 10 = Inr 1"
proof -
  have "rampup_factor 1 3 10 = Inr (min 1 (real_of_int (1 * 10 + 3) / real_of_int (2 * 10)))
       \<and> rampup_factor 0 0 10 = Inr 0
       \<and> rampup_factor 0 (2 * 10) 10 = Inr 1
       \<and> (\<forall>e' i' N' r. rampup_factor e' i' N' = Inr r \<longrightarrow> r \<le> 1)"
    by (rule rampup_factor_spec) simp_all
  moreover have "rampup_factor 5 0 10 = Inr 1"
    by (simp add: rampup_factor_value)
  ultimately show ?thesis by simp
qed

section \<open>Properties of the masking routine\<close>

subsection \<open>Shapes and entries of the tensor operations\<close>

lemma same_shape_length: "same_shape x y \<Longrightarrow> length x = length y"
  unfolding same_shape_def by (metis length_map)

lemma same_shape_row: "same_shape x y \<Longrightarrow> b < length x \<Longrightarrow> length (x ! b) = length (y ! b)"
  unfolding same_shape_def by (metis length_map nth_map)

lemma same_shape_refl [simp]: "same_shape x x"
  by (simp add: same_shape_def)

lemma same_shape_sym: "same_shape x y \<Longrightarrow> same_shape y x"
  by (simp add: same_shape_def)

lemma same_shape_trans: "same_shape x y \<Longrightarrow> same_shape y z \<Longrightarrow> same_shape x z"
  by (simp add: same_shape_def)

lemma same_shape_full [simp]: "same_shape (full x v) x"
  by (simp add: same_shape_def full_def comp_def)

lemma nth_full: "b < length x \<Longrightarrow> i < length (x ! b) \<Longrightarrow> full x v ! b ! i = v"
  by (simp add: full_def)

lemma same_shape_tensor_eq [simp]: "same_shape (tensor_eq x v) x"
  by (simp add: same_shape_def tensor_eq_def comp_def)

lemma nth_tensor_eq: "b < length x \<Longrightarrow> i < length (x ! b) \<Longrightarrow> tensor_eq x v ! b ! i = (x ! b ! i = v)"
  by (simp add: tensor_eq_def)

lemma same_shape_tensor_not [simp]: "same_shape (tensor_not m) m"
  by (simp add: same_shape_def tensor_not_def comp_def)

lemma nth_tensor_not: "b < length m \<Longrightarrow> i < length (m ! b) \<Longrightarrow> tensor_not m ! b ! i = (\<not> m ! b ! i)"
  by (simp add: tensor_not_def)

lemma same_shape_tensor_and:
  assumes "same_shape a b"
  shows "same_shape (tensor_and a b) a"
proof -
  have l: "length b = length a" using assms same_shape_length by metis
  have r: "\<And>k. k < length a \<Longrightarrow> length (b ! k) = length (a ! k)"
    using assms same_shape_row[of a b] by simp
  show ?thesis
    unfolding same_shape_def tensor_and_def by (rule nth_equalityI) (simp_all add: l r)
qed

lemma nth_tensor_and:
  "same_shape a b \<Longrightarrow> k < length a \<Longrightarrow> i < length (a ! k) \<Longrightarrow>
   tensor_and a b ! k ! i = (a ! k ! i \<and> b ! k ! i)"
  using same_shape_length[of a b] same_shape_row[of a b k]
  by (simp add: tensor_and_def)

lemma setitem_mask_Inr:
  assumes "setitem_mask x m v = Inr y"
  shows "same_shape m x" and "same_shape y x"
    and "\<And>b i. b < length x \<Longrightarrow> i < length (x ! b) \<Longrightarrow> y ! b ! i = (if m ! b ! i then v else x ! b ! i)"
proof -
  from assms show s: "same_shape m x" by (simp add: setitem_mask_def split: if_splits)
  from assms s have y: "y = map2 (map2 (\<lambda>e c. if c then v else e)) x m"
    by (simp add: setitem_mask_def)
  have l: "length m = length x" using s by (rule same_shape_length)
  have r: "\<And>b. b < length x \<Longrightarrow> length (m ! b) = length (x ! b)"
    using s l same_shape_row[of m x] by simp
  show "same_shape y x"
    unfolding same_shape_def y by (rule nth_equalityI) (simp_all add: l r)
  show "\<And>b i. b < length x \<Longrightarrow> i < length (x ! b) \<Longrightarrow> y ! b ! i = (if m ! b ! i then v else x ! b ! i)"
    by (simp add: y l r)
qed

lemma setitem_mask_from_Inr:
  assumes "setitem_mask_from x m w = Inr y"
  shows "same_shape m x" and "same_shape m w" and "same_shape y x"
    and "\<And>b i. b < length x \<Longrightarrow> i < length (x ! b) \<Longrightarrow> y ! b ! i = (if m ! b ! i then w ! b ! i else x ! b ! i)"
proof -
  from assms show s: "same_shape m x" and s2: "same_shape m w"
    by (simp_all add: setitem_mask_from_def split: if_splits)
  from assms s s2 have y: "y = map2 (\<lambda>xr (mr, yr). map2 (\<lambda>e (c, w). if c then w else e) xr (zip mr yr)) x (zip m w)"
    by (simp add: setitem_mask_from_def)
  have l: "length m = length x" "length w = length x" 
    using s s2 same_shape_length by metis+
  have r: "\<And>b. b < length x \<Longrightarrow> length (m ! b) = length (x ! b)"
     "\<And>b. b < length x \<Longrightarrow> length (w ! b) = length (x ! b)"
    using s s2 l same_shape_row[of m x] same_shape_row[of m w] by simp_all
  show "same_shape y x"
    unfolding same_shape_def y by (rule nth_equalityI) (simp_all add: l r)
  show "\<And>b i. b < length x \<Longrightarrow> i < length (x ! b) \<Longrightarrow> y ! b ! i = (if m ! b ! i then w ! b ! i else x ! b ! i)"
    by (simp add: y l r)
qed

lemma bernoulli_Inr:
  assumes "bernoulli p u = Inr m"
  shows "same_shape m p"
    and "\<And>b i. b < length p \<Longrightarrow> i < length (p ! b) \<Longrightarrow> m ! b ! i = (u b i < p ! b ! i)"
proof -
  from assms have m: "m = map (\<lambda>b. map (\<lambda>i. u b i < p ! b ! i) [0..<length (p ! b)]) [0..<length p]"
    by (simp add: bernoulli_def split: if_splits)
  show "same_shape m p"
    unfolding same_shape_def m by (rule nth_equalityI) simp_all
  show "\<And>b i. b < length p \<Longrightarrow> i < length (p ! b) \<Longrightarrow> m ! b ! i = (u b i < p ! b ! i)"
    by (simp add: m)
qed

lemma randint_Inr:
  assumes "randint high x r = Inr w"
  shows "0 < high" and "same_shape w x"
    and "\<And>b i. b < length x \<Longrightarrow> i < length (x ! b) \<Longrightarrow> w ! b ! i = int (r b i) mod high"
proof -
  from assms show h: "0 < high" by (simp add: randint_def split: if_splits)
  from assms h have w: "w = map (\<lambda>b. map (\<lambda>i. int (r b i) mod high) [0..<length (x ! b)]) [0..<length x]"
    by (simp add: randint_def)
  show "same_shape w x"
    unfolding same_shape_def w by (rule nth_equalityI) simp_all
  show "\<And>b i. b < length x \<Longrightarrow> i < length (x ! b) \<Longrightarrow> w ! b ! i = int (r b i) mod high"
    by (simp add: w)
qed

subsection \<open>What a returning call of mask went through\<close>

lemma mask_locals_ofE:
  assumes "mask_locals_of tok h a V tg mi pm d = Inr L"
  obtains m0 m1 m2 h1 h2 b80 ids1 b50 rw ids2 where
    "(case mi of Some r \<Rightarrow> Inr (bools h r)
      | None \<Rightarrow> (case pm of None \<Rightarrow> Inl TypeError | Some p \<Rightarrow> bernoulli p (u_mask d))) = Inr m0"
    "setitem_mask m0 (tensor_eq (longs h a) (pad_token_id tok)) False = Inr m1"
    "setitem_mask m1 (tensor_eq (longs h a) (cls_token_id tok)) False = Inr m2"
    "h1 = (case mi of Some r \<Rightarrow> h\<lparr>bools := (bools h)(r := m2)\<rparr> | None \<Rightarrow> h)"
    "(case tg of None \<Rightarrow> Inr h1
      | Some t \<Rightarrow> bind_err (setitem_mask (longs h1 t) (tensor_not m2) (- 100))
                    (\<lambda>v. Inr (h1\<lparr>longs := (longs h1)(t := v)\<rparr>))) = Inr h2"
    "bernoulli (full (longs h2 a) (4 / 5)) (u_replaced d) = Inr b80"
    "setitem_mask (longs h2 a) (tensor_and b80 m2) (mask_token_id tok) = Inr ids1"
    "bernoulli (full ids1 (1 / 2)) (u_random d) = Inr b50"
    "randint V ids1 (words d) = Inr rw"
    "setitem_mask_from ids1 (tensor_and (tensor_and b50 m2) (tensor_not (tensor_and b80 m2))) rw
       = Inr ids2"
    "L = \<lparr>masked_indices = m2, indices_replaced = tensor_and b80 m2,
          indices_random = tensor_and (tensor_and b50 m2) (tensor_not (tensor_and b80 m2)),
          random_words = rw,
          heap_out = h2\<lparr>longs := (longs h2)(a := ids2)\<rparr>,
          returned = (case tg of None \<Rightarrow> Ids a | Some t \<Rightarrow> IdsLabels a t)\<rparr>"
  using assms unfolding mask_locals_of_def
  by (auto simp: bind_err_eq_Inr Let_def)

lemma mask_locals_of_facts:
  assumes run: "mask_locals_of tok h a V tg mi pm d = Inr L"
    and b: "b < length (longs h a)" and i: "i < length (longs h a ! b)"
  shows "same_shape (masked_indices L) (longs h a)"
    and "masked_indices L ! b ! i \<Longrightarrow>
           longs h a ! b ! i \<noteq> pad_token_id tok \<and> longs h a ! b ! i \<noteq> cls_token_id tok"
    and "\<And>r. mi = Some r \<Longrightarrow> masked_indices L ! b ! i =
           (bools h r ! b ! i \<and> longs h a ! b ! i \<noteq> pad_token_id tok
            \<and> longs h a ! b ! i \<noteq> cls_token_id tok)"
    and "\<And>p. mi = None \<Longrightarrow> pm = Some p \<Longrightarrow> masked_indices L ! b ! i =
           (u_mask d b i < p ! b ! i \<and> longs h a ! b ! i \<noteq> pad_token_id tok
            \<and> longs h a ! b ! i \<noteq> cls_token_id tok)"
    and "indices_replaced L ! b ! i = (u_replaced d b i < 4 / 5 \<and> masked_indices L ! b ! i)"
    and "indices_random L ! b ! i =
           (u_random d b i < 1 / 2 \<and> masked_indices L ! b ! i \<and> \<not> indices_replaced L ! b ! i)"
    and "0 < V" and "random_words L ! b ! i = int (words d b i) mod V"
    and "tg \<noteq> Some a \<Longrightarrow> longs (heap_out L) a ! b ! i =
           (if indices_random L ! b ! i then random_words L ! b ! i
            else if indices_replaced L ! b ! i then mask_token_id tok
            else longs h a ! b ! i)"
    and "\<And>t. tg = Some t \<Longrightarrow> \<not> masked_indices L ! b ! i \<Longrightarrow>
           longs (heap_out L) t ! b ! i = - 100"
    and "\<And>t. tg = Some t \<Longrightarrow> t \<noteq> a \<Longrightarrow> masked_indices L ! b ! i \<Longrightarrow>
           longs (heap_out L) t ! b ! i = longs h t ! b ! i"
proof -
  let ?ids = "longs h a"
  from run obtain m0 m1 m2 h1 h2 b80 ids1 b50 rw ids2 where
    m0: "(case mi of Some r \<Rightarrow> Inr (bools h r)
      | None \<Rightarrow> (case pm of None \<Rightarrow> Inl TypeError | Some p \<Rightarrow> bernoulli p (u_mask d))) = Inr m0"
    and m1: "setitem_mask m0 (tensor_eq ?ids (pad_token_id tok)) False = Inr m1"
    and m2: "setitem_mask m1 (tensor_eq ?ids (cls_token_id tok)) False = Inr m2"
    and h1: "h1 = (case mi of Some r \<Rightarrow> h\<lparr>bools := (bools h)(r := m2)\<rparr> | None \<Rightarrow> h)"
    and h2: "(case tg of None \<Rightarrow> Inr h1
      | Some t \<Rightarrow> bind_err (setitem_mask (longs h1 t) (tensor_not m2) (- 100))
                    (\<lambda>v. Inr (h1\<lparr>longs := (longs h1)(t := v)\<rparr>))) = Inr h2"
    and b80: "bernoulli (full (longs h2 a) (4 / 5)) (u_replaced d) = Inr b80"
    and ids1: "setitem_mask (longs h2 a) (tensor_and b80 m2) (mask_token_id tok) = Inr ids1"
    and b50: "bernoulli (full ids1 (1 / 2)) (u_random d) = Inr b50"
    and rw: "randint V ids1 (words d) = Inr rw"
    and ids2: "setitem_mask_from ids1 (tensor_and (tensor_and b50 m2) (tensor_not (tensor_and b80 m2))) rw
       = Inr ids2"
    and L: "L = \<lparr>masked_indices = m2, indices_replaced = tensor_and b80 m2,
          indices_random = tensor_and (tensor_and b50 m2) (tensor_not (tensor_and b80 m2)),
          random_words = rw,
          heap_out = h2\<lparr>longs := (longs h2)(a := ids2)\<rparr>,
          returned = (case tg of None \<Rightarrow> Ids a | Some t \<Rightarrow> IdsLabels a t)\<rparr>"
    by (rule mask_locals_ofE)
  have lh1: "longs h1 = longs h" by (simp add: h1 split: option.splits)
  \<comment> \<open>shapes\<close>
  have s0: "same_shape m0 ?ids"
    by (rule same_shape_trans[OF same_shape_sym[OF setitem_mask_Inr(1)[OF m1]] same_shape_tensor_eq])
  have s1: "same_shape m1 ?ids"
    by (rule same_shape_trans[OF setitem_mask_Inr(2)[OF m1] s0])
  have s2: "same_shape m2 ?ids"
    by (rule same_shape_trans[OF setitem_mask_Inr(2)[OF m2] s1])
  have l0: "length m0 = length ?ids" "length m1 = length ?ids" "length m2 = length ?ids"
    by (rule same_shape_length[OF s0] same_shape_length[OF s1] same_shape_length[OF s2])+
  have r0: "length (m0 ! b) = length (?ids ! b)" "length (m1 ! b) = length (?ids ! b)"
    "length (m2 ! b) = length (?ids ! b)"
    using same_shape_row[OF s0, of b] same_shape_row[OF s1, of b] same_shape_row[OF s2, of b] l0 b
    by simp_all
  \<comment> \<open>the mask\<close>
  have m1v: "m1 ! b ! i = (m0 ! b ! i \<and> ?ids ! b ! i \<noteq> pad_token_id tok)"
    using setitem_mask_Inr(3)[OF m1, of b i] b i l0 r0 by (simp add: nth_tensor_eq)
  have m2v: "m2 ! b ! i = (m0 ! b ! i \<and> ?ids ! b ! i \<noteq> pad_token_id tok
      \<and> ?ids ! b ! i \<noteq> cls_token_id tok)"
    using setitem_mask_Inr(3)[OF m2, of b i] b i l0 r0 m1v by (simp add: nth_tensor_eq)
  \<comment> \<open>the ids after the labels are written\<close>
  have t2: "same_shape (longs h2 a) ?ids
      \<and> longs h2 a ! b ! i = (if tg = Some a \<and> \<not> m2 ! b ! i then - 100 else ?ids ! b ! i)"
  proof (cases tg)
    case None
    with h2 lh1 show ?thesis by simp
  next
    case (Some t)
    with h2 obtain v where v: "setitem_mask (longs h t) (tensor_not m2) (- 100) = Inr v"
      and h2': "h2 = h1\<lparr>longs := (longs h1)(t := v)\<rparr>"
      by (auto simp: bind_err_eq_Inr lh1)
    show ?thesis
    proof (cases "t = a")
      case True
      have "v ! b ! i = (if tensor_not m2 ! b ! i then - 100 else ?ids ! b ! i)"
        using setitem_mask_Inr(3)[OF v[unfolded True], of b i] b i by simp
      then have "v ! b ! i = (if \<not> m2 ! b ! i then - 100 else ?ids ! b ! i)"
        using b i l0 r0 by (simp add: nth_tensor_not)
      moreover have "same_shape v ?ids" using setitem_mask_Inr(2)[OF v[unfolded True]] .
      ultimately show ?thesis using Some True h2' by simp
    next
      case False
      with Some h2' lh1 show ?thesis by auto
    qed
  qed
  then have sh2: "same_shape (longs h2 a) ?ids" ..
  have lh2: "length (longs h2 a) = length ?ids" "length (longs h2 a ! b) = length (?ids ! b)"
    using same_shape_length[OF sh2] same_shape_row[OF sh2, of b] b by simp_all
  \<comment> \<open>replaced positions\<close>
  have sb80i: "same_shape b80 ?ids"
    by (rule same_shape_trans[OF same_shape_trans[OF bernoulli_Inr(1)[OF b80] same_shape_full] sh2])
  have sb80: "same_shape b80 m2"
    by (rule same_shape_trans[OF sb80i same_shape_sym[OF s2]])
  have b80v: "b80 ! b ! i = (u_replaced d b i < 4 / 5)"
    using bernoulli_Inr(2)[OF b80, of b i] b i lh2 by (simp add: same_shape_length[OF same_shape_full] same_shape_row[OF same_shape_full] nth_full)
  have lb80: "length b80 = length ?ids" "length (b80 ! b) = length (?ids ! b)"
    using same_shape_length[OF sb80i] same_shape_row[OF sb80i, of b] b by simp_all
  have repv: "tensor_and b80 m2 ! b ! i = (u_replaced d b i < 4 / 5 \<and> m2 ! b ! i)"
    using nth_tensor_and[OF sb80, of b i] b i lb80 b80v by simp
  have srep: "same_shape (tensor_and b80 m2) ?ids"
    by (rule same_shape_trans[OF same_shape_tensor_and[OF sb80] sb80i])
  have sids1: "same_shape ids1 ?ids"
    by (rule same_shape_trans[OF setitem_mask_Inr(2)[OF ids1] sh2])
  have lids1: "length ids1 = length ?ids" "length (ids1 ! b) = length (?ids ! b)"
    using same_shape_length[OF sids1] same_shape_row[OF sids1, of b] b by simp_all
  have ids1v: "ids1 ! b ! i = (if tensor_and b80 m2 ! b ! i then mask_token_id tok else longs h2 a ! b ! i)"
    using setitem_mask_Inr(3)[OF ids1, of b i] b i lh2 by simp
  \<comment> \<open>random positions\<close>
  have sb50i: "same_shape b50 ?ids"
    by (rule same_shape_trans[OF same_shape_trans[OF bernoulli_Inr(1)[OF b50] same_shape_full] sids1])
  have sb50: "same_shape b50 m2"
    by (rule same_shape_trans[OF sb50i same_shape_sym[OF s2]])
  have b50v: "b50 ! b ! i = (u_random d b i < 1 / 2)"
    using bernoulli_Inr(2)[OF b50, of b i] b i lids1 by (simp add: same_shape_length[OF same_shape_full] same_shape_row[OF same_shape_full] nth_full)
  have lb50: "length b50 = length ?ids" "length (b50 ! b) = length (?ids ! b)"
    using same_shape_length[OF sb50i] same_shape_row[OF sb50i, of b] b by simp_all
  have s50m: "same_shape (tensor_and b50 m2) ?ids"
    by (rule same_shape_trans[OF same_shape_tensor_and[OF sb50] sb50i])
  have l50m: "length (tensor_and b50 m2) = length ?ids"
    "length (tensor_and b50 m2 ! b) = length (?ids ! b)"
    using same_shape_length[OF s50m] same_shape_row[OF s50m, of b] b by simp_all
  have lrep: "length (tensor_and b80 m2) = length ?ids"
    "length (tensor_and b80 m2 ! b) = length (?ids ! b)"
    using same_shape_length[OF srep] same_shape_row[OF srep, of b] b by simp_all
  have snrep: "same_shape (tensor_and b50 m2) (tensor_not (tensor_and b80 m2))"
    by (rule same_shape_trans[OF s50m same_shape_sym[OF same_shape_trans[OF same_shape_tensor_not srep]]])
  have ranv: "tensor_and (tensor_and b50 m2) (tensor_not (tensor_and b80 m2)) ! b ! i
      = (u_random d b i < 1 / 2 \<and> m2 ! b ! i \<and> \<not> tensor_and b80 m2 ! b ! i)"
    using nth_tensor_and[OF snrep, of b i] nth_tensor_and[OF sb50, of b i]
      nth_tensor_not[of b "tensor_and b80 m2" i] b i l50m lrep lb50 b50v by simp
  have rwv: "rw ! b ! i = int (words d b i) mod V"
    using randint_Inr(3)[OF rw, of b i] b i lids1 by simp
  have ids2v: "ids2 ! b ! i = (if tensor_and (tensor_and b50 m2) (tensor_not (tensor_and b80 m2)) ! b ! i
      then rw ! b ! i else ids1 ! b ! i)"
    using setitem_mask_from_Inr(4)[OF ids2, of b i] b i lids1 by simp
  show "same_shape (masked_indices L) ?ids" using s2 by (simp add: L)
  show "masked_indices L ! b ! i \<Longrightarrow>
           ?ids ! b ! i \<noteq> pad_token_id tok \<and> ?ids ! b ! i \<noteq> cls_token_id tok"
    using m2v by (simp add: L)
  show "\<And>r. mi = Some r \<Longrightarrow> masked_indices L ! b ! i =
           (bools h r ! b ! i \<and> ?ids ! b ! i \<noteq> pad_token_id tok
            \<and> ?ids ! b ! i \<noteq> cls_token_id tok)"
    using m2v m0 by (auto simp: L)
  show "\<And>p. mi = None \<Longrightarrow> pm = Some p \<Longrightarrow> masked_indices L ! b ! i =
           (u_mask d b i < p ! b ! i \<and> ?ids ! b ! i \<noteq> pad_token_id tok
            \<and> ?ids ! b ! i \<noteq> cls_token_id tok)"
  proof -
    fix p assume "mi = None" "pm = Some p"
    with m0 have bp: "bernoulli p (u_mask d) = Inr m0" by simp
    have sp: "same_shape p ?ids"
      by (rule same_shape_trans[OF same_shape_sym[OF bernoulli_Inr(1)[OF bp]] s0])
    have "b < length p" "i < length (p ! b)"
      using b i same_shape_length[OF sp] same_shape_row[OF sp, of b] by simp_all
    then have "m0 ! b ! i = (u_mask d b i < p ! b ! i)"
      using bernoulli_Inr(2)[OF bp] by simp
    then show "masked_indices L ! b ! i =
           (u_mask d b i < p ! b ! i \<and> ?ids ! b ! i \<noteq> pad_token_id tok
            \<and> ?ids ! b ! i \<noteq> cls_token_id tok)"
      using m2v by (simp add: L)
  qed
  show "indices_replaced L ! b ! i = (u_replaced d b i < 4 / 5 \<and> masked_indices L ! b ! i)"
    using repv by (simp add: L)
  show "indices_random L ! b ! i =
           (u_random d b i < 1 / 2 \<and> masked_indices L ! b ! i \<and> \<not> indices_replaced L ! b ! i)"
    using ranv by (simp add: L)
  show "0 < V" using randint_Inr(1)[OF rw] .
  show "random_words L ! b ! i = int (words d b i) mod V"
    using rwv by (simp add: L)
  show "tg \<noteq> Some a \<Longrightarrow> longs (heap_out L) a ! b ! i =
           (if indices_random L ! b ! i then random_words L ! b ! i
            else if indices_replaced L ! b ! i then mask_token_id tok
            else ?ids ! b ! i)"
    using ids2v ids1v t2 by (simp add: L)
  show "\<And>t. tg = Some t \<Longrightarrow> \<not> masked_indices L ! b ! i \<Longrightarrow>
           longs (heap_out L) t ! b ! i = - 100"
  proof -
    fix t assume t: "tg = Some t" and nm: "\<not> masked_indices L ! b ! i"
    then have nm2: "\<not> m2 ! b ! i" by (simp add: L)
    show "longs (heap_out L) t ! b ! i = - 100"
    proof (cases "t = a")
      case True
      then show ?thesis using ids2v ids1v t2 t nm2 ranv repv by (simp add: L)
    next
      case False
      from t h2 obtain v where v: "setitem_mask (longs h t) (tensor_not m2) (- 100) = Inr v"
        and h2': "h2 = h1\<lparr>longs := (longs h1)(t := v)\<rparr>"
        by (auto simp: bind_err_eq_Inr lh1)
      have st: "same_shape (longs h t) ?ids"
        by (rule same_shape_trans[OF same_shape_sym[OF setitem_mask_Inr(1)[OF v]]
              same_shape_trans[OF same_shape_tensor_not s2]])
      have "b < length (longs h t)" "i < length (longs h t ! b)"
        using b i same_shape_length[OF st] same_shape_row[OF st, of b] by simp_all
      then have "v ! b ! i = (if tensor_not m2 ! b ! i then - 100 else longs h t ! b ! i)"
        using setitem_mask_Inr(3)[OF v] by simp
      then have "v ! b ! i = - 100"
        using nm2 b i l0 r0 by (simp add: nth_tensor_not)
      then show ?thesis using False h2' by (simp add: L)
    qed
  qed
  show "\<And>t. tg = Some t \<Longrightarrow> t \<noteq> a \<Longrightarrow> masked_indices L ! b ! i \<Longrightarrow>
           longs (heap_out L) t ! b ! i = longs h t ! b ! i"
  proof -
    fix t assume t: "tg = Some t" and ta: "t \<noteq> a" and "masked_indices L ! b ! i"
    then have ym: "m2 ! b ! i" by (simp add: L)
    from t h2 obtain v where v: "setitem_mask (longs h t) (tensor_not m2) (- 100) = Inr v"
      and h2': "h2 = h1\<lparr>longs := (longs h1)(t := v)\<rparr>"
      by (auto simp: bind_err_eq_Inr lh1)
    have st: "same_shape (longs h t) ?ids"
      by (rule same_shape_trans[OF same_shape_sym[OF setitem_mask_Inr(1)[OF v]]
            same_shape_trans[OF same_shape_tensor_not s2]])
    have "b < length (longs h t)" "i < length (longs h t ! b)"
      using b i same_shape_length[OF st] same_shape_row[OF st, of b] by simp_all
    then have "v ! b ! i = (if tensor_not m2 ! b ! i then - 100 else longs h t ! b ! i)"
      using setitem_mask_Inr(3)[OF v] by simp
    then have "v ! b ! i = longs h t ! b ! i"
      using ym b i l0 r0 by (simp add: nth_tensor_not)
    then show "longs (heap_out L) t ! b ! i = longs h t ! b ! i"
      using ta h2' by (simp add: L)
  qed
qed

subsection \<open>When mask returns, and what it leaves alone\<close>

lemma setitem_mask_ok: "same_shape m x \<Longrightarrow> \<exists>y. setitem_mask x m v = Inr y"
  by (simp add: setitem_mask_def)

lemma setitem_mask_from_ok:
  "same_shape m x \<Longrightarrow> same_shape m w \<Longrightarrow> \<exists>y. setitem_mask_from x m w = Inr y"
  by (simp add: setitem_mask_from_def)

lemma bernoulli_full_ok: "0 \<le> v \<Longrightarrow> v \<le> 1 \<Longrightarrow> \<exists>m. bernoulli (full x v) u = Inr m"
  by (auto simp: bernoulli_def full_def)

lemma bernoulli_ok_iff:
  "(\<exists>m. bernoulli p u = Inr m) \<longleftrightarrow> list_all (list_all (\<lambda>x. 0 \<le> x \<and> x \<le> 1)) p"
  by (auto simp: bernoulli_def list_all_iff)

lemma randint_ok: "0 < high \<Longrightarrow> \<exists>w. randint high x r = Inr w"
  by (simp add: randint_def)

lemma mask_locals_of_frame:
  assumes run: "mask_locals_of tok h a V tg mi pm d = Inr L"
  shows "returned L = (case tg of None \<Rightarrow> Ids a | Some t \<Rightarrow> IdsLabels a t)"
    and "fresh (heap_out L) = fresh h"
    and "\<And>x. x \<noteq> a \<Longrightarrow> tg \<noteq> Some x \<Longrightarrow> longs (heap_out L) x = longs h x"
    and "\<And>x. mi \<noteq> Some x \<Longrightarrow> bools (heap_out L) x = bools h x"
    and "\<And>r. mi = Some r \<Longrightarrow> bools (heap_out L) r = masked_indices L"
proof -
  from run obtain m2 h1 h2 ids2 where
    h1: "h1 = (case mi of Some r \<Rightarrow> h\<lparr>bools := (bools h)(r := m2)\<rparr> | None \<Rightarrow> h)"
    and h2: "(case tg of None \<Rightarrow> Inr h1
      | Some t \<Rightarrow> bind_err (setitem_mask (longs h1 t) (tensor_not m2) (- 100))
                    (\<lambda>v. Inr (h1\<lparr>longs := (longs h1)(t := v)\<rparr>))) = Inr h2"
    and L: "masked_indices L = m2" "heap_out L = h2\<lparr>longs := (longs h2)(a := ids2)\<rparr>"
       "returned L = (case tg of None \<Rightarrow> Ids a | Some t \<Rightarrow> IdsLabels a t)"
    by (rule mask_locals_ofE) simp
  have b2: "bools h2 = bools h1" and f2: "fresh h2 = fresh h1"
    and l2: "\<And>x. tg \<noteq> Some x \<Longrightarrow> longs h2 x = longs h1 x"
    using h2 by (auto simp: bind_err_eq_Inr split: option.splits)
  have l1: "longs h1 = longs h" and f1: "fresh h1 = fresh h"
    by (simp_all add: h1 split: option.splits)
  show "returned L = (case tg of None \<Rightarrow> Ids a | Some t \<Rightarrow> IdsLabels a t)" by (rule L)
  show "fresh (heap_out L) = fresh h" by (simp add: L f2 f1)
  show "\<And>x. x \<noteq> a \<Longrightarrow> tg \<noteq> Some x \<Longrightarrow> longs (heap_out L) x = longs h x"
    by (simp add: L l2 l1)
  show "\<And>x. mi \<noteq> Some x \<Longrightarrow> bools (heap_out L) x = bools h x"
    by (auto simp: L b2 h1 split: option.splits)
  show "\<And>r. mi = Some r \<Longrightarrow> bools (heap_out L) r = masked_indices L"
    by (simp add: L b2 h1)
qed

lemma mask_locals_of_shapes:
  assumes run: "mask_locals_of tok h a V tg mi pm d = Inr L"
  shows "mask_args_ok h a V tg mi pm"
    and "same_shape (indices_replaced L) (longs h a)"
    and "same_shape (indices_random L) (longs h a)"
    and "same_shape (random_words L) (longs h a)"
    and "same_shape (longs (heap_out L) a) (longs h a)"
    and "same_shape (masked_indices L) (longs h a)"
proof -
  let ?ids = "longs h a"
  from run obtain m0 m1 m2 h1 h2 b80 ids1 b50 rw ids2 where
    m0: "(case mi of Some r \<Rightarrow> Inr (bools h r)
      | None \<Rightarrow> (case pm of None \<Rightarrow> Inl TypeError | Some p \<Rightarrow> bernoulli p (u_mask d))) = Inr m0"
    and m1: "setitem_mask m0 (tensor_eq ?ids (pad_token_id tok)) False = Inr m1"
    and m2: "setitem_mask m1 (tensor_eq ?ids (cls_token_id tok)) False = Inr m2"
    and h1: "h1 = (case mi of Some r \<Rightarrow> h\<lparr>bools := (bools h)(r := m2)\<rparr> | None \<Rightarrow> h)"
    and h2: "(case tg of None \<Rightarrow> Inr h1
      | Some t \<Rightarrow> bind_err (setitem_mask (longs h1 t) (tensor_not m2) (- 100))
                    (\<lambda>v. Inr (h1\<lparr>longs := (longs h1)(t := v)\<rparr>))) = Inr h2"
    and b80: "bernoulli (full (longs h2 a) (4 / 5)) (u_replaced d) = Inr b80"
    and ids1: "setitem_mask (longs h2 a) (tensor_and b80 m2) (mask_token_id tok) = Inr ids1"
    and b50: "bernoulli (full ids1 (1 / 2)) (u_random d) = Inr b50"
    and rw: "randint V ids1 (words d) = Inr rw"
    and ids2: "setitem_mask_from ids1 (tensor_and (tensor_and b50 m2) (tensor_not (tensor_and b80 m2))) rw
       = Inr ids2"
    and L: "L = \<lparr>masked_indices = m2, indices_replaced = tensor_and b80 m2,
          indices_random = tensor_and (tensor_and b50 m2) (tensor_not (tensor_and b80 m2)),
          random_words = rw,
          heap_out = h2\<lparr>longs := (longs h2)(a := ids2)\<rparr>,
          returned = (case tg of None \<Rightarrow> Ids a | Some t \<Rightarrow> IdsLabels a t)\<rparr>"
    by (rule mask_locals_ofE)
  have lh1: "longs h1 = longs h" by (simp add: h1 split: option.splits)
  have s0: "same_shape m0 ?ids"
    by (rule same_shape_trans[OF same_shape_sym[OF setitem_mask_Inr(1)[OF m1]] same_shape_tensor_eq])
  have s1: "same_shape m1 ?ids"
    by (rule same_shape_trans[OF setitem_mask_Inr(2)[OF m1] s0])
  have s2: "same_shape m2 ?ids"
    by (rule same_shape_trans[OF setitem_mask_Inr(2)[OF m2] s1])
  have okm: "case mi of Some r \<Rightarrow> same_shape (bools h r) ?ids
       | None \<Rightarrow> (case pm of None \<Rightarrow> False
                  | Some p \<Rightarrow> same_shape p ?ids \<and> list_all (list_all (\<lambda>x. 0 \<le> x \<and> x \<le> 1)) p)"
  proof (cases mi)
    case (Some r)
    with m0 s0 show ?thesis by simp
  next
    case None
    with m0 obtain p where p: "pm = Some p" and bp: "bernoulli p (u_mask d) = Inr m0"
      by (auto split: option.splits)
    have "same_shape p ?ids"
      by (rule same_shape_trans[OF same_shape_sym[OF bernoulli_Inr(1)[OF bp]] s0])
    moreover have "list_all (list_all (\<lambda>x. 0 \<le> x \<and> x \<le> 1)) p"
      using bp bernoulli_ok_iff by blast
    ultimately show ?thesis using None p by simp
  qed
  have okt: "case tg of None \<Rightarrow> True | Some t \<Rightarrow> same_shape (longs h t) ?ids"
  proof (cases tg)
    case None
    then show ?thesis by simp
  next
    case (Some t)
    with h2 obtain v where v: "setitem_mask (longs h t) (tensor_not m2) (- 100) = Inr v"
      by (auto simp: bind_err_eq_Inr lh1)
    have "same_shape (longs h t) ?ids"
      by (rule same_shape_trans[OF same_shape_sym[OF setitem_mask_Inr(1)[OF v]]
            same_shape_trans[OF same_shape_tensor_not s2]])
    then show ?thesis using Some by simp
  qed
  show "mask_args_ok h a V tg mi pm"
    unfolding mask_args_ok_def using okm okt randint_Inr(1)[OF rw] by simp
  have sh2: "same_shape (longs h2 a) ?ids"
  proof (cases "tg = Some a")
    case True
    with h2 obtain v where v: "setitem_mask ?ids (tensor_not m2) (- 100) = Inr v"
      and h2': "h2 = h1\<lparr>longs := (longs h1)(a := v)\<rparr>"
      by (auto simp: bind_err_eq_Inr lh1)
    show ?thesis using setitem_mask_Inr(2)[OF v] h2' by simp
  next
    case False
    with h2 have "longs h2 a = longs h1 a"
      by (auto simp: bind_err_eq_Inr split: option.splits)
    then show ?thesis by (simp add: lh1)
  qed
  have sb80i: "same_shape b80 ?ids"
    by (rule same_shape_trans[OF same_shape_trans[OF bernoulli_Inr(1)[OF b80] same_shape_full] sh2])
  have sb80: "same_shape b80 m2"
    by (rule same_shape_trans[OF sb80i same_shape_sym[OF s2]])
  have srep: "same_shape (tensor_and b80 m2) ?ids"
    by (rule same_shape_trans[OF same_shape_tensor_and[OF sb80] sb80i])
  have sids1: "same_shape ids1 ?ids"
    by (rule same_shape_trans[OF setitem_mask_Inr(2)[OF ids1] sh2])
  have sran: "same_shape (tensor_and (tensor_and b50 m2) (tensor_not (tensor_and b80 m2))) ?ids"
    by (rule same_shape_trans[OF setitem_mask_from_Inr(1)[OF ids2] sids1])
  show "same_shape (indices_replaced L) ?ids" using srep by (simp add: L)
  show "same_shape (indices_random L) ?ids" using sran by (simp add: L)
  show "same_shape (random_words L) ?ids"
    using same_shape_trans[OF randint_Inr(2)[OF rw] sids1] by (simp add: L)
  show "same_shape (longs (heap_out L) a) ?ids"
    using same_shape_trans[OF setitem_mask_from_Inr(3)[OF ids2] sids1] by (simp add: L)
  show "same_shape (masked_indices L) ?ids" using s2 by (simp add: L)
qed

lemma mask_locals_of_ok:
  assumes ok: "mask_args_ok h a V tg mi pm"
  shows "\<exists>L. mask_locals_of tok h a V tg mi pm d = Inr L"
proof -
  let ?ids = "longs h a"
  from ok obtain m0 where
    m0: "(case mi of Some r \<Rightarrow> Inr (bools h r)
      | None \<Rightarrow> (case pm of None \<Rightarrow> Inl TypeError | Some p \<Rightarrow> bernoulli p (u_mask d))) = Inr m0"
    and s0: "same_shape m0 ?ids"
  proof (cases mi)
    case (Some r)
    with ok that show ?thesis by (simp add: mask_args_ok_def)
  next
    case None
    with ok obtain p where p: "pm = Some p" and sp: "same_shape p ?ids"
      and pr: "list_all (list_all (\<lambda>x. 0 \<le> x \<and> x \<le> 1)) p"
      by (auto simp: mask_args_ok_def split: option.splits)
    from pr obtain m where m: "bernoulli p (u_mask d) = Inr m"
      using bernoulli_ok_iff by blast
    have "same_shape m ?ids" by (rule same_shape_trans[OF bernoulli_Inr(1)[OF m] sp])
    with that None p m show ?thesis by simp
  qed
  from ok have V: "0 < V" by (simp add: mask_args_ok_def)
  obtain m1 where m1: "setitem_mask m0 (tensor_eq ?ids (pad_token_id tok)) False = Inr m1"
    using setitem_mask_ok[OF same_shape_trans[OF same_shape_tensor_eq same_shape_sym[OF s0]]]
    by blast
  have s1: "same_shape m1 ?ids"
    by (rule same_shape_trans[OF setitem_mask_Inr(2)[OF m1] s0])
  obtain m2 where m2: "setitem_mask m1 (tensor_eq ?ids (cls_token_id tok)) False = Inr m2"
    using setitem_mask_ok[OF same_shape_trans[OF same_shape_tensor_eq same_shape_sym[OF s1]]]
    by blast
  have s2: "same_shape m2 ?ids"
    by (rule same_shape_trans[OF setitem_mask_Inr(2)[OF m2] s1])
  define h1 where "h1 = (case mi of Some r \<Rightarrow> h\<lparr>bools := (bools h)(r := m2)\<rparr> | None \<Rightarrow> h)"
  have lh1: "longs h1 = longs h" by (simp add: h1_def split: option.splits)
  obtain h2 where h2: "(case tg of None \<Rightarrow> Inr h1
      | Some t \<Rightarrow> bind_err (setitem_mask (longs h1 t) (tensor_not m2) (- 100))
                    (\<lambda>v. Inr (h1\<lparr>longs := (longs h1)(t := v)\<rparr>))) = Inr h2"
    and sh2: "same_shape (longs h2 a) ?ids"
  proof (cases tg)
    case None
    with that[of h1] lh1 show ?thesis by simp
  next
    case (Some t)
    with ok have st: "same_shape (longs h t) ?ids" by (simp add: mask_args_ok_def)
    obtain v where v: "setitem_mask (longs h t) (tensor_not m2) (- 100) = Inr v"
      using setitem_mask_ok[OF same_shape_trans[OF same_shape_tensor_not
            same_shape_trans[OF s2 same_shape_sym[OF st]]]]
      by blast
    have sv: "same_shape v ?ids" by (rule same_shape_trans[OF setitem_mask_Inr(2)[OF v] st])
    have "same_shape (longs (h1\<lparr>longs := (longs h1)(t := v)\<rparr>) a) ?ids"
      using sv lh1 by (cases "a = t") simp_all
    then show ?thesis
      using that[of "h1\<lparr>longs := (longs h1)(t := v)\<rparr>"] Some v lh1 by simp
  qed
  obtain b80 where b80: "bernoulli (full (longs h2 a) (4 / 5)) (u_replaced d) = Inr b80"
    using bernoulli_full_ok[of "4 / 5"] by auto
  have sb80i: "same_shape b80 ?ids"
    by (rule same_shape_trans[OF same_shape_trans[OF bernoulli_Inr(1)[OF b80] same_shape_full] sh2])
  have sb80: "same_shape b80 m2"
    by (rule same_shape_trans[OF sb80i same_shape_sym[OF s2]])
  have srep: "same_shape (tensor_and b80 m2) ?ids"
    by (rule same_shape_trans[OF same_shape_tensor_and[OF sb80] sb80i])
  obtain ids1 where ids1: "setitem_mask (longs h2 a) (tensor_and b80 m2) (mask_token_id tok) = Inr ids1"
    using setitem_mask_ok[OF same_shape_trans[OF srep same_shape_sym[OF sh2]]] by blast
  have sids1: "same_shape ids1 ?ids"
    by (rule same_shape_trans[OF setitem_mask_Inr(2)[OF ids1] sh2])
  obtain b50 where b50: "bernoulli (full ids1 (1 / 2)) (u_random d) = Inr b50"
    using bernoulli_full_ok[of "1 / 2"] by auto
  have sb50i: "same_shape b50 ?ids"
    by (rule same_shape_trans[OF same_shape_trans[OF bernoulli_Inr(1)[OF b50] same_shape_full] sids1])
  have sb50: "same_shape b50 m2"
    by (rule same_shape_trans[OF sb50i same_shape_sym[OF s2]])
  have s50m: "same_shape (tensor_and b50 m2) ?ids"
    by (rule same_shape_trans[OF same_shape_tensor_and[OF sb50] sb50i])
  have snrep: "same_shape (tensor_and b50 m2) (tensor_not (tensor_and b80 m2))"
    by (rule same_shape_trans[OF s50m same_shape_sym[OF same_shape_trans[OF same_shape_tensor_not srep]]])
  have sran: "same_shape (tensor_and (tensor_and b50 m2) (tensor_not (tensor_and b80 m2))) ?ids"
    by (rule same_shape_trans[OF same_shape_tensor_and[OF snrep] s50m])
  obtain rw where rw: "randint V ids1 (words d) = Inr rw"
    using randint_ok[OF V] by blast
  have srw: "same_shape rw ?ids" by (rule same_shape_trans[OF randint_Inr(2)[OF rw] sids1])
  obtain ids2 where ids2: "setitem_mask_from ids1
      (tensor_and (tensor_and b50 m2) (tensor_not (tensor_and b80 m2))) rw = Inr ids2"
    using setitem_mask_from_ok[OF same_shape_trans[OF sran same_shape_sym[OF sids1]]
        same_shape_trans[OF sran same_shape_sym[OF srw]]] by blast
  show ?thesis
    unfolding mask_locals_of_def
    using m0 m1 m2 h2[unfolded h1_def] b80 ids1 b50 rw ids2 by (simp add: Let_def)
qed

subsection \<open>A concrete call\<close>

lemma upt_4: "[0..<4] = [0, 1, 2, 3]" "[0..<1] = [0]"
  by (simp_all add: upt_rec)

lemma ex_run:
  "mask_locals_of ex_tok ex_heap 0 1000 (Some 1) None (Some ex_prob) ex_draws =
     Inr \<lparr>masked_indices = [[False, True, True, False]],
          indices_replaced = [[False, True, False, False]],
          indices_random = [[False, False, True, False]],
          random_words = [[5, 5, 5, 5]],
          heap_out = ex_heap\<lparr>longs := (longs ex_heap)(1 := [[- 100, 7, 8, - 100]], 0 := [[101, 103, 5, 0]])\<rparr>,
          returned = IdsLabels 0 1\<rparr>"
  by (simp add: mask_locals_of_def ex_tok_def ex_heap_def ex_prob_def ex_draws_def
      bernoulli_def setitem_mask_def setitem_mask_from_def same_shape_def tensor_eq_def
      tensor_not_def tensor_and_def full_def randint_def upt_4 Let_def)

lemma ex_run_supplied:
  "mask_locals_of ex_tok ex_heap 0 1000 None (Some 0) None ex_draws =
     Inr \<lparr>masked_indices = [[False, True, False, False]],
          indices_replaced = [[False, True, False, False]],
          indices_random = [[False, False, False, False]],
          random_words = [[5, 5, 5, 5]],
          heap_out = ex_heap\<lparr>bools := (bools ex_heap)(0 := [[False, True, False, False]]),
             longs := (longs ex_heap)(0 := [[101, 103, 8, 0]])\<rparr>,
          returned = Ids 0\<rparr>"
  by (simp add: mask_locals_of_def ex_tok_def ex_heap_def ex_prob_def ex_draws_def
      bernoulli_def setitem_mask_def setitem_mask_from_def same_shape_def tensor_eq_def
      tensor_not_def tensor_and_def full_def randint_def upt_4 Let_def)

subsection \<open>Padding and classification positions\<close>

text \<open>
  C3. Whatever the token ids and whatever the random draws, and whether the mask was drawn
  or supplied by the caller, a position that holds the padding id or the classification
  id is not masked when \<open>mask\<close> returns: it is in neither set of replaced
  positions, the caller's mask tensor is cleared there, its token id is the one it had
  (when the labels are not the very tensor of the ids) and its label is \<open>-100\<close>.
\<close>

theorem mask_never_masks_pad_cls:
  assumes "mask_locals_of tok h input_ids V targets masked_arg pm d = Inr L"
    and "b < length (longs h input_ids)" and "i < length (longs h input_ids ! b)"
    and "longs h input_ids ! b ! i = pad_token_id tok
         \<or> longs h input_ids ! b ! i = cls_token_id tok"
  shows "\<not> masked_indices L ! b ! i
       \<and> \<not> indices_replaced L ! b ! i \<and> \<not> indices_random L ! b ! i
       \<and> (\<forall>r. masked_arg = Some r \<longrightarrow> \<not> bools (heap_out L) r ! b ! i)
       \<and> (targets \<noteq> Some input_ids \<longrightarrow>
            longs (heap_out L) input_ids ! b ! i = longs h input_ids ! b ! i)
       \<and> (\<forall>t. targets = Some t \<longrightarrow> longs (heap_out L) t ! b ! i = - 100)"
proof -
  note f = mask_locals_of_facts[OF assms(1-3)]
  have m: "\<not> masked_indices L ! b ! i" using f(2) assms(4) by blast
  have r: "\<not> indices_replaced L ! b ! i" using f(5) m by simp
  have n: "\<not> indices_random L ! b ! i" using f(6) m by simp
  have s: "\<forall>r. masked_arg = Some r \<longrightarrow> \<not> bools (heap_out L) r ! b ! i"
    using mask_locals_of_frame(5)[OF assms(1)] m by simp
  have k: "targets \<noteq> Some input_ids \<longrightarrow>
      longs (heap_out L) input_ids ! b ! i = longs h input_ids ! b ! i"
    using f(9) r n by simp
  have l: "\<forall>t. targets = Some t \<longrightarrow> longs (heap_out L) t ! b ! i = - 100"
    using f(10) m by blast
  from m r n s k l show ?thesis by blast
qed

theorem mask_never_masks_pad_cls_witness:
  "\<exists>L L'. mask_locals_of ex_tok ex_heap 0 1000 (Some 1) None (Some ex_prob) ex_draws = Inr L
     \<and> longs ex_heap 0 ! 0 ! 0 = cls_token_id ex_tok
     \<and> \<not> masked_indices L ! 0 ! 0
     \<and> longs (heap_out L) 0 ! 0 ! 0 = 101
     \<and> longs (heap_out L) 1 ! 0 ! 0 = - 100
     \<and> mask_locals_of ex_tok ex_heap 0 1000 None (Some 0) None ex_draws = Inr L'
     \<and> longs ex_heap 0 ! 0 ! 3 = pad_token_id ex_tok
     \<and> bools ex_heap 0 ! 0 ! 3
     \<and> \<not> masked_indices L' ! 0 ! 3
     \<and> \<not> bools (heap_out L') 0 ! 0 ! 3
     \<and> longs (heap_out L') 0 ! 0 ! 3 = 0"
proof -
  obtain L where L: "mask_locals_of ex_tok ex_heap 0 1000 (Some 1) None (Some ex_prob) ex_draws = Inr L"
    using ex_run by blast
  obtain L' where L': "mask_locals_of ex_tok ex_heap 0 1000 None (Some 0) None ex_draws = Inr L'"
    using ex_run_supplied by blast
  have c: "longs ex_heap 0 ! 0 ! 0 = cls_token_id ex_tok"
    "longs ex_heap 0 ! 0 ! 3 = pad_token_id ex_tok" "bools ex_heap 0 ! 0 ! 3"
    by (simp_all add: ex_heap_def ex_tok_def)
  have "\<not> masked_indices L ! 0 ! 0
       \<and> \<not> indices_replaced L ! 0 ! 0 \<and> \<not> indices_random L ! 0 ! 0
       \<and> (\<forall>r. (None :: addr option) = Some r \<longrightarrow> \<not> bools (heap_out L) r ! 0 ! 0)
       \<and> (Some 1 \<noteq> Some (0 :: addr) \<longrightarrow>
            longs (heap_out L) 0 ! 0 ! 0 = longs ex_heap 0 ! 0 ! 0)
       \<and> (\<forall>t. Some 1 = Some t \<longrightarrow> longs (heap_out L) t ! 0 ! 0 = - 100)"
    by (rule mask_never_masks_pad_cls[OF L]) (simp_all add: ex_heap_def ex_tok_def)
  then have 1: "\<not> masked_indices L ! 0 ! 0 \<and> longs (heap_out L) 0 ! 0 ! 0 = 101
     \<and> longs (heap_out L) 1 ! 0 ! 0 = - 100"
    by (simp add: ex_heap_def)
  have "\<not> masked_indices L' ! 0 ! 3
       \<and> \<not> indices_replaced L' ! 0 ! 3 \<and> \<not> indices_random L' ! 0 ! 3
       \<and> (\<forall>r. Some (0 :: addr) = Some r \<longrightarrow> \<not> bools (heap_out L') r ! 0 ! 3)
       \<and> ((None :: addr option) \<noteq> Some 0 \<longrightarrow>
            longs (heap_out L') 0 ! 0 ! 3 = longs ex_heap 0 ! 0 ! 3)
       \<and> (\<forall>t. (None :: addr option) = Some t \<longrightarrow> longs (heap_out L') t ! 0 ! 3 = - 100)"
    by (rule mask_never_masks_pad_cls[OF L']) (simp_all add: ex_heap_def ex_tok_def)
  then have 2: "\<not> masked_indices L' ! 0 ! 3 \<and> \<not> bools (heap_out L') 0 ! 0 ! 3
     \<and> longs (heap_out L') 0 ! 0 ! 3 = 0"
    by (simp add: ex_heap_def)
  from L L' c 1 2 show ?thesis by blast
qed

subsection \<open>The two sets of replaced positions\<close>

text \<open>
  C4. Whatever the input and the draws, the positions replaced with the mask token and
  the positions replaced with a random word are disjoint sets, and both are sets of
  masked positions.
\<close>

theorem mask_replaced_random_disjoint:
  assumes "mask_locals_of tok h input_ids V targets masked_arg pm d = Inr L"
  shows "true_positions (indices_replaced L) \<inter> true_positions (indices_random L) = {}
       \<and> true_positions (indices_replaced L) \<subseteq> true_positions (masked_indices L)
       \<and> true_positions (indices_random L) \<subseteq> true_positions (masked_indices L)"
proof -
  let ?ids = "longs h input_ids"
  note s = mask_locals_of_shapes[OF assms]
  have pos: "\<And>m b i. same_shape m ?ids \<Longrightarrow> (b, i) \<in> true_positions m \<Longrightarrow>
      b < length ?ids \<and> i < length (?ids ! b) \<and> m ! b ! i"
    using same_shape_length same_shape_row by (fastforce simp: true_positions_def)
  have inv: "\<And>m b i. same_shape m ?ids \<Longrightarrow> b < length ?ids \<Longrightarrow> i < length (?ids ! b) \<Longrightarrow>
      m ! b ! i \<Longrightarrow> (b, i) \<in> true_positions m"
    using same_shape_length same_shape_row by (fastforce simp: true_positions_def)
  have a: "true_positions (indices_replaced L) \<inter> true_positions (indices_random L) = {}"
  proof (rule ccontr)
    assume "\<not> ?thesis"
    then obtain b i where 1: "(b, i) \<in> true_positions (indices_replaced L)"
      and 2: "(b, i) \<in> true_positions (indices_random L)" by auto
    from pos[OF s(2) 1] pos[OF s(3) 2] mask_locals_of_facts(6)[OF assms, of b i]
    show False by simp
  qed
  have b: "true_positions (indices_replaced L) \<subseteq> true_positions (masked_indices L)"
  proof
    fix x assume x: "x \<in> true_positions (indices_replaced L)"
    obtain b i where bi: "x = (b, i)" by (cases x)
    from pos[OF s(2) x[unfolded bi]] mask_locals_of_facts(5)[OF assms, of b i]
    have "b < length ?ids \<and> i < length (?ids ! b) \<and> masked_indices L ! b ! i" by simp
    then show "x \<in> true_positions (masked_indices L)" using inv[OF s(6)] bi by simp
  qed
  have c: "true_positions (indices_random L) \<subseteq> true_positions (masked_indices L)"
  proof
    fix x assume x: "x \<in> true_positions (indices_random L)"
    obtain b i where bi: "x = (b, i)" by (cases x)
    from pos[OF s(3) x[unfolded bi]] mask_locals_of_facts(6)[OF assms, of b i]
    have "b < length ?ids \<and> i < length (?ids ! b) \<and> masked_indices L ! b ! i" by simp
    then show "x \<in> true_positions (masked_indices L)" using inv[OF s(6)] bi by simp
  qed
  from a b c show ?thesis by blast
qed

theorem mask_replaced_random_disjoint_witness:
  "\<exists>L. mask_locals_of ex_tok ex_heap 0 1000 (Some 1) None (Some ex_prob) ex_draws = Inr L
     \<and> (0, 1) \<in> true_positions (indices_replaced L)
     \<and> (0, 1) \<notin> true_positions (indices_random L)
     \<and> (0, 2) \<in> true_positions (indices_random L)
     \<and> (0, 2) \<notin> true_positions (indices_replaced L)
     \<and> (0, 1) \<in> true_positions (masked_indices L)
     \<and> (0, 2) \<in> true_positions (masked_indices L)"
proof -
  obtain L where L: "mask_locals_of ex_tok ex_heap 0 1000 (Some 1) None (Some ex_prob) ex_draws = Inr L"
    and r: "indices_replaced L = [[False, True, False, False]]"
    and n: "indices_random L = [[False, False, True, False]]"
    using ex_run by simp
  have 1: "(0, 1) \<in> true_positions (indices_replaced L)"
    and 2: "(0, 2) \<in> true_positions (indices_random L)"
    by (simp_all add: true_positions_def r n)
  from mask_replaced_random_disjoint[OF L] 1 2 L show ?thesis by blast
qed

subsection \<open>Labels and the returned value\<close>

text \<open>
  C5. When a targets tensor is supplied, \<open>mask\<close> returns the pair of the ids and
  the labels and every position where the mask (after the forced clearing) is false
  has the label \<open>-100\<close>. A masked position keeps the label that the targets held
  there, provided the targets are not the very tensor of the ids; that label is the
  original token id when the targets hold a copy of the ids (what \<open>forward\<close>
  passes). Unless the targets are the very tensor of the ids, the returned ids are the
  corrupted ones: the mask token where the draw replaces, the random word where the
  draw takes a random word, the original id elsewhere. Without a targets tensor
  \<open>mask\<close> returns the ids alone.
\<close>

theorem mask_labels:
  assumes "mask_locals_of tok h input_ids V targets masked_arg pm d = Inr L"
  shows "mask_ids tok h input_ids V targets masked_arg pm d = Inr (heap_out L, returned L)
       \<and> (targets = None \<longrightarrow> returned L = Ids input_ids)
       \<and> (\<forall>t. targets = Some t \<longrightarrow>
            returned L = IdsLabels input_ids t
            \<and> (\<forall>b i. b < length (longs h input_ids) \<and> i < length (longs h input_ids ! b) \<longrightarrow>
                 (\<not> masked_indices L ! b ! i \<longrightarrow> longs (heap_out L) t ! b ! i = - 100)
               \<and> (masked_indices L ! b ! i \<and> t \<noteq> input_ids \<longrightarrow>
                    longs (heap_out L) t ! b ! i = longs h t ! b ! i)
               \<and> (masked_indices L ! b ! i \<and> t \<noteq> input_ids
                    \<and> longs h t = longs h input_ids \<longrightarrow>
                    longs (heap_out L) t ! b ! i = longs h input_ids ! b ! i)))
       \<and> (\<forall>b i. b < length (longs h input_ids) \<and> i < length (longs h input_ids ! b) \<longrightarrow>
            indices_replaced L ! b ! i = (u_replaced d b i < 4 / 5 \<and> masked_indices L ! b ! i)
          \<and> indices_random L ! b ! i
              = (u_random d b i < 1 / 2 \<and> masked_indices L ! b ! i
                 \<and> \<not> indices_replaced L ! b ! i)
          \<and> (targets \<noteq> Some input_ids \<longrightarrow>
               longs (heap_out L) input_ids ! b ! i =
                 (if indices_random L ! b ! i then int (words d b i) mod V
                  else if indices_replaced L ! b ! i then mask_token_id tok
                  else longs h input_ids ! b ! i)))"
proof -
  have a: "mask_ids tok h input_ids V targets masked_arg pm d = Inr (heap_out L, returned L)"
    using assms by (simp add: mask_ids_def)
  have b: "targets = None \<longrightarrow> returned L = Ids input_ids"
    using mask_locals_of_frame(1)[OF assms] by simp
  have c: "\<forall>t. targets = Some t \<longrightarrow> returned L = IdsLabels input_ids t"
    using mask_locals_of_frame(1)[OF assms] by simp
  have d: "\<forall>t. targets = Some t \<longrightarrow>
      (\<forall>b i. b < length (longs h input_ids) \<and> i < length (longs h input_ids ! b) \<longrightarrow>
                 (\<not> masked_indices L ! b ! i \<longrightarrow> longs (heap_out L) t ! b ! i = - 100)
               \<and> (masked_indices L ! b ! i \<and> t \<noteq> input_ids \<longrightarrow>
                    longs (heap_out L) t ! b ! i = longs h t ! b ! i)
               \<and> (masked_indices L ! b ! i \<and> t \<noteq> input_ids
                    \<and> longs h t = longs h input_ids \<longrightarrow>
                    longs (heap_out L) t ! b ! i = longs h input_ids ! b ! i))"
  proof (intro allI impI, elim conjE)
    fix t b i
    assume t: "targets = Some t" and b: "b < length (longs h input_ids)"
      and i: "i < length (longs h input_ids ! b)"
    note f = mask_locals_of_facts[OF assms b i]
    show "(\<not> masked_indices L ! b ! i \<longrightarrow> longs (heap_out L) t ! b ! i = - 100)
               \<and> (masked_indices L ! b ! i \<and> t \<noteq> input_ids \<longrightarrow>
                    longs (heap_out L) t ! b ! i = longs h t ! b ! i)
               \<and> (masked_indices L ! b ! i \<and> t \<noteq> input_ids
                    \<and> longs h t = longs h input_ids \<longrightarrow>
                    longs (heap_out L) t ! b ! i = longs h input_ids ! b ! i)"
      using f(10)[OF t] f(11)[OF t] by auto
  qed
  have e: "\<forall>b i. b < length (longs h input_ids) \<and> i < length (longs h input_ids ! b) \<longrightarrow>
            indices_replaced L ! b ! i = (u_replaced d b i < 4 / 5 \<and> masked_indices L ! b ! i)
          \<and> indices_random L ! b ! i
              = (u_random d b i < 1 / 2 \<and> masked_indices L ! b ! i
                 \<and> \<not> indices_replaced L ! b ! i)
          \<and> (targets \<noteq> Some input_ids \<longrightarrow>
               longs (heap_out L) input_ids ! b ! i =
                 (if indices_random L ! b ! i then int (words d b i) mod V
                  else if indices_replaced L ! b ! i then mask_token_id tok
                  else longs h input_ids ! b ! i))"
  proof (intro allI impI, elim conjE)
    fix b i
    assume b: "b < length (longs h input_ids)" and i: "i < length (longs h input_ids ! b)"
    note f = mask_locals_of_facts[OF assms b i]
    show "indices_replaced L ! b ! i = (u_replaced d b i < 4 / 5 \<and> masked_indices L ! b ! i)
          \<and> indices_random L ! b ! i
              = (u_random d b i < 1 / 2 \<and> masked_indices L ! b ! i
                 \<and> \<not> indices_replaced L ! b ! i)
          \<and> (targets \<noteq> Some input_ids \<longrightarrow>
               longs (heap_out L) input_ids ! b ! i =
                 (if indices_random L ! b ! i then int (words d b i) mod V
                  else if indices_replaced L ! b ! i then mask_token_id tok
                  else longs h input_ids ! b ! i))"
      using f(5) f(6) f(8) f(9) by simp
  qed
  from a b c d e show ?thesis by blast
qed

theorem mask_labels_witness:
  "\<exists>L. mask_locals_of ex_tok ex_heap 0 1000 (Some 1) None (Some ex_prob) ex_draws = Inr L
     \<and> mask_ids ex_tok ex_heap 0 1000 (Some 1) None (Some ex_prob) ex_draws
         = Inr (heap_out L, IdsLabels 0 1)
     \<and> masked_indices L = [[False, True, True, False]]
     \<and> longs ex_heap 0 = [[101, 7, 8, 0]]
     \<and> longs (heap_out L) 1 ! 0 ! 0 = - 100
     \<and> longs (heap_out L) 1 ! 0 ! 1 = 7
     \<and> longs (heap_out L) 1 ! 0 ! 2 = 8
     \<and> longs (heap_out L) 1 ! 0 ! 3 = - 100
     \<and> longs (heap_out L) 0 ! 0 ! 0 = 101
     \<and> longs (heap_out L) 0 ! 0 ! 1 = 103
     \<and> longs (heap_out L) 0 ! 0 ! 2 = 5
     \<and> longs (heap_out L) 0 ! 0 ! 3 = 0"
proof -
  obtain L where L: "mask_locals_of ex_tok ex_heap 0 1000 (Some 1) None (Some ex_prob) ex_draws = Inr L"
    and m: "masked_indices L = [[False, True, True, False]]"
    using ex_run by simp
  note t = mask_labels[OF L]
  have len: "length (longs ex_heap 0) = 1" "length (longs ex_heap 0 ! 0) = 4"
    "longs ex_heap 1 = longs ex_heap 0" "longs ex_heap 0 ! 0 ! 1 = 7" "longs ex_heap 0 ! 0 ! 2 = 8"
    "longs ex_heap 0 ! 0 ! 0 = 101" "longs ex_heap 0 ! 0 ! 3 = 0"
    "longs ex_heap 0 = [[101, 7, 8, 0]]"
    by (simp_all add: ex_heap_def)
  from t have r: "returned L = IdsLabels 0 1" by simp
  from t have k: "\<And>b i. b < length (longs ex_heap 0) \<and> i < length (longs ex_heap 0 ! b) \<Longrightarrow>
                 (\<not> masked_indices L ! b ! i \<longrightarrow> longs (heap_out L) 1 ! b ! i = - 100)
               \<and> (masked_indices L ! b ! i \<and> (1::nat) \<noteq> 0
                    \<and> longs ex_heap 1 = longs ex_heap 0 \<longrightarrow>
                    longs (heap_out L) 1 ! b ! i = longs ex_heap 0 ! b ! i)"
    by blast
  from t have c: "\<And>b i. b < length (longs ex_heap 0) \<and> i < length (longs ex_heap 0 ! b) \<Longrightarrow>
            indices_replaced L ! b ! i
              = (u_replaced ex_draws b i < 4 / 5 \<and> masked_indices L ! b ! i)
          \<and> indices_random L ! b ! i
              = (u_random ex_draws b i < 1 / 2 \<and> masked_indices L ! b ! i
                 \<and> \<not> indices_replaced L ! b ! i)
          \<and> (Some (1::nat) \<noteq> Some 0 \<longrightarrow>
               longs (heap_out L) 0 ! b ! i =
                 (if indices_random L ! b ! i then int (words ex_draws b i) mod 1000
                  else if indices_replaced L ! b ! i then mask_token_id ex_tok
                  else longs ex_heap 0 ! b ! i))"
    by blast
  have "longs (heap_out L) 1 ! 0 ! 0 = - 100" using k[of 0 0] len m by simp
  moreover have "longs (heap_out L) 1 ! 0 ! 1 = 7" using k[of 0 1] len m by simp
  moreover have "longs (heap_out L) 1 ! 0 ! 2 = 8" using k[of 0 2] len m by simp
  moreover have "longs (heap_out L) 1 ! 0 ! 3 = - 100" using k[of 0 3] len m by simp
  moreover have "longs (heap_out L) 0 ! 0 ! 0 = 101"
    using c[of 0 0] len m by (simp add: ex_draws_def ex_tok_def)
  moreover have "longs (heap_out L) 0 ! 0 ! 1 = 103"
    using c[of 0 1] len m by (simp add: ex_draws_def ex_tok_def)
  moreover have "longs (heap_out L) 0 ! 0 ! 2 = 5"
    using c[of 0 2] len m by (simp add: ex_draws_def ex_tok_def)
  moreover have "longs (heap_out L) 0 ! 0 ! 3 = 0"
    using c[of 0 3] len m by (simp add: ex_draws_def ex_tok_def)
  moreover have "mask_ids ex_tok ex_heap 0 1000 (Some 1) None (Some ex_prob) ex_draws
         = Inr (heap_out L, IdsLabels 0 1)" using t r by simp
  ultimately show ?thesis using L m len(8) by blast
qed

text \<open>
  As first stated, with the original token id kept at every masked position whatever
  the targets, the claim fails: with the labels in the tensor of the ids the label of a
  masked position is the mask token 103 where the id was 7, and with labels
  \<open>[[1, 2, 3, 4]]\<close> it is 2.
\<close>

theorem mask_labels_counterexample:
  "mask_locals_of ex_tok ex_heap 0 1000 (Some 0) None (Some ex_prob) ex_draws
     = Inr ex_alias_locals
   \<and> masked_indices ex_alias_locals ! 0 ! 1
   \<and> returned ex_alias_locals = IdsLabels 0 0
   \<and> longs ex_heap 0 ! 0 ! 1 = 7
   \<and> longs (heap_out ex_alias_locals) 0 ! 0 ! 1 = 103
   \<and> mask_locals_of ex_tok ex_heap_other 0 1000 (Some 1) None (Some ex_prob) ex_draws
        = Inr ex_other_locals
   \<and> masked_indices ex_other_locals ! 0 ! 1
   \<and> returned ex_other_locals = IdsLabels 0 1
   \<and> longs ex_heap_other 0 ! 0 ! 1 = 7
   \<and> longs (heap_out ex_other_locals) 1 ! 0 ! 1 = 2"
proof -
  have 1: "mask_locals_of ex_tok ex_heap 0 1000 (Some 0) None (Some ex_prob) ex_draws
     = Inr ex_alias_locals"
    by (simp add: mask_locals_of_def ex_tok_def ex_heap_def ex_prob_def ex_draws_def
      ex_alias_locals_def
      bernoulli_def setitem_mask_def setitem_mask_from_def same_shape_def tensor_eq_def
      tensor_not_def tensor_and_def full_def randint_def upt_4 Let_def)
  have 2: "mask_locals_of ex_tok ex_heap_other 0 1000 (Some 1) None (Some ex_prob) ex_draws
        = Inr ex_other_locals"
    by (simp add: mask_locals_of_def ex_tok_def ex_heap_def ex_prob_def ex_draws_def
      ex_other_locals_def ex_heap_other_def
      bernoulli_def setitem_mask_def setitem_mask_from_def same_shape_def tensor_eq_def
      tensor_not_def tensor_and_def full_def randint_def upt_4 Let_def)
  have 3: "masked_indices ex_alias_locals ! 0 ! 1" "returned ex_alias_locals = IdsLabels 0 0"
    "longs ex_heap 0 ! 0 ! 1 = 7" "longs (heap_out ex_alias_locals) 0 ! 0 ! 1 = 103"
    by (simp_all add: ex_alias_locals_def ex_heap_def)
  have 4: "masked_indices ex_other_locals ! 0 ! 1" "returned ex_other_locals = IdsLabels 0 1"
    "longs ex_heap_other 0 ! 0 ! 1 = 7" "longs (heap_out ex_other_locals) 1 ! 0 ! 1 = 2"
    by (simp_all add: ex_other_locals_def ex_heap_other_def ex_heap_def)
  from 1 2 3 4 show ?thesis by simp
qed

subsection \<open>Random words\<close>

lemma masked_indices_draws:
  assumes r1: "mask_locals_of tok h a V tg mi pm d = Inr L"
    and r2: "mask_locals_of tok h a V tg mi pm d' = Inr L'"
    and u: "u_mask d' = u_mask d"
    and b: "b < length (longs h a)" and i: "i < length (longs h a ! b)"
  shows "masked_indices L' ! b ! i = masked_indices L ! b ! i"
proof (cases mi)
  case (Some r)
  show ?thesis
    using mask_locals_of_facts(3)[OF r1 b i Some] mask_locals_of_facts(3)[OF r2 b i Some]
    by simp
next
  case None
  from mask_locals_of_shapes(1)[OF r1] None obtain p where p: "pm = Some p"
    by (auto simp: mask_args_ok_def split: option.splits)
  show ?thesis
    using mask_locals_of_facts(4)[OF r1 b i None p] mask_locals_of_facts(4)[OF r2 b i None p] u
    by simp
qed

text \<open>
  C6. At a position replaced with a random word the new token id is the drawn word, which
  lies in \<open>[0, vocab_size)\<close>; and nothing in that range is excluded: for every
  \<open>v\<close> in the range and every masked position some outcome of the draws
  (\<open>redraw d v\<close>) puts \<open>v\<close> there, be \<open>v\<close> the original token id
  or the mask token id. (That the draw is uniform on the range is a property of the
  distribution, which the model does not represent.)
\<close>

theorem mask_random_word_range:
  assumes run: "mask_locals_of tok h input_ids V targets masked_arg pm d = Inr L"
    and b: "b < length (longs h input_ids)" and i: "i < length (longs h input_ids ! b)"
    and na: "targets \<noteq> Some input_ids"
  shows "(indices_random L ! b ! i \<longrightarrow>
            longs (heap_out L) input_ids ! b ! i = int (words d b i) mod V
            \<and> 0 \<le> longs (heap_out L) input_ids ! b ! i
            \<and> longs (heap_out L) input_ids ! b ! i < V)
       \<and> (masked_indices L ! b ! i \<longrightarrow>
            (\<forall>v. 0 \<le> v \<and> v < V \<longrightarrow>
               (\<exists>L'. mask_locals_of tok h input_ids V targets masked_arg pm (redraw d v) = Inr L'
                  \<and> indices_random L' ! b ! i
                  \<and> longs (heap_out L') input_ids ! b ! i = v)))"
proof -
  note f = mask_locals_of_facts[OF run b i]
  have 1: "indices_random L ! b ! i \<longrightarrow>
            longs (heap_out L) input_ids ! b ! i = int (words d b i) mod V
            \<and> 0 \<le> longs (heap_out L) input_ids ! b ! i
            \<and> longs (heap_out L) input_ids ! b ! i < V"
    using f(9)[OF na] f(8) f(7) by simp
  have 2: "masked_indices L ! b ! i \<longrightarrow>
            (\<forall>v. 0 \<le> v \<and> v < V \<longrightarrow>
               (\<exists>L'. mask_locals_of tok h input_ids V targets masked_arg pm (redraw d v) = Inr L'
                  \<and> indices_random L' ! b ! i
                  \<and> longs (heap_out L') input_ids ! b ! i = v))"
  proof (intro impI allI, elim conjE)
    fix v :: int
    assume m: "masked_indices L ! b ! i" and v: "0 \<le> v" "v < V"
    obtain L' where L': "mask_locals_of tok h input_ids V targets masked_arg pm (redraw d v) = Inr L'"
      using mask_locals_of_ok[OF mask_locals_of_shapes(1)[OF run]] by blast
    note g = mask_locals_of_facts[OF L' b i]
    have m': "masked_indices L' ! b ! i"
      using masked_indices_draws[OF run L' _ b i] m by (simp add: redraw_def)
    have nr: "\<not> indices_replaced L' ! b ! i" using g(5) by (simp add: redraw_def)
    have ra: "indices_random L' ! b ! i" using g(6) m' nr by (simp add: redraw_def)
    have "random_words L' ! b ! i = v" using g(8) v by (simp add: redraw_def)
    then have "longs (heap_out L') input_ids ! b ! i = v" using g(9)[OF na] ra by simp
    with L' ra show "\<exists>L'. mask_locals_of tok h input_ids V targets masked_arg pm (redraw d v) = Inr L'
                  \<and> indices_random L' ! b ! i
                  \<and> longs (heap_out L') input_ids ! b ! i = v" by blast
  qed
  from 1 2 show ?thesis by blast
qed

theorem mask_random_word_range_witness:
  "\<exists>L L1 L2. mask_locals_of ex_tok ex_heap 0 1000 (Some 1) None (Some ex_prob) ex_draws = Inr L
     \<and> indices_random L ! 0 ! 2
     \<and> longs (heap_out L) 0 ! 0 ! 2 = 5
     \<and> mask_locals_of ex_tok ex_heap 0 1000 (Some 1) None (Some ex_prob)
          (redraw ex_draws (longs ex_heap 0 ! 0 ! 2)) = Inr L1
     \<and> indices_random L1 ! 0 ! 2
     \<and> longs (heap_out L1) 0 ! 0 ! 2 = longs ex_heap 0 ! 0 ! 2
     \<and> mask_locals_of ex_tok ex_heap 0 1000 (Some 1) None (Some ex_prob)
          (redraw ex_draws (mask_token_id ex_tok)) = Inr L2
     \<and> indices_random L2 ! 0 ! 2
     \<and> longs (heap_out L2) 0 ! 0 ! 2 = mask_token_id ex_tok"
proof -
  obtain L where L: "mask_locals_of ex_tok ex_heap 0 1000 (Some 1) None (Some ex_prob) ex_draws = Inr L"
    and m: "masked_indices L = [[False, True, True, False]]"
    and n: "indices_random L = [[False, False, True, False]]"
    using ex_run by simp
  have t: "(indices_random L ! 0 ! 2 \<longrightarrow>
            longs (heap_out L) 0 ! 0 ! 2 = int (words ex_draws 0 2) mod 1000
            \<and> 0 \<le> longs (heap_out L) 0 ! 0 ! 2
            \<and> longs (heap_out L) 0 ! 0 ! 2 < 1000)
       \<and> (masked_indices L ! 0 ! 2 \<longrightarrow>
            (\<forall>v. 0 \<le> v \<and> v < 1000 \<longrightarrow>
               (\<exists>L'. mask_locals_of ex_tok ex_heap 0 1000 (Some 1) None (Some ex_prob)
                        (redraw ex_draws v) = Inr L'
                  \<and> indices_random L' ! 0 ! 2
                  \<and> longs (heap_out L') 0 ! 0 ! 2 = v)))"
    by (rule mask_random_word_range[OF L]) (simp_all add: ex_heap_def)
  have m2: "masked_indices L ! 0 ! 2" and n2: "indices_random L ! 0 ! 2"
    by (simp_all add: m n)
  from t n2 have a: "longs (heap_out L) 0 ! 0 ! 2 = 5" by (simp add: ex_draws_def)
  have v1: "0 \<le> longs ex_heap 0 ! 0 ! 2 \<and> longs ex_heap 0 ! 0 ! 2 < 1000"
    by (simp add: ex_heap_def)
  have v2: "0 \<le> mask_token_id ex_tok \<and> mask_token_id ex_tok < 1000"
    by (simp add: ex_tok_def)
  from t m2 v1 obtain L1 where "mask_locals_of ex_tok ex_heap 0 1000 (Some 1) None (Some ex_prob)
          (redraw ex_draws (longs ex_heap 0 ! 0 ! 2)) = Inr L1
     \<and> indices_random L1 ! 0 ! 2
     \<and> longs (heap_out L1) 0 ! 0 ! 2 = longs ex_heap 0 ! 0 ! 2" by blast
  moreover from t m2 v2 obtain L2 where "mask_locals_of ex_tok ex_heap 0 1000 (Some 1) None (Some ex_prob)
          (redraw ex_draws (mask_token_id ex_tok)) = Inr L2
     \<and> indices_random L2 ! 0 ! 2
     \<and> longs (heap_out L2) 0 ! 0 ! 2 = mask_token_id ex_tok" by blast
  ultimately show ?thesis using L n2 a by blast
qed

section \<open>Properties of the forward pass\<close>

subsection \<open>The stages of a pass that returns\<close>

lemma encode_temp:
  "temp (fst (encode ext self s)) = temp self"
  "online (fst (encode ext self s)) = online self"
  "queue_state (fst (encode ext self s)) = queue_state self"
  "tokenizer_ids (fst (encode ext self s)) = tokenizer_ids self"
  "vocab_size (fst (encode ext self s)) = vocab_size self"
  "mlm_probability (fst (encode ext self s)) = mlm_probability self"
  by (simp_all add: encode_def Let_def)

lemma encode_temp_update:
  "encode ext (self\<lparr>temp := t\<rparr>) s = (fst (encode ext self s)\<lparr>temp := t\<rparr>, snd (encode ext self s))"
  by (simp add: encode_def Let_def)

lemma encode_lengths:
  "length (image_embeds (snd (encode ext self s))) = length (image_input s)"
  "length (image_atts (snd (encode ext self s))) = length (image_input s)"
  "length (text_embeds (snd (encode ext self s))) = length (text_input s)"
  "length (text_attention_mask (snd (encode ext self s))) = length (text_input s)"
  "length (image_feat (snd (encode ext self s))) = length (image_input s)"
  "length (image_feat_m (snd (encode ext self s))) = length (image_input s)"
  "length (text_feat (snd (encode ext self s))) = length (text_input s)"
  "length (text_feat_m (snd (encode ext self s))) = length (text_input s)"
  by (simp_all add: encode_def Let_def)

lemma forward_locals_ofE:
  assumes "forward_locals_of ext self h s d = Inr L"
  obtains r q where
    "rampup_factor (epoch s) (iters s) (num_iters_per_epoch s) = Inr r"
    "alpha_used L = alpha self * r"
    "feats L = snd (encode ext self s)"
    "contrastive (alpha_used L) (clamp (temp self) (1 / 1000) (1 / 2)) (feats L) = Inr (ita L)"
    "dequeue_and_enqueue ext (queue_state self) (image_feat_m (feats L)) (text_feat_m (feats L))
       = Inr q"
    "self_out L = fst (encode ext self s)\<lparr>temp := clamp (temp self) (1 / 1000) (1 / 2),
        queue_state := q\<rparr>"
    "matching ext (self_out L) (feats L) (ita L) (length (image_input s)) d = Inr (itm L)"
    "text_ref L = fresh h"
    "language_modelling ext (self_out L) (fst (alloc h (text_input_ids (feats L)))) (fresh h)
       (feats L) (alpha_used L) (mask_draw d) = Inr (mlm L)"
  using assms unfolding forward_locals_of_def
  by (auto simp: bind_err_eq_Inr Let_def encode_temp_update encode_temp alloc_def split: prod.splits)

lemma contrastiveE:
  assumes "contrastive a t f = Inr c"
  shows "similarity (image_feat_m f) (text_feat_all f) t = Inr (sim_i2t_m c)"
    and "similarity (text_feat_m f) (image_feat_all f) t = Inr (sim_t2i_m c)"
    and "sim_targets c = fill_diagonal (zeros_like (sim_i2t_m c)) 1"
    and "soft_targets a (sim_i2t_m c) (sim_targets c) = Inr (sim_i2t_targets c)"
    and "soft_targets a (sim_t2i_m c) (sim_targets c) = Inr (sim_t2i_targets c)"
    and "similarity (image_feat f) (text_feat_all f) t = Inr (sim_i2t c)"
    and "similarity (text_feat f) (image_feat_all f) t = Inr (sim_t2i c)"
    and "soft_cross_entropy (sim_i2t c) (sim_i2t_targets c) = Inr (loss_i2t c)"
    and "soft_cross_entropy (sim_t2i c) (sim_t2i_targets c) = Inr (loss_t2i c)"
    and "loss_ita c = (loss_i2t c + loss_t2i c) / 2"
  using assms unfolding contrastive_def
  by (auto simp: bind_err_eq_Inr Let_def)

subsection \<open>The concrete pass\<close>

lemma ex_encode: "snd (encode ex_ext ex_model ex_samples) = ex_feats"
  by (simp add: encode_def ex_ext_def ex_model_def ex_samples_def Let_def normalize_l2_def
      eval_nat_numeral ex_feats_def)

lemma upt_small: "[0..<2] = [0, 1]" "[0..<4] = [0, 1, 2, 3]" "[0..<1] = [0]"
  by (simp_all add: upt_rec)

lemma length_softmax [simp]: "length (softmax x) = length x"
  by (simp add: softmax_def)

lemma length_log_softmax [simp]: "length (log_softmax x) = length x"
  by (simp add: log_softmax_def)

lemma ex_contrastive:
  "\<exists>c. contrastive (1 / 10) (1 / 2) ex_feats = Inr c
     \<and> sim_i2t c = [[0, 0, 0, 0], [0, 2, 0, 2]]
     \<and> sim_t2i c = [[0, 0, 0, 0], [0, 2, 2, 0]]
     \<and> sim_i2t_m c = [[0, 0, 0, 0], [0, 2, 0, 2]]
     \<and> sim_t2i_m c = [[0, 0, 0, 0], [0, 2, 2, 0]]
     \<and> sim_targets c = [[1, 0, 0, 0], [0, 1, 0, 0]]"
  by (simp add: ex_feats_def contrastive_def similarity_def matmul_def dot_def soft_targets_def
      soft_cross_entropy_def same_shape_def fill_diagonal_def zeros_like_def Let_def upt_small)

lemma one_plus_exp_pos [simp]: "0 < 1 + exp (x::real)"
  by (simp add: add_pos_pos)

lemma one_plus_exp_not_neg [simp]: "\<not> 1 + exp (x::real) < 0"
  using one_plus_exp_pos[of x] by linarith

lemma ex_matching:
  assumes "sim_i2t c = [[0, 0, 0, 0], [0, 2, 0, 2]]"
    and "sim_t2i c = [[0, 0, 0, 0], [0, 2, 2, 0]]"
  shows "\<exists>m. matching ex_ext slf ex_feats c 2 ex_fdraws = Inr m
     \<and> image_neg_idx m = [1, 0] \<and> text_neg_idx m = [1, 0]
     \<and> vl_output m = [(0, 0), (0, 2), (0, 1), (0, 1), (0, 1), (0, 1)]
     \<and> itm_labels m = [1, 1, 0, 0, 0, 0]"
  by (simp add: assms ex_feats_def matching_def fusion_def neg_weights_def softmax_def
      fill_diagonal_def multinomial_def getitem_def stack_def cross_entropy_def
      ex_ext_def ex_fdraws_def Let_def upt_small eval_nat_numeral)

lemma ex_language_modelling:
  assumes "tokenizer_ids slf = ex_tok" and "vocab_size slf = 1000"
    and "mlm_probability slf = 3 / 20"
  shows "\<exists>l. language_modelling ex_ext slf (fst (alloc ex_heap (text_input_ids ex_feats))) 2
            ex_feats a ex_draws = Inr l
     \<and> input_ids_ref l = 3 \<and> labels_ref l = 4
     \<and> mlm_input_ids l = [[101, 103, 5, 0], [101, 103, 0, 0]]
     \<and> mlm_labels l = [[- 100, 97, 98, - 100], [- 100, 98, - 100, - 100]]
     \<and> longs (mlm_heap l) 2 = [[101, 97, 98, 0], [101, 98, 0, 0]]
     \<and> longs (mlm_heap l) 0 = longs ex_heap 0
     \<and> loss_mlm l = a"
  by (simp add: assms language_modelling_def clone_def alloc_def ex_feats_def ex_heap_def
      mask_ids_def mask_locals_of_def ex_tok_def ex_draws_def ex_ext_def
      bernoulli_def setitem_mask_def setitem_mask_from_def same_shape_def tensor_eq_def
      tensor_not_def tensor_and_def full_def randint_def upt_small Let_def)

lemma ex_encode_full: "encode ex_ext ex_model ex_samples = (ex_model, ex_feats)"
  by (simp add: encode_def ex_ext_def ex_model_def ex_samples_def Let_def normalize_l2_def
      eval_nat_numeral ex_feats_def)

lemma ex_forward:
  "\<exists>L. forward_locals_of ex_ext ex_model ex_heap ex_samples ex_fdraws = Inr L
     \<and> alpha_used L = 1 / 10 \<and> temp (self_out L) = 1 / 2 \<and> feats L = ex_feats
     \<and> sim_i2t (ita L) = [[0, 0, 0, 0], [0, 2, 0, 2]]
     \<and> sim_t2i (ita L) = [[0, 0, 0, 0], [0, 2, 2, 0]]
     \<and> sim_i2t_m (ita L) = [[0, 0, 0, 0], [0, 2, 0, 2]]
     \<and> sim_t2i_m (ita L) = [[0, 0, 0, 0], [0, 2, 2, 0]]
     \<and> sim_targets (ita L) = [[1, 0, 0, 0], [0, 1, 0, 0]]
     \<and> image_neg_idx (itm L) = [1, 0] \<and> text_neg_idx (itm L) = [1, 0]
     \<and> vl_output (itm L) = [(0, 0), (0, 2), (0, 1), (0, 1), (0, 1), (0, 1)]
     \<and> itm_labels (itm L) = [1, 1, 0, 0, 0, 0]
     \<and> text_ref L = 2 \<and> input_ids_ref (mlm L) = 3 \<and> labels_ref (mlm L) = 4
     \<and> mlm_input_ids (mlm L) = [[101, 103, 5, 0], [101, 103, 0, 0]]
     \<and> mlm_labels (mlm L) = [[- 100, 97, 98, - 100], [- 100, 98, - 100, - 100]]
     \<and> longs (mlm_heap (mlm L)) 2 = [[101, 97, 98, 0], [101, 98, 0, 0]]"
proof -
  define slf where "slf = ex_model\<lparr>temp := 1 / 2, queue_state := queue_state ex_model\<lparr>queue_ptr := 0\<rparr>\<rparr>"
  obtain c where c: "contrastive (1 / 10) (1 / 2) ex_feats = Inr c"
    and c1: "sim_i2t c = [[0, 0, 0, 0], [0, 2, 0, 2]]"
    and c2: "sim_t2i c = [[0, 0, 0, 0], [0, 2, 2, 0]]"
    and c3: "sim_i2t_m c = [[0, 0, 0, 0], [0, 2, 0, 2]]"
    and c5: "sim_t2i_m c = [[0, 0, 0, 0], [0, 2, 2, 0]]"
    and c4: "sim_targets c = [[1, 0, 0, 0], [0, 1, 0, 0]]"
    using ex_contrastive by blast
  obtain m where m: "matching ex_ext slf ex_feats c 2 ex_fdraws = Inr m"
    and m1: "image_neg_idx m = [1, 0]" "text_neg_idx m = [1, 0]"
      "vl_output m = [(0, 0), (0, 2), (0, 1), (0, 1), (0, 1), (0, 1)]"
      "itm_labels m = [1, 1, 0, 0, 0, 0]"
    using ex_matching[OF c1 c2] by blast
  have s: "tokenizer_ids slf = ex_tok" "vocab_size slf = 1000" "mlm_probability slf = 3 / 20"
    by (simp_all add: slf_def ex_model_def)
  obtain l where l: "language_modelling ex_ext slf (fst (alloc ex_heap (text_input_ids ex_feats))) 2
            ex_feats (1 / 10) ex_draws = Inr l"
    and l1: "input_ids_ref l = 3" "labels_ref l = 4"
      "mlm_input_ids l = [[101, 103, 5, 0], [101, 103, 0, 0]]"
      "mlm_labels l = [[- 100, 97, 98, - 100], [- 100, 98, - 100, - 100]]"
      "longs (mlm_heap l) 2 = [[101, 97, 98, 0], [101, 98, 0, 0]]"
    using ex_language_modelling[OF s, of "1 / 10"] by blast
  have r: "rampup_factor (epoch ex_samples) (iters ex_samples) (num_iters_per_epoch ex_samples)
      = Inr (1 / 4)"
    by (simp add: ex_samples_def rampup_factor_value)
  have a: "alpha ex_model / 4 = 1 / 10" "clamp (temp ex_model) (1 / 1000) (1 / 2) = 1 / 2"
    by (simp_all add: ex_model_def clamp_def)
  have e: "encode ex_ext (ex_model\<lparr>temp := 1 / 2\<rparr>) ex_samples
      = (ex_model\<lparr>temp := 1 / 2\<rparr>, ex_feats)"
    by (simp add: encode_temp_update ex_encode_full)
  have q: "dequeue_and_enqueue ex_ext (queue_state ex_model) (image_feat_m ex_feats)
      (text_feat_m ex_feats) = Inr (queue_state ex_model\<lparr>queue_ptr := 0\<rparr>)"
    by (simp add: ex_ext_def)
  have al: "alloc ex_heap (text_input_ids ex_feats)
      = (fst (alloc ex_heap (text_input_ids ex_feats)), 2)"
    by (simp add: alloc_def ex_heap_def)
  have n: "length (image_input ex_samples) = 2" by (simp add: ex_samples_def)
  have "forward_locals_of ex_ext ex_model ex_heap ex_samples ex_fdraws =
      Inr \<lparr>alpha_used = 1 / 10, text_ref = 2, feats = ex_feats, ita = c, itm = m, mlm = l,
           self_out = slf\<rparr>"
    unfolding forward_locals_of_def
    apply (simp add: r a e Let_def q n)
    apply (subst al)
    apply (simp add: a c m[unfolded slf_def ex_fdraws_def] l[unfolded slf_def]
        ex_fdraws_def slf_def)
    done
  then show ?thesis using c1 c2 c3 c4 c5 m1 l1 by (simp add: slf_def)
qed

lemma ex_contrastive_default:
  "\<exists>c. contrastive (1 / 10) (7 / 100) ex_feats = Inr c
     \<and> sim_i2t c = [[0, 0, 0, 0], [0, 100 / 7, 0, 100 / 7]]
     \<and> sim_t2i c = [[0, 0, 0, 0], [0, 100 / 7, 100 / 7, 0]]"
  by (simp add: ex_feats_def contrastive_def similarity_def matmul_def dot_def soft_targets_def
      soft_cross_entropy_def same_shape_def fill_diagonal_def zeros_like_def Let_def upt_small)

lemma ex_matching_default:
  assumes "sim_i2t c = [[0, 0, 0, 0], [0, 100 / 7, 0, 100 / 7]]"
    and "sim_t2i c = [[0, 0, 0, 0], [0, 100 / 7, 100 / 7, 0]]"
  shows "\<exists>m. matching ex_ext slf ex_feats c 2 ex_fdraws = Inr m"
  by (simp add: assms ex_feats_def matching_def fusion_def neg_weights_def softmax_def
      fill_diagonal_def multinomial_def getitem_def stack_def cross_entropy_def
      ex_ext_def ex_fdraws_def Let_def upt_small eval_nat_numeral)

lemma ex_forward_default:
  "\<exists>L. forward_locals_of ex_ext ex_model_default ex_heap ex_samples ex_fdraws = Inr L
     \<and> sim_i2t (ita L) = [[0, 0, 0, 0], [0, 100 / 7, 0, 100 / 7]]"
proof -
  define slf where "slf = ex_model\<lparr>temp := 7 / 100, queue_state := queue_state ex_model\<lparr>queue_ptr := 0\<rparr>\<rparr>"
  obtain c where c: "contrastive (1 / 10) (7 / 100) ex_feats = Inr c"
    and c1: "sim_i2t c = [[0, 0, 0, 0], [0, 100 / 7, 0, 100 / 7]]"
    and c2: "sim_t2i c = [[0, 0, 0, 0], [0, 100 / 7, 100 / 7, 0]]"
    using ex_contrastive_default by blast
  obtain m where m: "matching ex_ext slf ex_feats c 2 ex_fdraws = Inr m"
    using ex_matching_default[OF c1 c2] by blast
  have s: "tokenizer_ids slf = ex_tok" "vocab_size slf = 1000" "mlm_probability slf = 3 / 20"
    by (simp_all add: slf_def ex_model_def)
  obtain l where l: "language_modelling ex_ext slf (fst (alloc ex_heap (text_input_ids ex_feats))) 2
            ex_feats (1 / 10) ex_draws = Inr l"
    using ex_language_modelling[OF s, of "1 / 10"] by blast
  have r: "rampup_factor (epoch ex_samples) (iters ex_samples) (num_iters_per_epoch ex_samples)
      = Inr (1 / 4)"
    by (simp add: ex_samples_def rampup_factor_value)
  have a: "alpha ex_model / 4 = 1 / 10" "clamp (7 / 100) (1 / 1000) (1 / 2) = 7 / 100"
    by (simp_all add: ex_model_def clamp_def)
  have e: "encode ex_ext (ex_model\<lparr>temp := 7 / 100\<rparr>) ex_samples
      = (ex_model\<lparr>temp := 7 / 100\<rparr>, ex_feats)"
    by (simp add: encode_temp_update ex_encode_full)
  have q: "dequeue_and_enqueue ex_ext (queue_state ex_model) (image_feat_m ex_feats)
      (text_feat_m ex_feats) = Inr (queue_state ex_model\<lparr>queue_ptr := 0\<rparr>)"
    by (simp add: ex_ext_def)
  have al: "alloc ex_heap (text_input_ids ex_feats)
      = (fst (alloc ex_heap (text_input_ids ex_feats)), 2)"
    by (simp add: alloc_def ex_heap_def)
  have n: "length (image_input ex_samples) = 2" by (simp add: ex_samples_def)
  have "forward_locals_of ex_ext ex_model_default ex_heap ex_samples ex_fdraws =
      Inr \<lparr>alpha_used = 1 / 10, text_ref = 2, feats = ex_feats, ita = c, itm = m, mlm = l,
           self_out = slf\<rparr>"
    unfolding forward_locals_of_def ex_model_default_def
    apply (simp add: r a e Let_def q n)
    apply (subst al)
    apply (simp add: a c m[unfolded slf_def ex_fdraws_def] l[unfolded slf_def]
        ex_fdraws_def slf_def)
    done
  then show ?thesis using c1 by simp
qed

subsection \<open>The negatives of a pass that returns\<close>

lemma multinomial_Inr:
  assumes "multinomial w d = Inr k"
  shows "k < length w \<and> 0 < w ! k"
proof -
  let ?c = "filter (\<lambda>k. 0 < w ! k) [0..<length w]"
  from assms have ne: "?c \<noteq> []" and k: "k = ?c ! (d mod length ?c)"
    by (auto simp: multinomial_def Let_def split: if_splits)
  from ne have "d mod length ?c < length ?c" by simp
  then have "k \<in> set ?c" unfolding k by (rule nth_mem)
  then show ?thesis by simp
qed

lemma multinomial_ok:
  assumes "\<forall>x \<in> set w. 0 \<le> x" and "j < length w" and "0 < w ! j"
  shows "\<exists>k. multinomial w d = Inr k"
proof -
  have "\<exists>k \<in> set [0..<length w]. 0 < w ! k" using assms(2,3) by auto
  then have "filter (\<lambda>k. 0 < w ! k) [0..<length w] \<noteq> []"
    by (simp only: filter_empty_conv not_all not_not Bex_def Ball_def) blast
  moreover have "\<not> (\<exists>x \<in> set w. x < 0)" using assms(1) by auto
  ultimately show ?thesis by (simp add: multinomial_def Let_def)
qed

lemma length_neg_weights [simp]: "length (neg_weights sim bs) = length sim"
  by (simp add: neg_weights_def fill_diagonal_def)

lemma length_neg_weights_row:
  "b < length sim \<Longrightarrow> length (neg_weights sim bs ! b) = min (length (sim ! b)) bs"
  by (simp add: neg_weights_def fill_diagonal_def)

lemma nth_neg_weights:
  "b < length sim \<Longrightarrow> j < length (sim ! b) \<Longrightarrow> j < bs \<Longrightarrow>
   neg_weights sim bs ! b ! j = (if j = b then 0 else softmax (take bs (sim ! b)) ! j)"
  by (simp add: neg_weights_def fill_diagonal_def)

lemma neg_index_not_self:
  assumes b: "b < length sim" and m: "multinomial (neg_weights sim bs ! b) d = Inr k"
  shows "k \<noteq> b \<and> k < bs \<and> k < length (sim ! b)"
proof -
  from multinomial_Inr[OF m] have kl: "k < length (neg_weights sim bs ! b)"
    and kp: "0 < neg_weights sim bs ! b ! k" by simp_all
  from kl b have k: "k < length (sim ! b)" "k < bs" by (simp_all add: length_neg_weights_row)
  from kp nth_neg_weights[OF b k] have "k \<noteq> b" by auto
  with k show ?thesis by simp
qed

lemma neg_weights_one:
  assumes "sim \<noteq> []"
  shows "multinomial (neg_weights sim 1 ! 0) d = Inl RuntimeError"
proof (cases "multinomial (neg_weights sim 1 ! 0) d")
  case (Inl e)
  then show ?thesis by (auto simp: multinomial_def Let_def split: if_splits)
next
  case (Inr k)
  from assms have "0 < length sim" by simp
  from neg_index_not_self[OF this Inr] show ?thesis by auto
qed

lemma getitem_Inr: "getitem xs i = Inr x \<longleftrightarrow> i < length xs \<and> x = xs ! i"
  by (auto simp: getitem_def)

lemma select_negatives_Inr:
  assumes "select_negatives w xs d bl = Inr sel"
  shows "length sel = length bl \<and>
    (\<forall>j < length bl. bl ! j < length w
        \<and> multinomial (w ! (bl ! j)) (d (bl ! j)) = Inr (fst (sel ! j))
        \<and> fst (sel ! j) < length xs \<and> snd (sel ! j) = xs ! fst (sel ! j))"
  using assms
proof (induction bl arbitrary: sel)
  case Nil
  then show ?case by simp
next
  case (Cons b rest)
  from Cons.prems obtain row k x acc where
    row: "getitem w b = Inr row" and k: "multinomial row (d b) = Inr k"
    and x: "getitem xs k = Inr x" and acc: "select_negatives w xs d rest = Inr acc"
    and sel: "sel = (k, x) # acc"
    by (auto simp: bind_err_eq_Inr)
  note ih = Cons.IH[OF acc]
  from row have rw: "b < length w" "row = w ! b" by (simp_all add: getitem_Inr)
  from x have xk: "k < length xs" "x = xs ! k" by (simp_all add: getitem_Inr)
  show ?case
  proof (intro conjI allI impI)
    show "length sel = length (b # rest)" using ih sel by simp
  next
    fix j assume j: "j < length (b # rest)"
    show "(b # rest) ! j < length w" using j rw ih by (cases j) auto
    show "multinomial (w ! ((b # rest) ! j)) (d ((b # rest) ! j)) = Inr (fst (sel ! j))"
      using j rw k ih sel by (cases j) auto
    show "fst (sel ! j) < length xs" using j xk ih sel by (cases j) auto
    show "snd (sel ! j) = xs ! fst (sel ! j)" using j xk ih sel by (cases j) auto
  qed
qed

lemma fusion_Inr:
  assumes "fusion ext p txt ta img ia = Inr out"
  shows "length txt = length img" and "length ta = length txt" and "length ia = length img"
    and "length out = length txt"
    and "\<And>k. k < length txt \<Longrightarrow> out ! k = bert_fusion ext p (txt ! k) (ta ! k) (img ! k) (ia ! k)"
  using assms by (auto simp: fusion_def split: if_splits)

lemma stack_Inr: "stack xs = Inr ys \<longleftrightarrow> xs \<noteq> [] \<and> ys = xs"
  by (auto simp: stack_def)

lemma matchingE:
  assumes "matching ext self f c bs d = Inr m"
  obtains img_sel txt_sel where
    "fusion ext (online self) (text_embeds f) (text_attention_mask f) (image_embeds f)
       (image_atts f) = Inr (output_pos m)"
    "weights_i2t m = neg_weights (sim_i2t c) bs"
    "weights_t2i m = neg_weights (sim_t2i c) bs"
    "select_negatives (weights_t2i m) (image_embeds f) (neg_image_draw d) [0..<bs] = Inr img_sel"
    "img_sel \<noteq> []" "image_embeds_neg m = map snd img_sel" "image_neg_idx m = map fst img_sel"
    "select_negatives (weights_i2t m) (zip (text_embeds f) (text_attention_mask f))
       (neg_text_draw d) [0..<bs] = Inr txt_sel"
    "text_embeds_neg m = map (fst \<circ> snd) txt_sel" "text_atts_neg m = map (snd \<circ> snd) txt_sel"
    "text_neg_idx m = map fst txt_sel"
    "fusion ext (online self) (text_embeds f @ text_embeds_neg m)
       (text_attention_mask f @ text_atts_neg m) (image_embeds_neg m @ image_embeds f)
       (image_atts f @ image_atts f) = Inr (output_neg m)"
    "vl_embeddings m = map fst (output_pos m) @ map fst (output_neg m)"
    "vl_output m = map (itm_head ext (online self)) (vl_embeddings m)"
    "itm_labels m = replicate bs 1 @ replicate (2 * bs) 0"
    "cross_entropy (vl_output m) (itm_labels m) = Inr (loss_itm m)"
  using assms unfolding matching_def
  by (auto simp: bind_err_eq_Inr Let_def stack_Inr)

lemma sum_list_map2_nth:
  "length xs = length ys \<Longrightarrow>
   sum_list (map2 g xs ys) = (\<Sum>k<length xs. (g (xs ! k) (ys ! k) :: real))"
  by (simp add: sum_list_sum_nth lessThan_atLeast0)

lemma forward_matching:
  assumes "forward_locals_of ext self h s d = Inr L"
  shows "matching ext (self_out L) (feats L) (ita L) (length (image_input s)) d = Inr (itm L)"
    and "online (self_out L) = online self"
    and "feats L = snd (encode ext self s)"
  using assms by (auto elim!: forward_locals_ofE simp: encode_temp)

lemma forward_negatives:
  assumes run: "forward_locals_of ext self h s d = Inr L"
  shows "length (image_neg_idx (itm L)) = length (image_input s)"
    and "length (text_neg_idx (itm L)) = length (image_input s)"
    and "length (image_embeds_neg (itm L)) = length (image_input s)"
    and "length (text_embeds_neg (itm L)) = length (image_input s)"
    and "length (text_atts_neg (itm L)) = length (image_input s)"
    and "0 < length (image_input s)"
    and "length (text_input s) = length (image_input s)"
    and "\<And>b. b < length (image_input s) \<Longrightarrow>
          multinomial (weights_t2i (itm L) ! b) (neg_image_draw d b)
            = Inr (image_neg_idx (itm L) ! b)
        \<and> image_neg_idx (itm L) ! b \<noteq> b \<and> image_neg_idx (itm L) ! b < length (image_input s)
        \<and> image_embeds_neg (itm L) ! b = image_embeds (feats L) ! (image_neg_idx (itm L) ! b)
        \<and> multinomial (weights_i2t (itm L) ! b) (neg_text_draw d b)
            = Inr (text_neg_idx (itm L) ! b)
        \<and> text_neg_idx (itm L) ! b \<noteq> b \<and> text_neg_idx (itm L) ! b < length (image_input s)
        \<and> text_embeds_neg (itm L) ! b = text_embeds (feats L) ! (text_neg_idx (itm L) ! b)
        \<and> text_atts_neg (itm L) ! b
            = text_attention_mask (feats L) ! (text_neg_idx (itm L) ! b)"
proof -
  let ?bs = "length (image_input s)"
  let ?f = "feats L" and ?m = "itm L" and ?c = "ita L"
  note fm = forward_matching[OF run]
  from fm(1) obtain img_sel txt_sel where
    pos: "fusion ext (online (self_out L)) (text_embeds ?f) (text_attention_mask ?f)
       (image_embeds ?f) (image_atts ?f) = Inr (output_pos ?m)"
    and wi: "weights_i2t ?m = neg_weights (sim_i2t ?c) ?bs"
    and wt: "weights_t2i ?m = neg_weights (sim_t2i ?c) ?bs"
    and si: "select_negatives (weights_t2i ?m) (image_embeds ?f) (neg_image_draw d) [0..<?bs]
       = Inr img_sel"
    and ne: "img_sel \<noteq> []"
    and ie: "image_embeds_neg ?m = map snd img_sel" and ii: "image_neg_idx ?m = map fst img_sel"
    and st: "select_negatives (weights_i2t ?m) (zip (text_embeds ?f) (text_attention_mask ?f))
       (neg_text_draw d) [0..<?bs] = Inr txt_sel"
    and te: "text_embeds_neg ?m = map (fst \<circ> snd) txt_sel"
    and ta: "text_atts_neg ?m = map (snd \<circ> snd) txt_sel"
    and ti: "text_neg_idx ?m = map fst txt_sel"
    by (rule matchingE)
  note a = select_negatives_Inr[OF si] and b = select_negatives_Inr[OF st]
  have li: "length img_sel = ?bs" and lt: "length txt_sel = ?bs" using a b by simp_all
  show "length (image_neg_idx ?m) = ?bs" "length (text_neg_idx ?m) = ?bs"
    "length (image_embeds_neg ?m) = ?bs" "length (text_embeds_neg ?m) = ?bs"
    "length (text_atts_neg ?m) = ?bs"
    by (simp_all add: ii ti ie te ta li lt)
  show "0 < ?bs" using ne li by auto
  have le: "length (text_embeds ?f) = length (text_input s)"
    "length (text_attention_mask ?f) = length (text_input s)"
    "length (image_embeds ?f) = ?bs"
    by (simp_all add: fm(3) encode_lengths)
  show nt: "length (text_input s) = ?bs" using fusion_Inr(1)[OF pos] le by simp
  fix j assume j: "j < ?bs"
  from a j have a1: "j < length (weights_t2i ?m)"
    and a2: "multinomial (weights_t2i ?m ! j) (neg_image_draw d j) = Inr (fst (img_sel ! j))"
    and a3: "snd (img_sel ! j) = image_embeds ?f ! fst (img_sel ! j)"
    by auto
  from b j have b1: "j < length (weights_i2t ?m)"
    and b2: "multinomial (weights_i2t ?m ! j) (neg_text_draw d j) = Inr (fst (txt_sel ! j))"
    and b3: "fst (txt_sel ! j) < length (zip (text_embeds ?f) (text_attention_mask ?f))"
    and b4: "snd (txt_sel ! j) = zip (text_embeds ?f) (text_attention_mask ?f) ! fst (txt_sel ! j)"
    by auto
  have a5: "fst (img_sel ! j) \<noteq> j \<and> fst (img_sel ! j) < ?bs"
    using neg_index_not_self[of j "sim_t2i ?c" ?bs] a1 a2 by (simp add: wt)
  have b5: "fst (txt_sel ! j) \<noteq> j \<and> fst (txt_sel ! j) < ?bs"
    using neg_index_not_self[of j "sim_i2t ?c" ?bs] b1 b2 by (simp add: wi)
  have b6: "snd (txt_sel ! j) = (text_embeds ?f ! fst (txt_sel ! j),
      text_attention_mask ?f ! fst (txt_sel ! j))"
    using b3 b4 by simp
  show "multinomial (weights_t2i ?m ! j) (neg_image_draw d j) = Inr (image_neg_idx ?m ! j)
        \<and> image_neg_idx ?m ! j \<noteq> j \<and> image_neg_idx ?m ! j < ?bs
        \<and> image_embeds_neg ?m ! j = image_embeds ?f ! (image_neg_idx ?m ! j)
        \<and> multinomial (weights_i2t ?m ! j) (neg_text_draw d j) = Inr (text_neg_idx ?m ! j)
        \<and> text_neg_idx ?m ! j \<noteq> j \<and> text_neg_idx ?m ! j < ?bs
        \<and> text_embeds_neg ?m ! j = text_embeds ?f ! (text_neg_idx ?m ! j)
        \<and> text_atts_neg ?m ! j = text_attention_mask ?f ! (text_neg_idx ?m ! j)"
    using a2 a3 a5 b2 b5 b6 j by (simp add: ii ie ti te ta li lt)
qed

lemma forward_batch_ge_2:
  assumes run: "forward_locals_of ext self h s d = Inr L"
  shows "2 \<le> length (image_input s)"
proof -
  from forward_negatives(8)[OF run forward_negatives(6)[OF run]]
  have "image_neg_idx (itm L) ! 0 \<noteq> 0 \<and> image_neg_idx (itm L) ! 0 < length (image_input s)"
    by simp
  then show ?thesis by simp
qed

lemma forward_single_fails:
  assumes "length (image_input s) = 1"
  shows "\<exists>e. forward ext self h s d = Inl e"
proof (cases "forward_locals_of ext self h s d")
  case (Inl e)
  then show ?thesis by (simp add: forward_def)
next
  case (Inr L)
  from forward_batch_ge_2[OF Inr] assms show ?thesis by simp
qed

subsection \<open>The temperature\<close>

lemma clamp_bounds: "lo \<le> hi \<Longrightarrow> lo \<le> clamp x lo hi \<and> clamp x lo hi \<le> hi"
  by (auto simp: clamp_def)

lemma clamp_idem: "lo \<le> hi \<Longrightarrow> clamp (clamp x lo hi) lo hi = clamp x lo hi"
  by (auto simp: clamp_def)

lemma similarity_Inr:
  "similarity a cols t = Inr m \<Longrightarrow> m = map (\<lambda>x. map (\<lambda>c. dot x c / t) cols) a"
  by (auto simp: similarity_def matmul_def bind_err_eq_Inr split: if_splits)

lemma forward_locals_of_temp:
  "forward_locals_of ext (self\<lparr>temp := t\<rparr>) h s d
     = forward_locals_of ext (self\<lparr>temp := clamp t (1 / 1000) (1 / 2)\<rparr>) h s d"
  by (simp add: forward_locals_of_def clamp_idem)

lemma forward_Inr:
  "forward_locals_of ext self h s d = Inr L \<Longrightarrow>
   forward ext self h s d = Inr (self_out L, mlm_heap (mlm L),
      \<lparr>loss = loss_ita (ita L) + loss_itm (itm L) + loss_mlm (mlm L),
       ita_loss = loss_ita (ita L), itm_loss = loss_itm (itm L),
       mlm_loss_out = loss_mlm (mlm L)\<rparr>)"
  by (simp add: forward_def)

lemma clamp_cases:
  "clamp x (1 / 1000) (1 / 2)
     = (if x < 1 / 1000 then 1 / 1000 else if 1 / 2 < x then 1 / 2 else x)"
  by (simp add: clamp_def)

lemma forward_rampup_raises:
  "rampup_factor (epoch s) (iters s) (num_iters_per_epoch s) = Inl e \<Longrightarrow>
   forward ext self h s d = Inl e"
  by (simp add: forward_def forward_locals_of_def)

lemma forward_similarities_eq:
  "forward_similarities ext self s =
     bind_err (rampup_factor (epoch s) (iters s) (num_iters_per_epoch s)) (\<lambda>r.
       contrastive (alpha self * r) (clamp (temp self) (1 / 1000) (1 / 2))
         (snd (encode ext self s)))"
  by (simp add: forward_similarities_def Let_def encode_temp_update encode_temp)

lemma forward_similarities_run:
  assumes "forward_locals_of ext self h s d = Inr L"
  shows "forward_similarities ext self s = Inr (ita L)"
proof -
  from assms obtain r q where
    "rampup_factor (epoch s) (iters s) (num_iters_per_epoch s) = Inr r"
    "alpha_used L = alpha self * r"
    "feats L = snd (encode ext self s)"
    "contrastive (alpha_used L) (clamp (temp self) (1 / 1000) (1 / 2)) (feats L) = Inr (ita L)"
    by (rule forward_locals_ofE)
  then show ?thesis by (simp add: forward_similarities_eq)
qed

lemma forward_similarities_Inr:
  assumes "forward_similarities ext self s = Inr c"
  shows "sim_i2t_m c = map (\<lambda>x. map (\<lambda>y. dot x y / clamp (temp self) (1 / 1000) (1 / 2))
            (text_feat_all (snd (encode ext self s)))) (image_feat_m (snd (encode ext self s)))
       \<and> sim_t2i_m c = map (\<lambda>x. map (\<lambda>y. dot x y / clamp (temp self) (1 / 1000) (1 / 2))
            (image_feat_all (snd (encode ext self s)))) (text_feat_m (snd (encode ext self s)))
       \<and> sim_i2t c = map (\<lambda>x. map (\<lambda>y. dot x y / clamp (temp self) (1 / 1000) (1 / 2))
            (text_feat_all (snd (encode ext self s)))) (image_feat (snd (encode ext self s)))
       \<and> sim_t2i c = map (\<lambda>x. map (\<lambda>y. dot x y / clamp (temp self) (1 / 1000) (1 / 2))
            (image_feat_all (snd (encode ext self s)))) (text_feat (snd (encode ext self s)))"
proof -
  from assms obtain r where
    c: "contrastive (alpha self * r) (clamp (temp self) (1 / 1000) (1 / 2))
         (snd (encode ext self s)) = Inr c"
    by (auto simp: forward_similarities_eq bind_err_eq_Inr)
  note e = contrastiveE[OF c]
  from similarity_Inr[OF e(1)] similarity_Inr[OF e(2)] similarity_Inr[OF e(6)]
    similarity_Inr[OF e(7)]
  show ?thesis by simp
qed

lemma ex_single_encode:
  "snd (encode ex_ext ex_model (ex_samples\<lparr>image_input := [1], text_input := [''b'']\<rparr>))
     = \<lparr>image_embeds = [([1], [])], image_atts = [[1]],
      text_input_ids = [[101, 98, 0, 0]],
      text_attention_mask = [[1, 1, 0, 0]],
      image_feat = [[1]], text_embeds = [([1], [])], text_feat = [[1]],
      image_embeds_m = [([1], [])], image_feat_m = [[1]],
      image_feat_all = [[1], [1], [0]], text_feat_m = [[1]],
      text_feat_all = [[1], [0], [1]]\<rparr>"
  by (simp add: encode_def ex_ext_def ex_model_def ex_samples_def Let_def normalize_l2_def
      eval_nat_numeral)

lemma ex_single_similarities:
  "\<exists>c. forward_similarities ex_ext ex_model
          (ex_samples\<lparr>image_input := [1], text_input := [''b'']\<rparr>) = Inr c"
proof -
  have r: "rampup_factor (epoch (ex_samples\<lparr>image_input := [1], text_input := [''b'']\<rparr>))
      (iters (ex_samples\<lparr>image_input := [1], text_input := [''b'']\<rparr>))
      (num_iters_per_epoch (ex_samples\<lparr>image_input := [1], text_input := [''b'']\<rparr>))
      = Inr (1 / 4)"
    by (simp add: ex_samples_def rampup_factor_value)
  show ?thesis
    unfolding forward_similarities_eq r ex_single_encode
    by (simp add: contrastive_def similarity_def matmul_def dot_def soft_targets_def
      soft_cross_entropy_def same_shape_def fill_diagonal_def zeros_like_def Let_def upt_small
      clamp_def ex_model_def)
qed

text \<open>
  C2. In every call of \<open>forward\<close> that gets past the computation of
  \<open>alpha\<close>, so in every call that returns, the stored temperature is clamped into
  \<open>[0.001, 0.5]\<close> before any similarity is computed: it is kept when it lies in
  the interval and set to the nearer bound when it does not. Each of the four
  similarity matrices (the teacher's two and the student's two) is a matrix of dot
  products divided by the clamped value, also in a call that raises after the
  similarities; the stored value before the call matters only through its clamp, and
  the stored temperature lies in the interval when the call ends. A call that raises
  while computing \<open>alpha\<close> ends with the stored temperature it began with.
\<close>

theorem forward_temp_clamped:
  assumes "forward_locals_of ext self h s d = Inr L"
  shows "temp (self_out L)
           = (if temp self < 1 / 1000 then 1 / 1000
              else if 1 / 2 < temp self then 1 / 2 else temp self)
       \<and> temp (self_out L) = clamp (temp self) (1 / 1000) (1 / 2)
       \<and> 1 / 1000 \<le> temp (self_out L) \<and> temp (self_out L) \<le> 1 / 2
       \<and> temp_after_forward self s = temp (self_out L)
       \<and> (\<exists>hp ls. forward ext self h s d = Inr (self_out L, hp, ls))
       \<and> sim_i2t_m (ita L) = map (\<lambda>x. map (\<lambda>c. dot x c / temp (self_out L))
            (text_feat_all (feats L))) (image_feat_m (feats L))
       \<and> sim_t2i_m (ita L) = map (\<lambda>x. map (\<lambda>c. dot x c / temp (self_out L))
            (image_feat_all (feats L))) (text_feat_m (feats L))
       \<and> sim_i2t (ita L) = map (\<lambda>x. map (\<lambda>c. dot x c / temp (self_out L))
            (text_feat_all (feats L))) (image_feat (feats L))
       \<and> sim_t2i (ita L) = map (\<lambda>x. map (\<lambda>c. dot x c / temp (self_out L))
            (image_feat_all (feats L))) (text_feat (feats L))
       \<and> (\<forall>t. clamp t (1 / 1000) (1 / 2) = clamp (temp self) (1 / 1000) (1 / 2) \<longrightarrow>
            forward_locals_of ext (self\<lparr>temp := t\<rparr>) h s d = Inr L)
       \<and> (\<forall>(self' :: 'p model) (s' :: 'img samples) r.
            rampup_factor (epoch s') (iters s') (num_iters_per_epoch s') = Inr r \<longrightarrow>
              temp_after_forward self' s'
                = (if temp self' < 1 / 1000 then 1 / 1000
                   else if 1 / 2 < temp self' then 1 / 2 else temp self')
            \<and> 1 / 1000 \<le> temp_after_forward self' s' \<and> temp_after_forward self' s' \<le> 1 / 2)
       \<and> (\<forall>(self' :: 'p model) (s' :: 'img samples) e.
            rampup_factor (epoch s') (iters s') (num_iters_per_epoch s') = Inl e \<longrightarrow>
              temp_after_forward self' s' = temp self'
            \<and> (\<forall>h' d'. forward ext self' h' s' d' = Inl e))
       \<and> forward_similarities ext self s = Inr (ita L)
       \<and> (\<forall>x. clamp x (1 / 1000) (1 / 2)
              = (if x < 1 / 1000 then 1 / 1000 else if 1 / 2 < x then 1 / 2 else x))
       \<and> (\<forall>(self' :: 'p model) (s' :: 'img samples) c.
            forward_similarities ext self' s' = Inr c \<longrightarrow>
              sim_i2t_m c = map (\<lambda>x. map (\<lambda>y. dot x y / clamp (temp self') (1 / 1000) (1 / 2))
                (text_feat_all (snd (encode ext self' s'))))
                (image_feat_m (snd (encode ext self' s')))
            \<and> sim_t2i_m c = map (\<lambda>x. map (\<lambda>y. dot x y / clamp (temp self') (1 / 1000) (1 / 2))
                (image_feat_all (snd (encode ext self' s'))))
                (text_feat_m (snd (encode ext self' s')))
            \<and> sim_i2t c = map (\<lambda>x. map (\<lambda>y. dot x y / clamp (temp self') (1 / 1000) (1 / 2))
                (text_feat_all (snd (encode ext self' s'))))
                (image_feat (snd (encode ext self' s')))
            \<and> sim_t2i c = map (\<lambda>x. map (\<lambda>y. dot x y / clamp (temp self') (1 / 1000) (1 / 2))
                (image_feat_all (snd (encode ext self' s'))))
                (text_feat (snd (encode ext self' s'))))"
proof -
  from assms obtain r q where
    rr: "rampup_factor (epoch s) (iters s) (num_iters_per_epoch s) = Inr r"
    and c: "contrastive (alpha_used L) (clamp (temp self) (1 / 1000) (1 / 2)) (feats L) = Inr (ita L)"
    and o: "self_out L = fst (encode ext self s)\<lparr>temp := clamp (temp self) (1 / 1000) (1 / 2),
        queue_state := q\<rparr>"
    by (rule forward_locals_ofE)
  have t: "temp (self_out L) = clamp (temp self) (1 / 1000) (1 / 2)" by (simp add: o)
  have t': "temp (self_out L)
           = (if temp self < 1 / 1000 then 1 / 1000
              else if 1 / 2 < temp self then 1 / 2 else temp self)"
    unfolding t by (rule clamp_cases)
  have b: "1 / 1000 \<le> temp (self_out L)" "temp (self_out L) \<le> 1 / 2"
    unfolding t using clamp_bounds[of "1 / 1000" "1 / 2" "temp self"] by simp_all
  have ta: "temp_after_forward self s = temp (self_out L)"
    by (simp add: temp_after_forward_def rr t)
  have f: "\<exists>hp ls. forward ext self h s d = Inr (self_out L, hp, ls)"
    using forward_Inr[OF assms] by blast
  note e = contrastiveE[OF c, folded t]
  note s1 = similarity_Inr[OF e(1)] and s2 = similarity_Inr[OF e(2)]
    and s3 = similarity_Inr[OF e(6)] and s4 = similarity_Inr[OF e(7)]
  have i: "\<forall>t. clamp t (1 / 1000) (1 / 2) = clamp (temp self) (1 / 1000) (1 / 2) \<longrightarrow>
            forward_locals_of ext (self\<lparr>temp := t\<rparr>) h s d = Inr L"
  proof (intro allI impI)
    fix t assume "clamp t (1 / 1000) (1 / 2) = clamp (temp self) (1 / 1000) (1 / 2)"
    then have "forward_locals_of ext (self\<lparr>temp := t\<rparr>) h s d
        = forward_locals_of ext (self\<lparr>temp := temp self\<rparr>) h s d"
      using forward_locals_of_temp[where self = self and t = t and ext = ext and h = h and s = s
          and d = d]
        forward_locals_of_temp[where self = self and t = "temp self" and ext = ext and h = h
          and s = s and d = d] by simp
    then show "forward_locals_of ext (self\<lparr>temp := t\<rparr>) h s d = Inr L"
      using assms by simp
  qed
  have g: "\<forall>(self' :: 'p model) (s' :: 'img samples) r.
            rampup_factor (epoch s') (iters s') (num_iters_per_epoch s') = Inr r \<longrightarrow>
              temp_after_forward self' s'
                = (if temp self' < 1 / 1000 then 1 / 1000
                   else if 1 / 2 < temp self' then 1 / 2 else temp self')
            \<and> 1 / 1000 \<le> temp_after_forward self' s' \<and> temp_after_forward self' s' \<le> 1 / 2"
    by (simp add: temp_after_forward_def clamp_def)
  have k: "\<forall>(self' :: 'p model) (s' :: 'img samples) e.
            rampup_factor (epoch s') (iters s') (num_iters_per_epoch s') = Inl e \<longrightarrow>
              temp_after_forward self' s' = temp self'
            \<and> (\<forall>h' d'. forward ext self' h' s' d' = Inl e)"
    by (simp add: temp_after_forward_def forward_rampup_raises)
  note fs = forward_similarities_run[OF assms]
  have cc: "\<forall>x. clamp x (1 / 1000) (1 / 2)
              = (if x < 1 / 1000 then 1 / 1000 else if 1 / 2 < x then 1 / 2 else x)"
    using clamp_cases by blast
  have fa: "\<forall>(self' :: 'p model) (s' :: 'img samples) c.
            forward_similarities ext self' s' = Inr c \<longrightarrow>
              sim_i2t_m c = map (\<lambda>x. map (\<lambda>y. dot x y / clamp (temp self') (1 / 1000) (1 / 2))
                (text_feat_all (snd (encode ext self' s'))))
                (image_feat_m (snd (encode ext self' s')))
            \<and> sim_t2i_m c = map (\<lambda>x. map (\<lambda>y. dot x y / clamp (temp self') (1 / 1000) (1 / 2))
                (image_feat_all (snd (encode ext self' s'))))
                (text_feat_m (snd (encode ext self' s')))
            \<and> sim_i2t c = map (\<lambda>x. map (\<lambda>y. dot x y / clamp (temp self') (1 / 1000) (1 / 2))
                (text_feat_all (snd (encode ext self' s'))))
                (image_feat (snd (encode ext self' s')))
            \<and> sim_t2i c = map (\<lambda>x. map (\<lambda>y. dot x y / clamp (temp self') (1 / 1000) (1 / 2))
                (image_feat_all (snd (encode ext self' s'))))
                (text_feat (snd (encode ext self' s')))"
    using forward_similarities_Inr by blast
  show ?thesis
    by (intro conjI; (rule t' t b ta f s1 s2 s3 s4 i g k fs cc fa))
qed

theorem forward_temp_clamped_witness:
  "\<exists>L L' c. forward_locals_of ex_ext ex_model_default ex_heap ex_samples ex_fdraws = Inr L
     \<and> temp ex_model_default = 7 / 100 \<and> temp (self_out L) = 7 / 100
     \<and> temp_after_forward ex_model_default ex_samples = 7 / 100
     \<and> sim_i2t (ita L) = [[0, 0, 0, 0], [0, 100 / 7, 0, 100 / 7]]
     \<and> forward_locals_of ex_ext ex_model ex_heap ex_samples ex_fdraws = Inr L'
     \<and> temp ex_model = 3 \<and> temp (self_out L') = 1 / 2
     \<and> sim_i2t (ita L') = [[0, 0, 0, 0], [0, 2, 0, 2]]
     \<and> forward_locals_of ex_ext (ex_model\<lparr>temp := 40\<rparr>) ex_heap ex_samples ex_fdraws = Inr L'
     \<and> temp_after_forward (ex_model\<lparr>temp := 1 / 10000\<rparr>) ex_samples = 1 / 1000
     \<and> temp_after_forward ex_model ex_samples_zero = 3
     \<and> forward_similarities ex_ext ex_model ex_samples = Inr (ita L')
     \<and> clamp 3 (1 / 1000) (1 / 2) = 1 / 2
     \<and> clamp (7 / 100) (1 / 1000) (1 / 2) = 7 / 100
     \<and> clamp (1 / 10000) (1 / 1000) (1 / 2) = 1 / 1000
     \<and> (\<exists>e. forward ex_ext ex_model ex_heap
              (ex_samples\<lparr>image_input := [1], text_input := [''b'']\<rparr>) ex_fdraws = Inl e)
     \<and> forward_similarities ex_ext ex_model
          (ex_samples\<lparr>image_input := [1], text_input := [''b'']\<rparr>) = Inr c
     \<and> sim_i2t c = [[2, 0, 2]] \<and> sim_t2i_m c = [[2, 2, 0]]"
proof -
  obtain L where L: "forward_locals_of ex_ext ex_model_default ex_heap ex_samples ex_fdraws = Inr L"
    and s: "sim_i2t (ita L) = [[0, 0, 0, 0], [0, 100 / 7, 0, 100 / 7]]"
    using ex_forward_default by blast
  obtain L' where L': "forward_locals_of ex_ext ex_model ex_heap ex_samples ex_fdraws = Inr L'"
    and s': "sim_i2t (ita L') = [[0, 0, 0, 0], [0, 2, 0, 2]]"
    using ex_forward by blast
  obtain c where c: "forward_similarities ex_ext ex_model
          (ex_samples\<lparr>image_input := [1], text_input := [''b'']\<rparr>) = Inr c"
    using ex_single_similarities by blast
  note t = forward_temp_clamped[OF L]
  note t' = forward_temp_clamped[OF L']
  have d: "temp ex_model_default = 7 / 100" by (simp add: ex_model_default_def)
  have m: "temp ex_model = 3" by (simp add: ex_model_def)
  from t have "temp (self_out L)
           = (if temp ex_model_default < 1 / 1000 then 1 / 1000
              else if 1 / 2 < temp ex_model_default then 1 / 2 else temp ex_model_default)"
    by (elim conjE)
  then have 1: "temp (self_out L) = 7 / 100" by (simp add: d)
  from t have "temp_after_forward ex_model_default ex_samples = temp (self_out L)"
    by (elim conjE)
  with 1 have 2: "temp_after_forward ex_model_default ex_samples = 7 / 100" by simp
  from t' have "temp (self_out L')
           = (if temp ex_model < 1 / 1000 then 1 / 1000
              else if 1 / 2 < temp ex_model then 1 / 2 else temp ex_model)"
    by (elim conjE)
  then have 3: "temp (self_out L') = 1 / 2" by (simp add: m)
  from t' have cc: "\<forall>x. clamp x (1 / 1000) (1 / 2)
              = (if x < 1 / 1000 then 1 / 1000 else if 1 / 2 < x then 1 / 2 else x)"
    by (elim conjE)
  have c3: "clamp 3 (1 / 1000) (1 / 2) = 1 / 2" using cc[rule_format, of 3] by simp
  have c7: "clamp (7 / 100) (1 / 1000) (1 / 2) = 7 / 100"
    using cc[rule_format, of "7 / 100"] by simp
  have c1: "clamp (1 / 10000) (1 / 1000) (1 / 2) = 1 / 1000"
    using cc[rule_format, of "1 / 10000"] by simp
  have c40: "clamp 40 (1 / 1000) (1 / 2) = clamp (temp ex_model) (1 / 1000) (1 / 2)"
    using cc[rule_format, of 40] c3 by (simp add: m)
  from t' have "\<forall>t. clamp t (1 / 1000) (1 / 2) = clamp (temp ex_model) (1 / 1000) (1 / 2) \<longrightarrow>
            forward_locals_of ex_ext (ex_model\<lparr>temp := t\<rparr>) ex_heap ex_samples ex_fdraws = Inr L'"
    by (elim conjE)
  with c40 have 4: "forward_locals_of ex_ext (ex_model\<lparr>temp := 40\<rparr>) ex_heap ex_samples ex_fdraws
      = Inr L'" by blast
  have r: "rampup_factor (epoch ex_samples) (iters ex_samples) (num_iters_per_epoch ex_samples)
      = Inr (1 / 4)"
    by (simp add: ex_samples_def rampup_factor_value)
  have z: "rampup_factor (epoch ex_samples_zero) (iters ex_samples_zero)
      (num_iters_per_epoch ex_samples_zero) = Inl ZeroDivisionError"
    by (simp add: ex_samples_zero_def ex_samples_def rampup_factor_def py_truediv_def)
  from t have g: "\<forall>(self' :: unit model) (s' :: nat samples) r.
            rampup_factor (epoch s') (iters s') (num_iters_per_epoch s') = Inr r \<longrightarrow>
              temp_after_forward self' s'
                = (if temp self' < 1 / 1000 then 1 / 1000
                   else if 1 / 2 < temp self' then 1 / 2 else temp self')
            \<and> 1 / 1000 \<le> temp_after_forward self' s' \<and> temp_after_forward self' s' \<le> 1 / 2"
    by (elim conjE)
  from g r have "temp_after_forward (ex_model\<lparr>temp := 1 / 10000\<rparr>) ex_samples
      = (if temp (ex_model\<lparr>temp := 1 / 10000\<rparr>) < 1 / 1000 then 1 / 1000
         else if 1 / 2 < temp (ex_model\<lparr>temp := 1 / 10000\<rparr>) then 1 / 2
         else temp (ex_model\<lparr>temp := 1 / 10000\<rparr>))" by blast
  then have 5: "temp_after_forward (ex_model\<lparr>temp := 1 / 10000\<rparr>) ex_samples = 1 / 1000"
    by simp
  from t have k: "\<forall>(self' :: unit model) (s' :: nat samples) e.
            rampup_factor (epoch s') (iters s') (num_iters_per_epoch s') = Inl e \<longrightarrow>
              temp_after_forward self' s' = temp self'
            \<and> (\<forall>h' d'. forward ex_ext self' h' s' d' = Inl e)"
    by (elim conjE)
  from k z have "temp_after_forward ex_model ex_samples_zero = temp ex_model" by blast
  then have 6: "temp_after_forward ex_model ex_samples_zero = 3" by (simp add: m)
  from t' have 7: "forward_similarities ex_ext ex_model ex_samples = Inr (ita L')"
    by (elim conjE)
  have 8: "\<exists>e. forward ex_ext ex_model ex_heap
              (ex_samples\<lparr>image_input := [1], text_input := [''b'']\<rparr>) ex_fdraws = Inl e"
    by (rule forward_single_fails) simp
  from t have fa: "\<forall>(self' :: unit model) (s' :: nat samples) c.
            forward_similarities ex_ext self' s' = Inr c \<longrightarrow>
              sim_i2t_m c = map (\<lambda>x. map (\<lambda>y. dot x y / clamp (temp self') (1 / 1000) (1 / 2))
                (text_feat_all (snd (encode ex_ext self' s'))))
                (image_feat_m (snd (encode ex_ext self' s')))
            \<and> sim_t2i_m c = map (\<lambda>x. map (\<lambda>y. dot x y / clamp (temp self') (1 / 1000) (1 / 2))
                (image_feat_all (snd (encode ex_ext self' s'))))
                (text_feat_m (snd (encode ex_ext self' s')))
            \<and> sim_i2t c = map (\<lambda>x. map (\<lambda>y. dot x y / clamp (temp self') (1 / 1000) (1 / 2))
                (text_feat_all (snd (encode ex_ext self' s'))))
                (image_feat (snd (encode ex_ext self' s')))
            \<and> sim_t2i c = map (\<lambda>x. map (\<lambda>y. dot x y / clamp (temp self') (1 / 1000) (1 / 2))
                (image_feat_all (snd (encode ex_ext self' s'))))
                (text_feat (snd (encode ex_ext self' s')))"
    by (elim conjE)
  note fc = fa[rule_format, OF c, unfolded ex_single_encode m c3]
  from fc have 9: "sim_i2t c = [[2, 0, 2]]" by (simp add: dot_def)
  from fc have 10: "sim_t2i_m c = [[2, 2, 0]]" by (simp add: dot_def)
  show ?thesis
    by (intro exI[of _ L] exI[of _ L'] exI[of _ c] conjI;
        (rule L d 1 2 s L' m 3 s' 4 5 6 7 c3 c7 c1 8 c 9 10))
qed

text \<open>
  As first stated, for every call, the claim fails: with no iterations per epoch the
  ramp-up factor raises \<open>ZeroDivisionError\<close> before the clamp, and the stored
  temperature 3 is still 3 when the call ends.
\<close>

theorem forward_temp_clamped_counterexample:
  "forward ex_ext ex_model ex_heap ex_samples_zero ex_fdraws = Inl ZeroDivisionError
   \<and> temp ex_model = 3
   \<and> temp_after_forward ex_model ex_samples_zero = 3
   \<and> \<not> temp_after_forward ex_model ex_samples_zero \<le> 1 / 2"
proof -
  have r: "rampup_factor (epoch ex_samples_zero) (iters ex_samples_zero)
      (num_iters_per_epoch ex_samples_zero) = Inl ZeroDivisionError"
    by (simp add: ex_samples_zero_def ex_samples_def rampup_factor_def py_truediv_def)
  have "forward ex_ext ex_model ex_heap ex_samples_zero ex_fdraws = Inl ZeroDivisionError"
    using r by (rule forward_rampup_raises)
  moreover have "temp_after_forward ex_model ex_samples_zero = 3"
    by (simp add: temp_after_forward_def r ex_model_def)
  moreover have "temp ex_model = 3" by (simp add: ex_model_def)
  ultimately show ?thesis by simp
qed

subsection \<open>Hard negatives\<close>

lemma nth_fill_diagonal: "b < length m \<Longrightarrow> fill_diagonal m v ! b = (m ! b)[b := v]"
  by (simp add: fill_diagonal_def)

lemma zero_diagonal_not_self:
  assumes b: "b < length m" and k: "multinomial (fill_diagonal m 0 ! b) d = Inr k"
  shows "k \<noteq> b \<and> k < length (m ! b)"
proof -
  from multinomial_Inr[OF k] have kl: "k < length (m ! b)" and kp: "0 < (m ! b)[b := 0] ! k"
    by (simp_all add: nth_fill_diagonal[OF b])
  from kp kl have "k \<noteq> b" by auto
  with kl show ?thesis by simp
qed

lemma zero_diagonal_candidate:
  assumes b: "b < length m" and nn: "\<forall>x \<in> set (m ! b). 0 \<le> x"
    and j: "j < length (m ! b)" "j \<noteq> b" "0 < m ! b ! j"
  shows "\<exists>k. multinomial (fill_diagonal m 0 ! b) d = Inr k"
proof -
  have "\<forall>x \<in> set ((m ! b)[b := 0]). 0 \<le> x"
    using nn set_update_subset_insert[of "m ! b" b 0] by auto
  moreover have "j < length ((m ! b)[b := 0])" "0 < (m ! b)[b := 0] ! j" using j by simp_all
  ultimately show ?thesis
    unfolding nth_fill_diagonal[OF b] by (rule multinomial_ok)
qed

lemma zero_diagonal_no_candidate:
  assumes b: "b < length m" and z: "\<forall>j < length (m ! b). j \<noteq> b \<longrightarrow> m ! b ! j = 0"
  shows "multinomial (fill_diagonal m 0 ! b) d = Inl RuntimeError"
proof -
  have "\<forall>k < length ((m ! b)[b := 0]). \<not> 0 < (m ! b)[b := 0] ! k"
  proof (intro allI impI)
    fix k assume k: "k < length ((m ! b)[b := 0])"
    show "\<not> 0 < (m ! b)[b := 0] ! k"
    proof (cases "k = b")
      case True
      with k show ?thesis by simp
    next
      case False
      with k z show ?thesis by simp
    qed
  qed
  then have "filter (\<lambda>k. 0 < (m ! b)[b := 0] ! k) [0..<length ((m ! b)[b := 0])] = []"
    by (simp add: filter_empty_conv)
  then show ?thesis
    unfolding nth_fill_diagonal[OF b] by (simp add: multinomial_def Let_def)
qed

text \<open>
  C7. The sampling weights are the softmax of the first \<open>bs\<close> columns of the
  similarity matrices, with the diagonal set to 0. In a pass that returns, the batch has
  at least two samples and, for every row \<open>b\<close>, the negative image and the
  negative text drawn for it are indices below \<open>bs\<close> other than \<open>b\<close>.
  Whatever the values of the softmax, a draw from a row with the diagonal set to 0 never
  gives the row's own index; it gives an index when some other weight of the row is
  positive, and raises when every other weight is 0. That is the case of a batch of
  one (and, in float32, of a row whose softmax underflows): there being no guard,
  \<open>forward\<close> raises for a batch of one.
\<close>

theorem hard_negative_never_self:
  assumes run: "forward_locals_of ext self h s d = Inr L"
  shows "weights_i2t (itm L)
           = fill_diagonal (map softmax (map (take (length (image_input s))) (sim_i2t (ita L)))) 0
       \<and> weights_t2i (itm L)
           = fill_diagonal (map softmax (map (take (length (image_input s))) (sim_t2i (ita L)))) 0
       \<and> 2 \<le> length (image_input s)
       \<and> length (image_neg_idx (itm L)) = length (image_input s)
       \<and> length (text_neg_idx (itm L)) = length (image_input s)
       \<and> (\<forall>b < length (image_input s).
            multinomial (weights_t2i (itm L) ! b) (neg_image_draw d b)
              = Inr (image_neg_idx (itm L) ! b)
          \<and> image_neg_idx (itm L) ! b \<noteq> b \<and> image_neg_idx (itm L) ! b < length (image_input s)
          \<and> image_embeds_neg (itm L) ! b = image_embeds (feats L) ! (image_neg_idx (itm L) ! b)
          \<and> multinomial (weights_i2t (itm L) ! b) (neg_text_draw d b)
              = Inr (text_neg_idx (itm L) ! b)
          \<and> text_neg_idx (itm L) ! b \<noteq> b \<and> text_neg_idx (itm L) ! b < length (image_input s)
          \<and> text_embeds_neg (itm L) ! b = text_embeds (feats L) ! (text_neg_idx (itm L) ! b))
       \<and> (\<forall>m b dr k. b < length m \<and> multinomial (fill_diagonal m 0 ! b) dr = Inr k \<longrightarrow>
            k \<noteq> b \<and> k < length (m ! b))
       \<and> (\<forall>m b dr. b < length m \<and> (\<forall>x \<in> set (m ! b). 0 \<le> x)
              \<and> (\<exists>j < length (m ! b). j \<noteq> b \<and> 0 < m ! b ! j) \<longrightarrow>
            (\<exists>k. multinomial (fill_diagonal m 0 ! b) dr = Inr k))
       \<and> (\<forall>m b dr. b < length m \<and> (\<forall>j < length (m ! b). j \<noteq> b \<longrightarrow> m ! b ! j = 0) \<longrightarrow>
            multinomial (fill_diagonal m 0 ! b) dr = Inl RuntimeError)
       \<and> (\<forall>sim dr. sim \<noteq> [] \<longrightarrow> multinomial (neg_weights sim 1 ! 0) dr = Inl RuntimeError)
       \<and> (\<forall>s' d'. length (image_input s') = 1 \<longrightarrow> (\<exists>e. forward ext self h s' d' = Inl e))"
proof -
  note fm = forward_matching[OF run]
  from fm(1) have w: "weights_i2t (itm L) = neg_weights (sim_i2t (ita L)) (length (image_input s))"
    "weights_t2i (itm L) = neg_weights (sim_t2i (ita L)) (length (image_input s))"
    by (auto elim: matchingE)
  note n = forward_negatives[OF run]
  have 1: "\<forall>b < length (image_input s).
            multinomial (weights_t2i (itm L) ! b) (neg_image_draw d b)
              = Inr (image_neg_idx (itm L) ! b)
          \<and> image_neg_idx (itm L) ! b \<noteq> b \<and> image_neg_idx (itm L) ! b < length (image_input s)
          \<and> image_embeds_neg (itm L) ! b = image_embeds (feats L) ! (image_neg_idx (itm L) ! b)
          \<and> multinomial (weights_i2t (itm L) ! b) (neg_text_draw d b)
              = Inr (text_neg_idx (itm L) ! b)
          \<and> text_neg_idx (itm L) ! b \<noteq> b \<and> text_neg_idx (itm L) ! b < length (image_input s)
          \<and> text_embeds_neg (itm L) ! b = text_embeds (feats L) ! (text_neg_idx (itm L) ! b)"
    using n(8) by blast
  have 2: "\<forall>m b dr k. b < length m \<and> multinomial (fill_diagonal m 0 ! b) dr = Inr k \<longrightarrow>
            k \<noteq> b \<and> k < length (m ! b)"
    using zero_diagonal_not_self by blast
  have 3: "\<forall>m b dr. b < length m \<and> (\<forall>x \<in> set (m ! b). 0 \<le> x)
              \<and> (\<exists>j < length (m ! b). j \<noteq> b \<and> 0 < m ! b ! j) \<longrightarrow>
            (\<exists>k. multinomial (fill_diagonal m 0 ! b) dr = Inr k)"
    using zero_diagonal_candidate by blast
  have 4: "\<forall>m b dr. b < length m \<and> (\<forall>j < length (m ! b). j \<noteq> b \<longrightarrow> m ! b ! j = 0) \<longrightarrow>
            multinomial (fill_diagonal m 0 ! b) dr = Inl RuntimeError"
    using zero_diagonal_no_candidate by blast
  have 5: "\<forall>sim dr. sim \<noteq> [] \<longrightarrow> multinomial (neg_weights sim 1 ! 0) dr = Inl RuntimeError"
    using neg_weights_one by blast
  have 6: "\<forall>s' d'. length (image_input s') = 1 \<longrightarrow> (\<exists>e. forward ext self h s' d' = Inl e)"
    using forward_single_fails by blast
  note w' = w[unfolded neg_weights_def]
  note ge = forward_batch_ge_2[OF run]
  show ?thesis
    by (intro conjI; (rule w' ge n(1) n(2) 1 2 3 4 5 6))
qed

theorem hard_negative_never_self_witness:
  "\<exists>L. forward_locals_of ex_ext ex_model ex_heap ex_samples ex_fdraws = Inr L
     \<and> length (image_input ex_samples) = 2
     \<and> image_neg_idx (itm L) = [1, 0] \<and> text_neg_idx (itm L) = [1, 0]
     \<and> image_neg_idx (itm L) ! 0 \<noteq> 0 \<and> image_neg_idx (itm L) ! 1 \<noteq> 1
     \<and> text_neg_idx (itm L) ! 0 \<noteq> 0 \<and> text_neg_idx (itm L) ! 1 \<noteq> 1
     \<and> (\<exists>k. multinomial (fill_diagonal [[1 / 2, 1 / 2], [1 / 4, 3 / 4]] 0 ! 1) 0 = Inr k
            \<and> k \<noteq> 1 \<and> k < 2)
     \<and> multinomial (fill_diagonal [[1 / 2, 1 / 2], [0, 1]] 0 ! 1) 0 = Inl RuntimeError
     \<and> multinomial (neg_weights [[5]] 1 ! 0) 7 = Inl RuntimeError
     \<and> (\<exists>e. forward ex_ext ex_model ex_heap
              (ex_samples\<lparr>image_input := [0], text_input := [''ab'']\<rparr>) ex_fdraws = Inl e)"
proof -
  obtain L where L: "forward_locals_of ex_ext ex_model ex_heap ex_samples ex_fdraws = Inr L"
    and i: "image_neg_idx (itm L) = [1, 0]" "text_neg_idx (itm L) = [1, 0]"
    using ex_forward by blast
  note t = hard_negative_never_self[OF L]
  have n: "length (image_input ex_samples) = 2" by (simp add: ex_samples_def)
  from t have b: "\<forall>b < length (image_input ex_samples).
            multinomial (weights_t2i (itm L) ! b) (neg_image_draw ex_fdraws b)
              = Inr (image_neg_idx (itm L) ! b)
          \<and> image_neg_idx (itm L) ! b \<noteq> b
          \<and> image_neg_idx (itm L) ! b < length (image_input ex_samples)
          \<and> image_embeds_neg (itm L) ! b = image_embeds (feats L) ! (image_neg_idx (itm L) ! b)
          \<and> multinomial (weights_i2t (itm L) ! b) (neg_text_draw ex_fdraws b)
              = Inr (text_neg_idx (itm L) ! b)
          \<and> text_neg_idx (itm L) ! b \<noteq> b
          \<and> text_neg_idx (itm L) ! b < length (image_input ex_samples)
          \<and> text_embeds_neg (itm L) ! b = text_embeds (feats L) ! (text_neg_idx (itm L) ! b)"
    by (elim conjE)
  from t have ns: "\<forall>m b dr k. b < length m \<and> multinomial (fill_diagonal m 0 ! b) dr = Inr k \<longrightarrow>
            k \<noteq> b \<and> k < length (m ! b)"
    by (elim conjE)
  from t have ca: "\<forall>m b dr. b < length m \<and> (\<forall>x \<in> set (m ! b). 0 \<le> x)
              \<and> (\<exists>j < length (m ! b). j \<noteq> b \<and> 0 < m ! b ! j) \<longrightarrow>
            (\<exists>k. multinomial (fill_diagonal m 0 ! b) dr = Inr k)"
    by (elim conjE)
  from t have nc: "\<forall>m b dr. b < length m \<and> (\<forall>j < length (m ! b). j \<noteq> b \<longrightarrow> m ! b ! j = 0) \<longrightarrow>
            multinomial (fill_diagonal m 0 ! b) dr = Inl RuntimeError"
    by (elim conjE)
  from t have o: "\<forall>sim dr. sim \<noteq> [] \<longrightarrow> multinomial (neg_weights sim 1 ! 0) dr = Inl RuntimeError"
    by (elim conjE)
  from t have f: "\<forall>s' d'. length (image_input s') = 1 \<longrightarrow>
      (\<exists>e. forward ex_ext ex_model ex_heap s' d' = Inl e)"
    by (elim conjE)
  have 1: "image_neg_idx (itm L) ! 0 \<noteq> 0 \<and> text_neg_idx (itm L) ! 0 \<noteq> 0"
    using b[rule_format, of 0] n by simp
  have 2: "image_neg_idx (itm L) ! 1 \<noteq> 1 \<and> text_neg_idx (itm L) ! 1 \<noteq> 1"
    using b[rule_format, of 1] n by simp
  have p: "(1::nat) < length [[1 / 2, 1 / 2], [1 / 4, 3 / 4 :: real]]
      \<and> (\<forall>x \<in> set ([[1 / 2, 1 / 2], [1 / 4, 3 / 4 :: real]] ! 1). 0 \<le> x)
      \<and> (\<exists>j < length ([[1 / 2, 1 / 2], [1 / 4, 3 / 4 :: real]] ! 1).
            j \<noteq> 1 \<and> 0 < [[1 / 2, 1 / 2], [1 / 4, 3 / 4 :: real]] ! 1 ! j)"
  proof (intro conjI)
    show "\<exists>j < length ([[1 / 2, 1 / 2], [1 / 4, 3 / 4 :: real]] ! 1).
            j \<noteq> 1 \<and> 0 < [[1 / 2, 1 / 2], [1 / 4, 3 / 4 :: real]] ! 1 ! j"
      by (rule exI[of _ 0]) simp
  qed simp_all
  from ca[rule_format, OF p, of 0] obtain k
    where k: "multinomial (fill_diagonal [[1 / 2, 1 / 2], [1 / 4, 3 / 4]] 0 ! 1) 0 = Inr k"
    by blast
  have "k \<noteq> 1 \<and> k < length ([[1 / 2, 1 / 2], [1 / 4, 3 / 4 :: real]] ! 1)"
    using ns[rule_format, of 1 "[[1 / 2, 1 / 2], [1 / 4, 3 / 4]]" 0 k] k by simp
  with k have 3: "\<exists>k. multinomial (fill_diagonal [[1 / 2, 1 / 2], [1 / 4, 3 / 4]] 0 ! 1) 0 = Inr k
            \<and> k \<noteq> 1 \<and> k < 2" by simp
  have q: "(1::nat) < length [[1 / 2, 1 / 2], [0, 1 :: real]]
      \<and> (\<forall>j < length ([[1 / 2, 1 / 2], [0, 1 :: real]] ! 1).
            j \<noteq> 1 \<longrightarrow> [[1 / 2, 1 / 2], [0, 1 :: real]] ! 1 ! j = 0)"
    by (simp add: less_Suc_eq)
  have 4: "multinomial (fill_diagonal [[1 / 2, 1 / 2], [0, 1]] 0 ! 1) 0 = Inl RuntimeError"
    by (rule nc[rule_format, OF q])
  have 5: "multinomial (neg_weights [[5]] 1 ! 0) 7 = Inl RuntimeError"
    using o[rule_format, of "[[5]]" 7] by simp
  have 6: "\<exists>e. forward ex_ext ex_model ex_heap
              (ex_samples\<lparr>image_input := [0], text_input := [''ab'']\<rparr>) ex_fdraws = Inl e"
    using f[rule_format, of "ex_samples\<lparr>image_input := [0], text_input := [''ab'']\<rparr>" ex_fdraws]
    by simp
  from L n i 1 2 3 4 5 6 show ?thesis by blast
qed

subsection \<open>The matching loss\<close>

lemma cross_entropy_Inr:
  assumes "cross_entropy logits labels = Inr l"
  shows "length logits = length labels"
    and "l = (\<Sum>k<length logits. - (log_softmax [fst (logits ! k), snd (logits ! k)] ! (labels ! k)))
              / real (length logits)"
proof -
  from assms show len: "length logits = length labels"
    by (simp add: cross_entropy_def split: if_splits)
  from assms len have "l = mean (map2 (\<lambda>(a, b) y. - (log_softmax [a, b] ! y)) logits labels)"
    by (simp add: cross_entropy_def split: if_splits)
  also have "\<dots> = (\<Sum>k<length logits. (case logits ! k of (a, b) \<Rightarrow> \<lambda>y. - (log_softmax [a, b] ! y)) (labels ! k))
              / real (length logits)"
    using len by (simp add: mean_def sum_list_map2_nth)
  finally show "l = (\<Sum>k<length logits. - (log_softmax [fst (logits ! k), snd (logits ! k)] ! (labels ! k)))
              / real (length logits)"
    by (simp add: case_prod_beta)
qed

text \<open>
  C8. The matching loss is the standard cross-entropy over exactly \<open>3 * bs\<close> fused
  examples: the \<open>bs\<close> positive pairs, then the \<open>bs\<close> pairs of each text with
  its negative image, then the \<open>bs\<close> pairs of each image with its negative text;
  the positives are labelled 1 and both groups of negatives 0.
\<close>

theorem itm_loss_three_groups:
  assumes run: "forward_locals_of ext self h s d = Inr L"
  shows "length (output_pos (itm L)) = length (image_input s)
       \<and> length (output_neg (itm L)) = 2 * length (image_input s)
       \<and> vl_output (itm L) = map (\<lambda>x. itm_head ext (online self) (fst x))
                               (output_pos (itm L) @ output_neg (itm L))
       \<and> length (vl_output (itm L)) = 3 * length (image_input s)
       \<and> itm_labels (itm L) = replicate (length (image_input s)) 1
                               @ replicate (length (image_input s)) 0
                               @ replicate (length (image_input s)) 0
       \<and> (\<forall>k < length (image_input s).
            output_pos (itm L) ! k = bert_fusion ext (online self)
              (text_embeds (feats L) ! k) (text_attention_mask (feats L) ! k)
              (image_embeds (feats L) ! k) (image_atts (feats L) ! k)
          \<and> output_neg (itm L) ! k = bert_fusion ext (online self)
              (text_embeds (feats L) ! k) (text_attention_mask (feats L) ! k)
              (image_embeds (feats L) ! (image_neg_idx (itm L) ! k)) (image_atts (feats L) ! k)
          \<and> output_neg (itm L) ! (length (image_input s) + k) = bert_fusion ext (online self)
              (text_embeds (feats L) ! (text_neg_idx (itm L) ! k))
              (text_attention_mask (feats L) ! (text_neg_idx (itm L) ! k))
              (image_embeds (feats L) ! k) (image_atts (feats L) ! k))
       \<and> cross_entropy (vl_output (itm L)) (itm_labels (itm L)) = Inr (loss_itm (itm L))
       \<and> loss_itm (itm L) = itm_loss_spec (vl_output (itm L)) (length (image_input s))
       \<and> (\<exists>m hp ls. forward ext self h s d = Inr (m, hp, ls) \<and> itm_loss ls = loss_itm (itm L))"
proof -
  let ?bs = "length (image_input s)"
  let ?f = "feats L" and ?m = "itm L"
  note fm = forward_matching[OF run]
  note n = forward_negatives[OF run]
  from fm(1) have
    pos0: "fusion ext (online (self_out L)) (text_embeds ?f) (text_attention_mask ?f)
       (image_embeds ?f) (image_atts ?f) = Inr (output_pos ?m)"
    and neg0: "fusion ext (online (self_out L)) (text_embeds ?f @ text_embeds_neg ?m)
       (text_attention_mask ?f @ text_atts_neg ?m) (image_embeds_neg ?m @ image_embeds ?f)
       (image_atts ?f @ image_atts ?f) = Inr (output_neg ?m)"
    and ve: "vl_embeddings ?m = map fst (output_pos ?m) @ map fst (output_neg ?m)"
    and vo0: "vl_output ?m = map (itm_head ext (online (self_out L))) (vl_embeddings ?m)"
    and la: "itm_labels ?m = replicate ?bs 1 @ replicate (2 * ?bs) 0"
    and ce: "cross_entropy (vl_output ?m) (itm_labels ?m) = Inr (loss_itm ?m)"
    by (auto elim: matchingE)
  note pos = pos0[unfolded fm(2)] and neg = neg0[unfolded fm(2)] and vo = vo0[unfolded fm(2)]
  have le: "length (text_embeds ?f) = ?bs" "length (text_attention_mask ?f) = ?bs"
    "length (image_embeds ?f) = ?bs" "length (image_atts ?f) = ?bs"
    by (simp_all add: fm(3) encode_lengths n(7))
  have lp: "length (output_pos ?m) = ?bs" using fusion_Inr(4)[OF pos] le by simp
  have ln: "length (output_neg ?m) = 2 * ?bs" using fusion_Inr(4)[OF neg] le n(4) by simp
  have v: "vl_output ?m = map (\<lambda>x. itm_head ext (online self) (fst x))
      (output_pos ?m @ output_neg ?m)"
    by (simp add: vo ve comp_def)
  have lv: "length (vl_output ?m) = 3 * ?bs" by (simp add: v lp ln)
  have la': "itm_labels ?m = replicate ?bs 1 @ replicate ?bs 0 @ replicate ?bs 0"
    by (simp add: la replicate_add[symmetric] mult_2)
  have g: "\<forall>k < ?bs.
            output_pos ?m ! k = bert_fusion ext (online self)
              (text_embeds ?f ! k) (text_attention_mask ?f ! k)
              (image_embeds ?f ! k) (image_atts ?f ! k)
          \<and> output_neg ?m ! k = bert_fusion ext (online self)
              (text_embeds ?f ! k) (text_attention_mask ?f ! k)
              (image_embeds ?f ! (image_neg_idx ?m ! k)) (image_atts ?f ! k)
          \<and> output_neg ?m ! (?bs + k) = bert_fusion ext (online self)
              (text_embeds ?f ! (text_neg_idx ?m ! k))
              (text_attention_mask ?f ! (text_neg_idx ?m ! k))
              (image_embeds ?f ! k) (image_atts ?f ! k)"
  proof (intro allI impI)
    fix k assume k: "k < ?bs"
    note nk = n(8)[OF k]
    have 1: "output_pos ?m ! k = bert_fusion ext (online self)
              (text_embeds ?f ! k) (text_attention_mask ?f ! k)
              (image_embeds ?f ! k) (image_atts ?f ! k)"
      using fusion_Inr(5)[OF pos, of k] k le by simp
    have 2: "output_neg ?m ! k = bert_fusion ext (online self)
              (text_embeds ?f ! k) (text_attention_mask ?f ! k)
              (image_embeds ?f ! (image_neg_idx ?m ! k)) (image_atts ?f ! k)"
      using fusion_Inr(5)[OF neg, of k] k le n(3) nk by (simp add: nth_append)
    have 3: "output_neg ?m ! (?bs + k) = bert_fusion ext (online self)
              (text_embeds ?f ! (text_neg_idx ?m ! k))
              (text_attention_mask ?f ! (text_neg_idx ?m ! k))
              (image_embeds ?f ! k) (image_atts ?f ! k)"
      using fusion_Inr(5)[OF neg, of "?bs + k"] k le n(3,4,5) nk by (simp add: nth_append)
    from 1 2 3 show "output_pos ?m ! k = bert_fusion ext (online self)
              (text_embeds ?f ! k) (text_attention_mask ?f ! k)
              (image_embeds ?f ! k) (image_atts ?f ! k)
          \<and> output_neg ?m ! k = bert_fusion ext (online self)
              (text_embeds ?f ! k) (text_attention_mask ?f ! k)
              (image_embeds ?f ! (image_neg_idx ?m ! k)) (image_atts ?f ! k)
          \<and> output_neg ?m ! (?bs + k) = bert_fusion ext (online self)
              (text_embeds ?f ! (text_neg_idx ?m ! k))
              (text_attention_mask ?f ! (text_neg_idx ?m ! k))
              (image_embeds ?f ! k) (image_atts ?f ! k)" by blast
  qed
  have lk: "\<And>k. k < 3 * ?bs \<Longrightarrow> itm_labels ?m ! k = (if k < ?bs then 1 else 0)"
    by (simp add: la nth_append)
  have sp: "loss_itm ?m = itm_loss_spec (vl_output ?m) ?bs"
  proof -
    have "loss_itm ?m = (\<Sum>k<3 * ?bs. - (log_softmax [fst (vl_output ?m ! k), snd (vl_output ?m ! k)]
        ! (itm_labels ?m ! k))) / real (3 * ?bs)"
      using cross_entropy_Inr(2)[OF ce] lv by simp
    also have "(\<Sum>k<3 * ?bs. - (log_softmax [fst (vl_output ?m ! k), snd (vl_output ?m ! k)]
        ! (itm_labels ?m ! k)))
      = (\<Sum>k<3 * ?bs. - ln ((if k < ?bs then exp (snd (vl_output ?m ! k))
                               else exp (fst (vl_output ?m ! k)))
            / (exp (fst (vl_output ?m ! k)) + exp (snd (vl_output ?m ! k)))))"
      by (rule sum.cong) (simp_all add: lk log_softmax_def softmax_def)
    finally show ?thesis by (simp add: itm_loss_spec_def)
  qed
  have fw: "\<exists>m hp ls. forward ext self h s d = Inr (m, hp, ls) \<and> itm_loss ls = loss_itm ?m"
    using forward_Inr[OF run] by simp
  from lp ln v lv la' g ce sp fw show ?thesis by blast
qed

theorem itm_loss_three_groups_witness:
  "\<exists>L. forward_locals_of ex_ext ex_model ex_heap ex_samples ex_fdraws = Inr L
     \<and> length (vl_output (itm L)) = 6
     \<and> itm_labels (itm L) = [1, 1, 0, 0, 0, 0]
     \<and> vl_output (itm L) = [(0, 0), (0, 2), (0, 1), (0, 1), (0, 1), (0, 1)]
     \<and> loss_itm (itm L) = itm_loss_spec [(0, 0), (0, 2), (0, 1), (0, 1), (0, 1), (0, 1)] 2"
proof -
  obtain L where L: "forward_locals_of ex_ext ex_model ex_heap ex_samples ex_fdraws = Inr L"
    and v: "vl_output (itm L) = [(0, 0), (0, 2), (0, 1), (0, 1), (0, 1), (0, 1)]"
    using ex_forward by blast
  note t = itm_loss_three_groups[OF L]
  have n: "length (image_input ex_samples) = 2" by (simp add: ex_samples_def)
  from t n have "length (vl_output (itm L)) = 6" by simp
  moreover from t n have "itm_labels (itm L) = [1, 1, 0, 0, 0, 0]"
    by (simp add: eval_nat_numeral)
  moreover from t n v
  have "loss_itm (itm L) = itm_loss_spec [(0, 0), (0, 2), (0, 1), (0, 1), (0, 1), (0, 1)] 2"
    by simp
  ultimately show ?thesis using L v by blast
qed

subsection \<open>The contrastive loss against the specification\<close>

lemma nth_softmax: "j < length x \<Longrightarrow> softmax x ! j = softmax_at x j"
  by (simp add: softmax_def softmax_at_def sum_list_sum_nth lessThan_atLeast0)

lemma soft_targets_Inr:
  assumes "soft_targets a sm st = Inr t"
  shows "same_shape sm st" and "same_shape t sm"
    and "\<And>i j. i < length sm \<Longrightarrow> j < length (sm ! i) \<Longrightarrow>
           t ! i ! j = a * softmax_at (sm ! i) j + (1 - a) * st ! i ! j"
proof -
  from assms show s: "same_shape sm st" by (simp add: soft_targets_def split: if_splits)
  from assms s have t: "t = map2 (map2 (\<lambda>s t. a * s + (1 - a) * t)) (map softmax sm) st"
    by (simp add: soft_targets_def)
  have l: "length st = length sm" using same_shape_length[OF s] by simp
  have r: "\<And>i. i < length sm \<Longrightarrow> length (st ! i) = length (sm ! i)"
    using same_shape_row[OF s] by simp
  show "same_shape t sm"
    unfolding same_shape_def t by (rule nth_equalityI) (simp_all add: l r)
  show "\<And>i j. i < length sm \<Longrightarrow> j < length (sm ! i) \<Longrightarrow>
           t ! i ! j = a * softmax_at (sm ! i) j + (1 - a) * st ! i ! j"
    by (simp add: t l r nth_softmax)
qed

lemma same_shape_sim_targets: "same_shape (fill_diagonal (zeros_like m) v) m"
  unfolding same_shape_def fill_diagonal_def zeros_like_def
  by (rule nth_equalityI) simp_all

lemma nth_sim_targets:
  "i < length m \<Longrightarrow> j < length (m ! i) \<Longrightarrow>
   fill_diagonal (zeros_like m) 1 ! i ! j = (if i = j then 1 else 0)"
  by (auto simp: fill_diagonal_def zeros_like_def nth_list_update)

lemma soft_cross_entropy_Inr:
  assumes "soft_cross_entropy sim t = Inr l"
  shows "same_shape sim t"
    and "l = (\<Sum>i<length sim. - (\<Sum>j<length (sim ! i). t ! i ! j * ln (softmax_at (sim ! i) j)))
              / real (length sim)"
proof -
  from assms show s: "same_shape sim t" by (simp add: soft_cross_entropy_def split: if_splits)
  have len: "length sim = length t" using same_shape_length[OF s] .
  have r: "\<And>i. i < length sim \<Longrightarrow> length (sim ! i) = length (t ! i)"
    using same_shape_row[OF s] .
  from assms s have "l = - mean (map2 (\<lambda>s t. \<Sum>(l, y)\<leftarrow>zip (log_softmax s) t. l * y) sim t)"
    by (simp add: soft_cross_entropy_def)
  also have "map2 (\<lambda>s t. \<Sum>(l, y)\<leftarrow>zip (log_softmax s) t. l * y) sim t
      = map (\<lambda>i. \<Sum>j<length (sim ! i). t ! i ! j * ln (softmax_at (sim ! i) j)) [0..<length sim]"
  proof (rule nth_equalityI)
    show "length (map2 (\<lambda>s t. \<Sum>(l, y)\<leftarrow>zip (log_softmax s) t. l * y) sim t)
        = length (map (\<lambda>i. \<Sum>j<length (sim ! i). t ! i ! j * ln (softmax_at (sim ! i) j))
            [0..<length sim])"
      using len by simp
  next
    fix i assume "i < length (map2 (\<lambda>s t. \<Sum>(l, y)\<leftarrow>zip (log_softmax s) t. l * y) sim t)"
    then have i: "i < length sim" by simp
    have "(\<Sum>(l, y)\<leftarrow>zip (log_softmax (sim ! i)) (t ! i). l * y)
        = (\<Sum>j<length (sim ! i). log_softmax (sim ! i) ! j * (t ! i ! j))"
      using sum_list_map2_nth[of "log_softmax (sim ! i)" "t ! i" "(*)"] r[OF i]
      by (simp add: case_prod_unfold)
    also have "\<dots> = (\<Sum>j<length (sim ! i). t ! i ! j * ln (softmax_at (sim ! i) j))"
      by (rule sum.cong) (simp_all add: log_softmax_def nth_softmax mult.commute)
    finally show "map2 (\<lambda>s t. \<Sum>(l, y)\<leftarrow>zip (log_softmax s) t. l * y) sim t ! i
        = map (\<lambda>i. \<Sum>j<length (sim ! i). t ! i ! j * ln (softmax_at (sim ! i) j))
            [0..<length sim] ! i"
      using i len by simp
  qed
  finally show "l = (\<Sum>i<length sim. - (\<Sum>j<length (sim ! i). t ! i ! j * ln (softmax_at (sim ! i) j)))
              / real (length sim)"
    by (simp add: mean_def sum_list_sum_nth lessThan_atLeast0 sum_negf)
qed

lemma direction_refines:
  assumes t: "soft_targets a tsim (fill_diagonal (zeros_like base) 1) = Inr tg"
    and l: "soft_cross_entropy ssim tg = Inr l"
  shows "l = ita_direction_spec a ssim tsim"
    and "\<forall>i j. i < length tsim \<and> j < length (tsim ! i) \<longrightarrow>
           tg ! i ! j = soft_target_spec a tsim i j"
    and "same_shape tg tsim"
proof -
  note st = soft_targets_Inr[OF t]
  have sb: "same_shape tsim base"
    by (rule same_shape_trans[OF st(1) same_shape_sim_targets])
  have p: "\<And>i j. i < length tsim \<Longrightarrow> j < length (tsim ! i) \<Longrightarrow>
      tg ! i ! j = soft_target_spec a tsim i j"
  proof -
    fix i j assume i: "i < length tsim" and j: "j < length (tsim ! i)"
    have "i < length base" "j < length (base ! i)"
      using i j same_shape_length[OF sb] same_shape_row[OF sb i] by simp_all
    then show "tg ! i ! j = soft_target_spec a tsim i j"
      using st(3)[OF i j] by (simp add: nth_sim_targets soft_target_spec_def)
  qed
  then show "\<forall>i j. i < length tsim \<and> j < length (tsim ! i) \<longrightarrow>
           tg ! i ! j = soft_target_spec a tsim i j" by blast
  show "same_shape tg tsim" by (rule st(2))
  note ce = soft_cross_entropy_Inr[OF l]
  have ss: "same_shape ssim tsim" by (rule same_shape_trans[OF ce(1) st(2)])
  have "(\<Sum>i<length ssim. - (\<Sum>j<length (ssim ! i). tg ! i ! j * ln (softmax_at (ssim ! i) j)))
      = (\<Sum>i<length ssim. - (\<Sum>j<length (ssim ! i).
            soft_target_spec a tsim i j * ln (softmax_at (ssim ! i) j)))"
  proof (rule sum.cong)
    fix i assume "i \<in> {..<length ssim}"
    then have i: "i < length ssim" by simp
    have it: "i < length tsim" using i same_shape_length[OF ss] by simp
    have "(\<Sum>j<length (ssim ! i). tg ! i ! j * ln (softmax_at (ssim ! i) j))
        = (\<Sum>j<length (ssim ! i). soft_target_spec a tsim i j * ln (softmax_at (ssim ! i) j))"
    proof (rule sum.cong)
      fix j assume "j \<in> {..<length (ssim ! i)}"
      then have "j < length (tsim ! i)" using same_shape_row[OF ss i] by simp
      then show "tg ! i ! j * ln (softmax_at (ssim ! i) j)
          = soft_target_spec a tsim i j * ln (softmax_at (ssim ! i) j)"
        using p[OF it] by simp
    qed simp
    then show "- (\<Sum>j<length (ssim ! i). tg ! i ! j * ln (softmax_at (ssim ! i) j))
        = - (\<Sum>j<length (ssim ! i). soft_target_spec a tsim i j * ln (softmax_at (ssim ! i) j))"
      by simp
  qed simp
  then show "l = ita_direction_spec a ssim tsim"
    using ce(2) by (simp add: ita_direction_spec_def)
qed

lemma similarity_length: "similarity a cols t = Inr m \<Longrightarrow> length m = length a"
  by (auto dest: similarity_Inr)

text \<open>
  C9. The soft targets are \<open>alpha\<close> times the softmax of the teacher's similarity
  matrix plus \<open>1 - alpha\<close> times the identity matching matrix, where \<open>alpha\<close>
  is the configured value times the ramp-up factor; each direction's loss is the mean
  over the batch of the cross-entropy between the student's softmax similarities and
  these targets, and \<open>loss_ita\<close> is the mean of the two directions.
\<close>

theorem ita_loss_refines_spec:
  assumes run: "forward_locals_of ext self h s d = Inr L"
  shows "(\<exists>r. rampup_factor (epoch s) (iters s) (num_iters_per_epoch s) = Inr r
            \<and> alpha_used L = alpha self * r)
       \<and> same_shape (sim_i2t_targets (ita L)) (sim_i2t_m (ita L))
       \<and> same_shape (sim_t2i_targets (ita L)) (sim_t2i_m (ita L))
       \<and> (\<forall>i j. i < length (sim_i2t_m (ita L)) \<and> j < length (sim_i2t_m (ita L) ! i) \<longrightarrow>
            sim_i2t_targets (ita L) ! i ! j
              = soft_target_spec (alpha_used L) (sim_i2t_m (ita L)) i j)
       \<and> (\<forall>i j. i < length (sim_t2i_m (ita L)) \<and> j < length (sim_t2i_m (ita L) ! i) \<longrightarrow>
            sim_t2i_targets (ita L) ! i ! j
              = soft_target_spec (alpha_used L) (sim_t2i_m (ita L)) i j)
       \<and> length (sim_i2t (ita L)) = length (image_input s)
       \<and> length (sim_t2i (ita L)) = length (image_input s)
       \<and> loss_i2t (ita L)
           = ita_direction_spec (alpha_used L) (sim_i2t (ita L)) (sim_i2t_m (ita L))
       \<and> loss_t2i (ita L)
           = ita_direction_spec (alpha_used L) (sim_t2i (ita L)) (sim_t2i_m (ita L))
       \<and> loss_ita (ita L) = (loss_i2t (ita L) + loss_t2i (ita L)) / 2
       \<and> loss_ita (ita L)
           = ita_loss_spec (alpha_used L) (sim_i2t (ita L)) (sim_i2t_m (ita L))
               (sim_t2i (ita L)) (sim_t2i_m (ita L))
       \<and> (\<exists>m hp ls. forward ext self h s d = Inr (m, hp, ls) \<and> ita_loss ls = loss_ita (ita L))"
proof -
  from run obtain r q where
    r: "rampup_factor (epoch s) (iters s) (num_iters_per_epoch s) = Inr r"
    and a: "alpha_used L = alpha self * r"
    and f: "feats L = snd (encode ext self s)"
    and c: "contrastive (alpha_used L) (clamp (temp self) (1 / 1000) (1 / 2)) (feats L)
        = Inr (ita L)"
    by (rule forward_locals_ofE)
  note e = contrastiveE[OF c]
  note i2t = direction_refines[OF e(4)[unfolded e(3)] e(8)]
  note t2i = direction_refines[OF e(5)[unfolded e(3)] e(9)]
  have l1: "length (sim_i2t (ita L)) = length (image_input s)"
    using similarity_length[OF e(6)] by (simp add: f encode_lengths)
  have l2: "length (sim_t2i (ita L)) = length (image_input s)"
    using similarity_length[OF e(7)] forward_negatives(7)[OF run] by (simp add: f encode_lengths)
  have sp: "loss_ita (ita L)
           = ita_loss_spec (alpha_used L) (sim_i2t (ita L)) (sim_i2t_m (ita L))
               (sim_t2i (ita L)) (sim_t2i_m (ita L))"
    using e(10) i2t(1) t2i(1) by (simp add: ita_loss_spec_def)
  have fw: "\<exists>m hp ls. forward ext self h s d = Inr (m, hp, ls) \<and> ita_loss ls = loss_ita (ita L)"
    using forward_Inr[OF run] by simp
  have ra: "\<exists>r. rampup_factor (epoch s) (iters s) (num_iters_per_epoch s) = Inr r
            \<and> alpha_used L = alpha self * r" using r a by blast
  from ra i2t(3) t2i(3) i2t(2) t2i(2) l1 l2 i2t(1) t2i(1) e(10) sp fw
  show ?thesis by blast
qed

theorem ita_loss_refines_spec_witness:
  "\<exists>L. forward_locals_of ex_ext ex_model ex_heap ex_samples ex_fdraws = Inr L
     \<and> alpha ex_model = 2 / 5 \<and> alpha_used L = 1 / 10
     \<and> sim_i2t_targets (ita L) ! 1 ! 1
         = soft_target_spec (1 / 10) [[0, 0, 0, 0], [0, 2, 0, 2]] 1 1
     \<and> sim_i2t_targets (ita L) ! 1 ! 3
         = soft_target_spec (1 / 10) [[0, 0, 0, 0], [0, 2, 0, 2]] 1 3
     \<and> loss_ita (ita L)
         = ita_loss_spec (1 / 10) [[0, 0, 0, 0], [0, 2, 0, 2]] [[0, 0, 0, 0], [0, 2, 0, 2]]
             [[0, 0, 0, 0], [0, 2, 2, 0]] [[0, 0, 0, 0], [0, 2, 2, 0]]"
proof -
  obtain L where L: "forward_locals_of ex_ext ex_model ex_heap ex_samples ex_fdraws = Inr L"
    and v: "alpha_used L = 1 / 10" "sim_i2t (ita L) = [[0, 0, 0, 0], [0, 2, 0, 2]]"
      "sim_t2i (ita L) = [[0, 0, 0, 0], [0, 2, 2, 0]]"
      "sim_i2t_m (ita L) = [[0, 0, 0, 0], [0, 2, 0, 2]]"
      "sim_t2i_m (ita L) = [[0, 0, 0, 0], [0, 2, 2, 0]]"
    using ex_forward by blast
  note t = ita_loss_refines_spec[OF L, unfolded v]
  from t have p: "\<And>i j. i < length [[0, 0, 0, 0], [0, 2, 0, 2::real]]
        \<and> j < length ([[0, 0, 0, 0], [0, 2, 0, 2::real]] ! i) \<Longrightarrow>
      sim_i2t_targets (ita L) ! i ! j
        = soft_target_spec (1 / 10) [[0, 0, 0, 0], [0, 2, 0, 2]] i j" by blast
  have 1: "sim_i2t_targets (ita L) ! 1 ! 1
         = soft_target_spec (1 / 10) [[0, 0, 0, 0], [0, 2, 0, 2]] 1 1"
    using p[of 1 1] by simp
  have 2: "sim_i2t_targets (ita L) ! 1 ! 3
         = soft_target_spec (1 / 10) [[0, 0, 0, 0], [0, 2, 0, 2]] 1 3"
    using p[of 1 3] by simp
  from t have 3: "loss_ita (ita L)
         = ita_loss_spec (1 / 10) [[0, 0, 0, 0], [0, 2, 0, 2]] [[0, 0, 0, 0], [0, 2, 0, 2]]
             [[0, 0, 0, 0], [0, 2, 2, 0]] [[0, 0, 0, 0], [0, 2, 2, 0]]" by blast
  have 4: "alpha ex_model = 2 / 5" by (simp add: ex_model_def)
  from L v(1) 1 2 3 4 show ?thesis by blast
qed

subsection \<open>Mutation in place\<close>

lemma mask_ids_Inr:
  "mask_ids tok h a V tg mi pm d = Inr (h', ret) \<longleftrightarrow>
   (\<exists>L. mask_locals_of tok h a V tg mi pm d = Inr L \<and> h' = heap_out L \<and> ret = returned L)"
  by (auto simp: mask_ids_def bind_err_eq_Inr)

lemma language_modellingE:
  assumes "language_modelling ext self h txt f a d = Inr l"
  obtains h2 where
    "h2 = fst (clone (fst (clone h txt)) (fresh h))"
    "input_ids_ref l = fresh h" "labels_ref l = Suc (fresh h)"
    "mask_ids (tokenizer_ids self) h2 (fresh h) (vocab_size self) (Some (Suc (fresh h))) None
       (Some (full (longs h2 (Suc (fresh h))) (mlm_probability self))) d
       = Inr (mlm_heap l, IdsLabels (fresh h) (Suc (fresh h)))"
    "mlm_input_ids l = longs (mlm_heap l) (fresh h)"
    "mlm_labels l = longs (mlm_heap l) (Suc (fresh h))"
proof -
  have c1: "clone h txt = (fst (clone h txt), fresh h)" by (simp add: clone_def alloc_def)
  have c2: "clone (fst (clone h txt)) (fresh h)
      = (fst (clone (fst (clone h txt)) (fresh h)), Suc (fresh h))"
    by (simp add: clone_def alloc_def)
  define h2 where "h2 = fst (clone (fst (clone h txt)) (fresh h))"
  from assms obtain h3 ret where
    m: "mask_ids (tokenizer_ids self) h2 (fresh h) (vocab_size self) (Some (Suc (fresh h))) None
       (Some (full (longs h2 (Suc (fresh h))) (mlm_probability self))) d = Inr (h3, ret)"
    and rest: "(case ret of Ids x \<Rightarrow> Inl TypeError
        | IdsLabels i lb \<Rightarrow>
            Inr \<lparr>input_ids_ref = i, labels_ref = lb, mlm_input_ids = longs h3 i,
                 mlm_labels = longs h3 lb,
                 loss_mlm = mlm_loss ext (online self) (longs h3 i) (text_attention_mask f)
                    (image_embeds f) (image_atts f) (longs h3 lb)
                    (map (map softmax) (mlm_logits ext (teacher self) (longs h3 i)
                       (text_attention_mask f) (image_embeds_m f) (image_atts f))) a,
                 mlm_heap = h3\<rparr>) = Inr l"
    unfolding language_modelling_def
    apply (subst (asm) c1)
    apply (simp only: prod.case Let_def)
    apply (subst (asm) c2)
    apply (auto simp: bind_err_eq_Inr Let_def h2_def)
    done
  from m have r: "ret = IdsLabels (fresh h) (Suc (fresh h))"
    using mask_locals_of_frame(1) by (fastforce simp: mask_ids_Inr)
  from rest r have l: "input_ids_ref l = fresh h" "labels_ref l = Suc (fresh h)"
    "mlm_heap l = h3" "mlm_input_ids l = longs h3 (fresh h)"
    "mlm_labels l = longs h3 (Suc (fresh h))"
    by auto
  show ?thesis
    using that[OF h2_def l(1,2)] m r l by simp
qed

lemma forward_heap:
  assumes run: "forward_locals_of ext self h s d = Inr L"
  shows "text_ref L = fresh h"
    and "input_ids_ref (mlm L) = Suc (fresh h)"
    and "labels_ref (mlm L) = Suc (Suc (fresh h))"
    and "longs (mlm_heap (mlm L)) (text_ref L) = text_input_ids (feats L)"
    and "\<And>x. x < fresh h \<Longrightarrow> longs (mlm_heap (mlm L)) x = longs h x"
    and "mlm_input_ids (mlm L) = longs (mlm_heap (mlm L)) (input_ids_ref (mlm L))"
    and "mlm_labels (mlm L) = longs (mlm_heap (mlm L)) (labels_ref (mlm L))"
    and "\<exists>m mh. mask_ids (tokenizer_ids self) mh (input_ids_ref (mlm L)) (vocab_size self)
            (Some (labels_ref (mlm L))) None (Some m) (mask_draw d)
          = Inr (mlm_heap (mlm L), IdsLabels (input_ids_ref (mlm L)) (labels_ref (mlm L)))
        \<and> longs mh (input_ids_ref (mlm L)) = text_input_ids (feats L)
        \<and> longs mh (labels_ref (mlm L)) = text_input_ids (feats L)
        \<and> longs mh (text_ref L) = text_input_ids (feats L)"
proof -
  let ?h1 = "fst (alloc h (text_input_ids (feats L)))"
  from run obtain r q where
    o: "self_out L = fst (encode ext self s)\<lparr>temp := clamp (temp self) (1 / 1000) (1 / 2),
        queue_state := q\<rparr>"
    and t: "text_ref L = fresh h"
    and lm: "language_modelling ext (self_out L) ?h1 (fresh h)
       (feats L) (alpha_used L) (mask_draw d) = Inr (mlm L)"
    by (rule forward_locals_ofE)
  have f1: "fresh ?h1 = Suc (fresh h)" by (simp add: alloc_def)
  have so: "tokenizer_ids (self_out L) = tokenizer_ids self"
    "vocab_size (self_out L) = vocab_size self"
    by (simp_all add: o encode_temp)
  from lm obtain h2 where
    h2: "h2 = fst (clone (fst (clone ?h1 (fresh h))) (fresh ?h1))"
    and i: "input_ids_ref (mlm L) = fresh ?h1" and lb: "labels_ref (mlm L) = Suc (fresh ?h1)"
    and m: "mask_ids (tokenizer_ids (self_out L)) h2 (fresh ?h1) (vocab_size (self_out L))
       (Some (Suc (fresh ?h1))) None
       (Some (full (longs h2 (Suc (fresh ?h1))) (mlm_probability (self_out L)))) (mask_draw d)
       = Inr (mlm_heap (mlm L), IdsLabels (fresh ?h1) (Suc (fresh ?h1)))"
    and vi: "mlm_input_ids (mlm L) = longs (mlm_heap (mlm L)) (fresh ?h1)"
    and vl: "mlm_labels (mlm L) = longs (mlm_heap (mlm L)) (Suc (fresh ?h1))"
    by (rule language_modellingE)
  have l2: "longs h2 (fresh h) = text_input_ids (feats L)"
    "longs h2 (Suc (fresh h)) = text_input_ids (feats L)"
    "longs h2 (Suc (Suc (fresh h))) = text_input_ids (feats L)"
    "\<And>x. x < fresh h \<Longrightarrow> longs h2 x = longs h x"
    by (simp_all add: h2 clone_def alloc_def)
  from m obtain K where K: "mask_locals_of (tokenizer_ids (self_out L)) h2 (fresh ?h1)
       (vocab_size (self_out L)) (Some (Suc (fresh ?h1))) None
       (Some (full (longs h2 (Suc (fresh ?h1))) (mlm_probability (self_out L)))) (mask_draw d)
       = Inr K" and hm: "mlm_heap (mlm L) = heap_out K"
    by (auto simp: mask_ids_Inr)
  have fr: "\<And>x. x \<noteq> Suc (fresh h) \<Longrightarrow> x \<noteq> Suc (Suc (fresh h)) \<Longrightarrow>
      longs (mlm_heap (mlm L)) x = longs h2 x"
    using mask_locals_of_frame(3)[OF K] by (simp add: hm f1)
  show "text_ref L = fresh h" by (rule t)
  show "input_ids_ref (mlm L) = Suc (fresh h)" by (simp add: i f1)
  show "labels_ref (mlm L) = Suc (Suc (fresh h))" by (simp add: lb f1)
  show "longs (mlm_heap (mlm L)) (text_ref L) = text_input_ids (feats L)"
    using fr[of "fresh h"] l2(1) by (simp add: t)
  show "\<And>x. x < fresh h \<Longrightarrow> longs (mlm_heap (mlm L)) x = longs h x"
    using fr l2(4) by simp
  show "mlm_input_ids (mlm L) = longs (mlm_heap (mlm L)) (input_ids_ref (mlm L))"
    by (simp add: vi i)
  show "mlm_labels (mlm L) = longs (mlm_heap (mlm L)) (labels_ref (mlm L))"
    by (simp add: vl lb)
  show "\<exists>m mh. mask_ids (tokenizer_ids self) mh (input_ids_ref (mlm L)) (vocab_size self)
            (Some (labels_ref (mlm L))) None (Some m) (mask_draw d)
          = Inr (mlm_heap (mlm L), IdsLabels (input_ids_ref (mlm L)) (labels_ref (mlm L)))
        \<and> longs mh (input_ids_ref (mlm L)) = text_input_ids (feats L)
        \<and> longs mh (labels_ref (mlm L)) = text_input_ids (feats L)
        \<and> longs mh (text_ref L) = text_input_ids (feats L)"
    using m l2 by (auto simp: i lb so f1 t)
qed

text \<open>
  C10. \<open>mask\<close> writes into the tensors it is given: the values it returns are the
  addresses it received, the corrupted ids and the labels are what the store holds at
  these addresses afterwards, and no other integer tensor changes. \<open>forward\<close>
  passes clones: after it, the tensor of the tokenizer and every tensor the caller had
  are as they were.
\<close>

theorem mask_in_place:
  assumes run: "mask_ids tok h input_ids V targets masked_arg pm d = Inr (h', ret)"
  shows "ret = (case targets of None \<Rightarrow> Ids input_ids | Some t \<Rightarrow> IdsLabels input_ids t)
       \<and> fresh h' = fresh h
       \<and> (\<forall>x. x \<noteq> input_ids \<and> targets \<noteq> Some x \<longrightarrow> longs h' x = longs h x)
       \<and> (\<exists>L. mask_locals_of tok h input_ids V targets masked_arg pm d = Inr L \<and> h' = heap_out L
            \<and> (\<forall>b i. b < length (longs h input_ids) \<and> i < length (longs h input_ids ! b) \<longrightarrow>
                 (targets \<noteq> Some input_ids \<longrightarrow>
                    longs h' input_ids ! b ! i =
                      (if indices_random L ! b ! i then random_words L ! b ! i
                       else if indices_replaced L ! b ! i then mask_token_id tok
                       else longs h input_ids ! b ! i))
               \<and> (targets \<noteq> Some input_ids \<and> indices_replaced L ! b ! i
                    \<and> longs h input_ids ! b ! i \<noteq> mask_token_id tok \<longrightarrow>
                    longs h' input_ids \<noteq> longs h input_ids)
               \<and> (\<forall>t. targets = Some t \<and> \<not> masked_indices L ! b ! i \<longrightarrow>
                    longs h' t ! b ! i = - 100)
               \<and> (\<forall>t. targets = Some t \<and> \<not> masked_indices L ! b ! i
                    \<and> longs h t ! b ! i \<noteq> - 100 \<longrightarrow> longs h' t \<noteq> longs h t)))
       \<and> (\<forall>(ext :: ('img, 'p) components) self hh s dd L.
            forward_locals_of ext self hh s dd = Inr L \<longrightarrow>
              text_ref L = fresh hh
            \<and> input_ids_ref (mlm L) \<noteq> text_ref L \<and> labels_ref (mlm L) \<noteq> text_ref L
            \<and> labels_ref (mlm L) \<noteq> input_ids_ref (mlm L)
            \<and> longs (mlm_heap (mlm L)) (text_ref L) = text_input_ids (feats L)
            \<and> (\<forall>x < fresh hh. longs (mlm_heap (mlm L)) x = longs hh x)
            \<and> (\<exists>m mh. mask_ids (tokenizer_ids self) mh (input_ids_ref (mlm L)) (vocab_size self)
                    (Some (labels_ref (mlm L))) None (Some m) (mask_draw dd)
                  = Inr (mlm_heap (mlm L),
                         IdsLabels (input_ids_ref (mlm L)) (labels_ref (mlm L)))
                \<and> longs mh (input_ids_ref (mlm L)) = text_input_ids (feats L)
                \<and> longs mh (labels_ref (mlm L)) = text_input_ids (feats L)))"
proof -
  from run obtain L where L: "mask_locals_of tok h input_ids V targets masked_arg pm d = Inr L"
    and h': "h' = heap_out L" and ret: "ret = returned L"
    by (auto simp: mask_ids_Inr)
  note fr = mask_locals_of_frame[OF L]
  have 1: "ret = (case targets of None \<Rightarrow> Ids input_ids | Some t \<Rightarrow> IdsLabels input_ids t)"
    using fr(1) ret by simp
  have 2: "fresh h' = fresh h" using fr(2) h' by simp
  have 3: "\<forall>x. x \<noteq> input_ids \<and> targets \<noteq> Some x \<longrightarrow> longs h' x = longs h x"
    using fr(3) h' by simp
  have 4: "\<forall>b i. b < length (longs h input_ids) \<and> i < length (longs h input_ids ! b) \<longrightarrow>
                 (targets \<noteq> Some input_ids \<longrightarrow>
                    longs h' input_ids ! b ! i =
                      (if indices_random L ! b ! i then random_words L ! b ! i
                       else if indices_replaced L ! b ! i then mask_token_id tok
                       else longs h input_ids ! b ! i))
               \<and> (targets \<noteq> Some input_ids \<and> indices_replaced L ! b ! i
                    \<and> longs h input_ids ! b ! i \<noteq> mask_token_id tok \<longrightarrow>
                    longs h' input_ids \<noteq> longs h input_ids)
               \<and> (\<forall>t. targets = Some t \<and> \<not> masked_indices L ! b ! i \<longrightarrow>
                    longs h' t ! b ! i = - 100)
               \<and> (\<forall>t. targets = Some t \<and> \<not> masked_indices L ! b ! i
                    \<and> longs h t ! b ! i \<noteq> - 100 \<longrightarrow> longs h' t \<noteq> longs h t)"
  proof (intro allI impI, elim conjE)
    fix b i assume b: "b < length (longs h input_ids)" and i: "i < length (longs h input_ids ! b)"
    note f = mask_locals_of_facts[OF L b i]
    have a: "targets \<noteq> Some input_ids \<longrightarrow>
                    longs h' input_ids ! b ! i =
                      (if indices_random L ! b ! i then random_words L ! b ! i
                       else if indices_replaced L ! b ! i then mask_token_id tok
                       else longs h input_ids ! b ! i)"
      using f(9) h' by simp
    have c: "targets \<noteq> Some input_ids \<and> indices_replaced L ! b ! i
                    \<and> longs h input_ids ! b ! i \<noteq> mask_token_id tok \<longrightarrow>
                    longs h' input_ids \<noteq> longs h input_ids"
    proof (intro impI, elim conjE)
      assume na: "targets \<noteq> Some input_ids" and r: "indices_replaced L ! b ! i"
        and ne: "longs h input_ids ! b ! i \<noteq> mask_token_id tok"
      from f(6) r have "\<not> indices_random L ! b ! i" by simp
      with a na r have "longs h' input_ids ! b ! i = mask_token_id tok" by simp
      with ne show "longs h' input_ids \<noteq> longs h input_ids" by auto
    qed
    have e: "\<forall>t. targets = Some t \<and> \<not> masked_indices L ! b ! i \<longrightarrow> longs h' t ! b ! i = - 100"
      using f(10) h' by simp
    have g: "\<forall>t. targets = Some t \<and> \<not> masked_indices L ! b ! i
                    \<and> longs h t ! b ! i \<noteq> - 100 \<longrightarrow> longs h' t \<noteq> longs h t"
      using e by auto
    from a c e g show "(targets \<noteq> Some input_ids \<longrightarrow>
                    longs h' input_ids ! b ! i =
                      (if indices_random L ! b ! i then random_words L ! b ! i
                       else if indices_replaced L ! b ! i then mask_token_id tok
                       else longs h input_ids ! b ! i))
               \<and> (targets \<noteq> Some input_ids \<and> indices_replaced L ! b ! i
                    \<and> longs h input_ids ! b ! i \<noteq> mask_token_id tok \<longrightarrow>
                    longs h' input_ids \<noteq> longs h input_ids)
               \<and> (\<forall>t. targets = Some t \<and> \<not> masked_indices L ! b ! i \<longrightarrow>
                    longs h' t ! b ! i = - 100)
               \<and> (\<forall>t. targets = Some t \<and> \<not> masked_indices L ! b ! i
                    \<and> longs h t ! b ! i \<noteq> - 100 \<longrightarrow> longs h' t \<noteq> longs h t)" by blast
  qed
  have 5: "\<forall>(ext :: ('img, 'p) components) self hh s dd L.
            forward_locals_of ext self hh s dd = Inr L \<longrightarrow>
              text_ref L = fresh hh
            \<and> input_ids_ref (mlm L) \<noteq> text_ref L \<and> labels_ref (mlm L) \<noteq> text_ref L
            \<and> labels_ref (mlm L) \<noteq> input_ids_ref (mlm L)
            \<and> longs (mlm_heap (mlm L)) (text_ref L) = text_input_ids (feats L)
            \<and> (\<forall>x < fresh hh. longs (mlm_heap (mlm L)) x = longs hh x)
            \<and> (\<exists>m mh. mask_ids (tokenizer_ids self) mh (input_ids_ref (mlm L)) (vocab_size self)
                    (Some (labels_ref (mlm L))) None (Some m) (mask_draw dd)
                  = Inr (mlm_heap (mlm L),
                         IdsLabels (input_ids_ref (mlm L)) (labels_ref (mlm L)))
                \<and> longs mh (input_ids_ref (mlm L)) = text_input_ids (feats L)
                \<and> longs mh (labels_ref (mlm L)) = text_input_ids (feats L))"
  proof (intro allI impI)
    fix ext :: "('img, 'p) components" and self hh s dd L
    assume r: "forward_locals_of ext self hh s dd = Inr L"
    note fh = forward_heap[OF r]
    from fh(8) have ex: "\<exists>m mh. mask_ids (tokenizer_ids self) mh (input_ids_ref (mlm L))
                    (vocab_size self) (Some (labels_ref (mlm L))) None (Some m) (mask_draw dd)
                  = Inr (mlm_heap (mlm L),
                         IdsLabels (input_ids_ref (mlm L)) (labels_ref (mlm L)))
                \<and> longs mh (input_ids_ref (mlm L)) = text_input_ids (feats L)
                \<and> longs mh (labels_ref (mlm L)) = text_input_ids (feats L)" by blast
    have ne: "input_ids_ref (mlm L) \<noteq> text_ref L \<and> labels_ref (mlm L) \<noteq> text_ref L
            \<and> labels_ref (mlm L) \<noteq> input_ids_ref (mlm L)"
      by (simp add: fh(1,2,3))
    from fh(1) ne fh(4) fh(5) ex
    show "text_ref L = fresh hh
            \<and> input_ids_ref (mlm L) \<noteq> text_ref L \<and> labels_ref (mlm L) \<noteq> text_ref L
            \<and> labels_ref (mlm L) \<noteq> input_ids_ref (mlm L)
            \<and> longs (mlm_heap (mlm L)) (text_ref L) = text_input_ids (feats L)
            \<and> (\<forall>x < fresh hh. longs (mlm_heap (mlm L)) x = longs hh x)
            \<and> (\<exists>m mh. mask_ids (tokenizer_ids self) mh (input_ids_ref (mlm L)) (vocab_size self)
                    (Some (labels_ref (mlm L))) None (Some m) (mask_draw dd)
                  = Inr (mlm_heap (mlm L),
                         IdsLabels (input_ids_ref (mlm L)) (labels_ref (mlm L)))
                \<and> longs mh (input_ids_ref (mlm L)) = text_input_ids (feats L)
                \<and> longs mh (labels_ref (mlm L)) = text_input_ids (feats L))"
      by blast
  qed
  from 1 2 3 L h' 4 5 show ?thesis by blast
qed

theorem mask_in_place_witness:
  "\<exists>h' L. mask_ids ex_tok ex_heap 0 1000 (Some 1) None (Some ex_prob) ex_draws
         = Inr (h', IdsLabels 0 1)
     \<and> longs ex_heap 0 = [[101, 7, 8, 0]]
     \<and> longs h' 0 = [[101, 103, 5, 0]]
     \<and> longs h' 1 = [[- 100, 7, 8, - 100]]
     \<and> longs h' 0 \<noteq> longs ex_heap 0
     \<and> fresh h' = fresh ex_heap
     \<and> forward_locals_of ex_ext ex_model ex_heap ex_samples ex_fdraws = Inr L
     \<and> text_ref L = 2 \<and> input_ids_ref (mlm L) = 3 \<and> labels_ref (mlm L) = 4
     \<and> longs (mlm_heap (mlm L)) (text_ref L) = [[101, 97, 98, 0], [101, 98, 0, 0]]
     \<and> mlm_input_ids (mlm L) = [[101, 103, 5, 0], [101, 103, 0, 0]]
     \<and> longs (mlm_heap (mlm L)) 0 = longs ex_heap 0"
proof -
  obtain K where K: "mask_locals_of ex_tok ex_heap 0 1000 (Some 1) None (Some ex_prob) ex_draws
      = Inr K"
    and k: "longs (heap_out K) 0 = [[101, 103, 5, 0]]"
      "longs (heap_out K) 1 = [[- 100, 7, 8, - 100]]"
      "indices_replaced K = [[False, True, False, False]]"
    using ex_run by simp
  have m: "mask_ids ex_tok ex_heap 0 1000 (Some 1) None (Some ex_prob) ex_draws
      = Inr (heap_out K, returned K)"
    using K by (simp add: mask_ids_def)
  note t = mask_in_place[OF m, where ?'img = nat and ?'p = unit]
  obtain L where L: "forward_locals_of ex_ext ex_model ex_heap ex_samples ex_fdraws = Inr L"
    and l: "feats L = ex_feats" "input_ids_ref (mlm L) = 3" "labels_ref (mlm L) = 4"
      "mlm_input_ids (mlm L) = [[101, 103, 5, 0], [101, 103, 0, 0]]"
    using ex_forward by blast
  from t have r: "returned K = IdsLabels 0 1" by simp
  from t have f: "fresh (heap_out K) = fresh ex_heap" by blast
  have o: "longs ex_heap 0 = [[101, 7, 8, 0]]" by (simp add: ex_heap_def)
  have ne: "longs (heap_out K) 0 \<noteq> longs ex_heap 0" by (simp add: k o)
  from t L have fw: "text_ref L = fresh ex_heap
      \<and> longs (mlm_heap (mlm L)) (text_ref L) = text_input_ids (feats L)
      \<and> (\<forall>x < fresh ex_heap. longs (mlm_heap (mlm L)) x = longs ex_heap x)" by blast
  then have 1: "text_ref L = 2" by (simp add: ex_heap_def)
  from fw have "longs (mlm_heap (mlm L)) (text_ref L) = text_input_ids (feats L)" by blast
  then have 2: "longs (mlm_heap (mlm L)) (text_ref L) = [[101, 97, 98, 0], [101, 98, 0, 0]]"
    by (simp add: l ex_feats_def)
  from fw have 3: "longs (mlm_heap (mlm L)) 0 = longs ex_heap 0" by (simp add: ex_heap_def)
  from m r k o ne f L 1 l 2 3 show ?thesis by auto
qed

end
